theory Spec2Isabelle
  imports Complex_Main "HOL-Library.Sublist"
begin


section \<open>Python exceptions, framework calls and the effect monad\<close>

text \<open>
  The two notebooks are straight-line scripts over a deep-learning framework. The
  framework itself (tensors, autograd, optimizers, metrics) is not part of the
  repository, so every framework call is a parameter of the model: a function on an
  abstract framework state \<open>'st\<close> that either raises an exception of type \<open>'e\<close> or
  returns a value, and in both cases leaves a new framework state. Tensors are values
  of an abstract type \<open>'t\<close>, Python floats of an abstract type \<open>'f\<close> (no real-number
  idealisation: float addition and division are parameters as well).

  Exceptions: the two exceptions the notebooks' own code can raise, and any exception
  raised by a framework call. \<open>UnboundLocalError\<close> is Python's subclass of
  \<open>NameError\<close> for a local variable read before assignment.
\<close>

datatype 'e pyexn = ZeroDivisionError | UnboundLocalError | Raised 'e


text \<open>
  Every call the program makes is logged, with its arguments and its result, together
  with the place of the program that made it: outside the epoch loop, in the body of
  epoch \<open>k\<close>, or inside the training or validation loop of epoch \<open>k\<close>.
\<close>

datatype site = Top | Epoch nat | TrainLoop nat | ValLoop nat

datatype loader_id = TrainLoader | ValLoader

datatype ('t, 'f, 'e) event =
    EModelTo
  | ETrainMode
  | EEvalMode
  | EIter loader_id
  | ETensorTo 't 't
  | EZeroGrad
  | EForward 't 't
  | ECriterion 't 't 't
  | EBackward 't
  | EStep
  | EItem 't 'f
  | ENoGradEnter
  | ENoGradExit
  | EMax 't 't
  | ENumpy 't "int list"
  | EAccuracy "int list" "int list" 'f
  | ESize 't int
  | ECountEqual 't 't int
  | EPrint nat int 'f 'f 'f
  | EZoo string bool
  | EInFeatures "string list" int
  | ELinear int int
  | EAdam "string list list"
  | ECrossEntropyLoss
  | EPrecision "int list" "int list" 'f
  | EPlot string "'f list"
  | EFigure string string
  | EConfusionMatrix "int list" "int list" string "'f list list"
  | EConfusionDisplay "'f list list" "string list"
  | EDisplayPlot "'f list list" "string list"
  | ETitle string
  | EShow
  | ESave "(string \<times> 't) list" string
  | ERaise 'e

type_synonym ('st, 'e, 'a) fcall = "'st \<Rightarrow> ('e + 'a) \<times> 'st"

type_synonym ('st, 't, 'f, 'e, 'a) prog =
  "'st \<Rightarrow> ('e pyexn + 'a) \<times> 'st \<times> (site \<times> ('t, 'f, 'e) event) list"

definition return :: "'a \<Rightarrow> ('st, 't, 'f, 'e, 'a) prog" where
  "return a = (\<lambda>s. (Inr a, s, []))"

definition raise :: "'e pyexn \<Rightarrow> ('st, 't, 'f, 'e, 'a) prog" where
  "raise x = (\<lambda>s. (Inl x, s, []))"

definition bind ::
  "('st, 't, 'f, 'e, 'a) prog \<Rightarrow> ('a \<Rightarrow> ('st, 't, 'f, 'e, 'b) prog) \<Rightarrow> ('st, 't, 'f, 'e, 'b) prog" where
  "bind m f = (\<lambda>s. case m s of
       (Inl x, s1, ev1) \<Rightarrow> (Inl x, s1, ev1)
     | (Inr a, s1, ev1) \<Rightarrow> (case f a s1 of (r, s2, ev2) \<Rightarrow> (r, s2, ev1 @ ev2)))"

definition emit :: "site \<Rightarrow> ('t, 'f, 'e) event \<Rightarrow> ('st, 't, 'f, 'e, unit) prog" where
  "emit c ev = (\<lambda>s. (Inr (), s, [(c, ev)]))"

definition call ::
  "site \<Rightarrow> ('st, 'e, 'a) fcall \<Rightarrow> ('a \<Rightarrow> ('t, 'f, 'e) event) \<Rightarrow> ('st, 't, 'f, 'e, 'a) prog" where
  "call c f mk = (\<lambda>s. case f s of
       (Inl x, s1) \<Rightarrow> (Inl (Raised x), s1, [(c, ERaise x)])
     | (Inr a, s1) \<Rightarrow> (Inr a, s1, [(c, mk a)]))"

text \<open>A Python \<open>for x in xs\<close> loop whose body updates the local variables \<open>acc\<close>.\<close>

fun for_each ::
  "'a list \<Rightarrow> ('a \<Rightarrow> 'b \<Rightarrow> ('st, 't, 'f, 'e, 'b) prog) \<Rightarrow> 'b \<Rightarrow> ('st, 't, 'f, 'e, 'b) prog" where
  "for_each [] body acc = return acc"
| "for_each (x # xs) body acc = bind (body x acc) (for_each xs body)"

section \<open>The framework objects handed to the training loop\<close>

text \<open>
  \<open>model\<close>, \<open>optimizer\<close> and \<open>criterion\<close> are arguments of \<open>entrenar_modelo\<close>
  (globals in the VGG19 notebook); \<open>torch.max\<close>, \<open>accuracy_score\<close>, \<open>torch.no_grad\<close>
  and the tensor methods are library functions. Python's float arithmetic is given by
  \<open>fzero\<close> (the literal \<open>0.0\<close>), \<open>fadd\<close>, \<open>fdiv\<close> (float by non-zero int) and
  \<open>int_truediv\<close> (int by non-zero int).
\<close>

record ('st, 't, 'f, 'e) framework =
  model_to :: "('st, 'e, unit) fcall"
  model_train :: "('st, 'e, unit) fcall"
  model_eval :: "('st, 'e, unit) fcall"
  tensor_to :: "'t \<Rightarrow> ('st, 'e, 't) fcall"
  zero_grad :: "('st, 'e, unit) fcall"
  forward :: "'t \<Rightarrow> ('st, 'e, 't) fcall"
  criterion :: "'t \<Rightarrow> 't \<Rightarrow> ('st, 'e, 't) fcall"
  backward :: "'t \<Rightarrow> ('st, 'e, unit) fcall"
  opt_step :: "('st, 'e, unit) fcall"
  item :: "'t \<Rightarrow> ('st, 'e, 'f) fcall"
  no_grad_enter :: "'st \<Rightarrow> 'st"
  no_grad_exit :: "'st \<Rightarrow> 'st"
  torch_max :: "'t \<Rightarrow> ('st, 'e, 't) fcall"
  to_numpy :: "'t \<Rightarrow> ('st, 'e, int list) fcall"
  accuracy_score :: "int list \<Rightarrow> int list \<Rightarrow> ('st, 'e, 'f) fcall"
  size0 :: "'t \<Rightarrow> ('st, 'e, int) fcall"
  count_equal :: "'t \<Rightarrow> 't \<Rightarrow> ('st, 'e, int) fcall"
  fzero :: "'f"
  fadd :: "'f \<Rightarrow> 'f \<Rightarrow> 'f"
  fdiv :: "'f \<Rightarrow> int \<Rightarrow> 'f"
  int_truediv :: "int \<Rightarrow> int \<Rightarrow> 'f"

text \<open>
  A data loader: \<open>len(loader)\<close>, and the finite sequence of (images, labels) batches it
  yields when it is traversed in epoch \<open>k\<close> (a shuffling loader yields a different
  sequence each time).
\<close>

record 't loader =
  loader_len :: nat
  loader_batches :: "nat \<Rightarrow> ('t \<times> 't) list"

section \<open>The training loop\<close>

text \<open>\<open>x / n\<close> for a float \<open>x\<close> and an int \<open>n\<close>.\<close>

definition py_fdiv :: "('st, 't, 'f, 'e) framework \<Rightarrow> 'f \<Rightarrow> int \<Rightarrow> ('st, 't, 'f, 'e, 'f) prog" where
  "py_fdiv fw x n = (if n = 0 then raise ZeroDivisionError else return (fdiv fw x n))"

text \<open>\<open>a / b\<close> for ints \<open>a\<close> and \<open>b\<close>.\<close>

definition py_truediv :: "('st, 't, 'f, 'e) framework \<Rightarrow> int \<Rightarrow> int \<Rightarrow> ('st, 't, 'f, 'e, 'f) prog" where
  "py_truediv fw a b = (if b = 0 then raise ZeroDivisionError else return (int_truediv fw a b))"

text \<open>
  The body of the training loop; the text is the same in both notebooks
  (\<open>entrenar_modelo\<close>, and Paso 5 of the VGG19 notebook).
\<close>

definition train_batch ::
  "('st, 't, 'f, 'e) framework \<Rightarrow> nat \<Rightarrow> 't \<times> 't \<Rightarrow> 'f \<Rightarrow> ('st, 't, 'f, 'e, 'f) prog" where
  "train_batch fw k batch running_loss =
     bind (call (TrainLoop k) (tensor_to fw (fst batch)) (ETensorTo (fst batch))) (\<lambda>images.
     bind (call (TrainLoop k) (tensor_to fw (snd batch)) (ETensorTo (snd batch))) (\<lambda>labels.
     bind (call (TrainLoop k) (zero_grad fw) (\<lambda>_. EZeroGrad)) (\<lambda>_.
     bind (call (TrainLoop k) (forward fw images) (EForward images)) (\<lambda>outputs.
     bind (call (TrainLoop k) (criterion fw outputs labels) (ECriterion outputs labels)) (\<lambda>loss.
     bind (call (TrainLoop k) (backward fw loss) (\<lambda>_. EBackward loss)) (\<lambda>_.
     bind (call (TrainLoop k) (opt_step fw) (\<lambda>_. EStep)) (\<lambda>_.
     bind (call (TrainLoop k) (item fw loss) (EItem loss)) (\<lambda>v.
     return (fadd fw running_loss v)))))))))"

definition train_pass ::
  "('st, 't, 'f, 'e) framework \<Rightarrow> nat \<Rightarrow> 't loader \<Rightarrow> ('st, 't, 'f, 'e, 'f) prog" where
  "train_pass fw k train_loader =
     bind (emit (Epoch k) (EIter TrainLoader)) (\<lambda>_.
     for_each (loader_batches train_loader k) (train_batch fw k) (fzero fw))"

text \<open>
  \<open>with torch.no_grad():\<close> the context manager is entered, the block runs, and the
  manager is left whether the block returned or raised; an exception of the block is
  raised again.
\<close>

definition with_no_grad ::
  "('st, 't, 'f, 'e) framework \<Rightarrow> site \<Rightarrow> ('st, 't, 'f, 'e, 'a) prog \<Rightarrow> ('st, 't, 'f, 'e, 'a) prog" where
  "with_no_grad fw c block = (\<lambda>s. case block (no_grad_enter fw s) of
       (r, s1, ev) \<Rightarrow> (r, no_grad_exit fw s1, (c, ENoGradEnter) # ev @ [(c, ENoGradExit)]))"

subsection \<open>\<open>entrenar_modelo\<close> (comparison notebook, Paso 4)\<close>

record 'f locals =
  train_losses :: "'f list"
  val_losses :: "'f list"
  val_accuracies :: "'f list"
  y_true :: "int list option"
  y_pred :: "int list option"

definition val_batch ::
  "('st, 't, 'f, 'e) framework \<Rightarrow> nat \<Rightarrow> 't \<times> 't \<Rightarrow> 'f \<times> int list \<times> int list
     \<Rightarrow> ('st, 't, 'f, 'e, 'f \<times> int list \<times> int list) prog" where
  "val_batch fw k batch acc =
     (case acc of (val_loss, yt, yp) \<Rightarrow>
     bind (call (ValLoop k) (tensor_to fw (fst batch)) (ETensorTo (fst batch))) (\<lambda>images.
     bind (call (ValLoop k) (tensor_to fw (snd batch)) (ETensorTo (snd batch))) (\<lambda>labels.
     bind (call (ValLoop k) (forward fw images) (EForward images)) (\<lambda>outputs.
     bind (call (ValLoop k) (criterion fw outputs labels) (ECriterion outputs labels)) (\<lambda>loss.
     bind (call (ValLoop k) (item fw loss) (EItem loss)) (\<lambda>v.
     bind (call (ValLoop k) (torch_max fw outputs) (EMax outputs)) (\<lambda>preds.
     bind (call (ValLoop k) (to_numpy fw labels) (ENumpy labels)) (\<lambda>labels_np.
     bind (call (ValLoop k) (to_numpy fw preds) (ENumpy preds)) (\<lambda>preds_np.
     return (fadd fw val_loss v, yt @ labels_np, yp @ preds_np))))))))))"

definition val_pass ::
  "('st, 't, 'f, 'e) framework \<Rightarrow> nat \<Rightarrow> 't loader
     \<Rightarrow> ('st, 't, 'f, 'e, 'f \<times> int list \<times> int list) prog" where
  "val_pass fw k val_loader =
     with_no_grad fw (Epoch k)
       (bind (emit (Epoch k) (EIter ValLoader)) (\<lambda>_.
        for_each (loader_batches val_loader k) (val_batch fw k) (fzero fw, [], [])))"

definition epoch_body ::
  "('st, 't, 'f, 'e) framework \<Rightarrow> 't loader \<Rightarrow> 't loader \<Rightarrow> int \<Rightarrow> nat \<Rightarrow> 'f locals
     \<Rightarrow> ('st, 't, 'f, 'e, 'f locals) prog" where
  "epoch_body fw train_loader val_loader epochs k l =
     bind (call (Epoch k) (model_train fw) (\<lambda>_. ETrainMode)) (\<lambda>_.
     bind (train_pass fw k train_loader) (\<lambda>running_loss.
     bind (py_fdiv fw running_loss (int (loader_len train_loader))) (\<lambda>train_loss.
     bind (call (Epoch k) (model_eval fw) (\<lambda>_. EEvalMode)) (\<lambda>_.
     bind (val_pass fw k val_loader) (\<lambda>(val_loss, yt, yp).
     bind (py_fdiv fw val_loss (int (loader_len val_loader))) (\<lambda>val_loss.
     bind (call (Epoch k) (accuracy_score fw yt yp) (EAccuracy yt yp)) (\<lambda>accuracy.
     bind (emit (Epoch k) (EPrint (k + 1) epochs train_loss val_loss accuracy)) (\<lambda>_.
     return \<lparr>train_losses = train_losses l @ [train_loss],
             val_losses = val_losses l @ [val_loss],
             val_accuracies = val_accuracies l @ [accuracy],
             y_true = Some yt, y_pred = Some yp\<rparr>))))))))"

text \<open>\<open>for epoch in range(epochs)\<close>, from the locals as they are before the loop.\<close>

definition entrenar_epochs ::
  "('st, 't, 'f, 'e) framework \<Rightarrow> 't loader \<Rightarrow> 't loader \<Rightarrow> int
     \<Rightarrow> ('st, 't, 'f, 'e, 'f locals) prog" where
  "entrenar_epochs fw train_loader val_loader epochs =
     for_each [0..<nat epochs] (epoch_body fw train_loader val_loader epochs)
       \<lparr>train_losses = [], val_losses = [], val_accuracies = [],
        y_true = None, y_pred = None\<rparr>"

text \<open>
  The returned tuple, without its first component \<open>model\<close> (the object that was passed
  in; its state is the framework state). Reading \<open>y_true\<close> or \<open>y_pred\<close> before any
  epoch has bound them raises \<open>UnboundLocalError\<close>.
\<close>

definition entrenar_modelo ::
  "('st, 't, 'f, 'e) framework \<Rightarrow> 't loader \<Rightarrow> 't loader \<Rightarrow> int \<Rightarrow> string
     \<Rightarrow> ('st, 't, 'f, 'e, 'f list \<times> 'f list \<times> 'f list \<times> int list \<times> int list) prog" where
  "entrenar_modelo fw train_loader val_loader epochs nombre =
     bind (call Top (model_to fw) (\<lambda>_. EModelTo)) (\<lambda>_.
     bind (entrenar_epochs fw train_loader val_loader epochs) (\<lambda>l.
     case y_true l of
       None \<Rightarrow> raise UnboundLocalError
     | Some yt \<Rightarrow> (case y_pred l of
         None \<Rightarrow> raise UnboundLocalError
       | Some yp \<Rightarrow> return (train_losses l, val_losses l, val_accuracies l, yt, yp))))"

subsection \<open>Paso 5 of the VGG19 notebook\<close>

definition vgg_val_batch ::
  "('st, 't, 'f, 'e) framework \<Rightarrow> nat \<Rightarrow> 't \<times> 't \<Rightarrow> 'f \<times> int \<times> int
     \<Rightarrow> ('st, 't, 'f, 'e, 'f \<times> int \<times> int) prog" where
  "vgg_val_batch fw k batch acc =
     (case acc of (val_loss, correct, total_n) \<Rightarrow>
     bind (call (ValLoop k) (tensor_to fw (fst batch)) (ETensorTo (fst batch))) (\<lambda>images.
     bind (call (ValLoop k) (tensor_to fw (snd batch)) (ETensorTo (snd batch))) (\<lambda>labels.
     bind (call (ValLoop k) (forward fw images) (EForward images)) (\<lambda>outputs.
     bind (call (ValLoop k) (criterion fw outputs labels) (ECriterion outputs labels)) (\<lambda>loss.
     bind (call (ValLoop k) (item fw loss) (EItem loss)) (\<lambda>v.
     bind (call (ValLoop k) (torch_max fw outputs) (EMax outputs)) (\<lambda>predicted.
     bind (call (ValLoop k) (size0 fw labels) (ESize labels)) (\<lambda>n.
     bind (call (ValLoop k) (count_equal fw predicted labels) (ECountEqual predicted labels)) (\<lambda>c.
     return (fadd fw val_loss v, correct + c, total_n + n))))))))))"

definition vgg_val_pass ::
  "('st, 't, 'f, 'e) framework \<Rightarrow> nat \<Rightarrow> 't loader
     \<Rightarrow> ('st, 't, 'f, 'e, 'f \<times> int \<times> int) prog" where
  "vgg_val_pass fw k val_loader =
     with_no_grad fw (Epoch k)
       (bind (emit (Epoch k) (EIter ValLoader)) (\<lambda>_.
        for_each (loader_batches val_loader k) (vgg_val_batch fw k) (fzero fw, 0, 0)))"

definition vgg_epoch_body ::
  "('st, 't, 'f, 'e) framework \<Rightarrow> 't loader \<Rightarrow> 't loader \<Rightarrow> int \<Rightarrow> nat \<Rightarrow> 'f list \<times> 'f list
     \<Rightarrow> ('st, 't, 'f, 'e, 'f list \<times> 'f list) prog" where
  "vgg_epoch_body fw train_loader val_loader epochs k l =
     bind (call (Epoch k) (model_train fw) (\<lambda>_. ETrainMode)) (\<lambda>_.
     bind (train_pass fw k train_loader) (\<lambda>running_loss.
     bind (py_fdiv fw running_loss (int (loader_len train_loader))) (\<lambda>epoch_loss.
     bind (call (Epoch k) (model_eval fw) (\<lambda>_. EEvalMode)) (\<lambda>_.
     bind (vgg_val_pass fw k val_loader) (\<lambda>(val_loss, correct, total_n).
     bind (py_fdiv fw val_loss (int (loader_len val_loader))) (\<lambda>val_loss.
     bind (py_truediv fw (100 * correct) total_n) (\<lambda>accuracy.
     bind (emit (Epoch k) (EPrint (k + 1) epochs epoch_loss val_loss accuracy)) (\<lambda>_.
     return (fst l @ [epoch_loss], snd l @ [val_loss])))))))))"

definition paso5 ::
  "('st, 't, 'f, 'e) framework \<Rightarrow> 't loader \<Rightarrow> 't loader \<Rightarrow> int
     \<Rightarrow> ('st, 't, 'f, 'e, 'f list \<times> 'f list) prog" where
  "paso5 fw train_loader val_loader epochs =
     for_each [0..<nat epochs] (vgg_epoch_body fw train_loader val_loader epochs) ([], [])"


section \<open>The notebooks around the training loop\<close>

subsection \<open>Model objects\<close>

text \<open>
  Of a framework module the notebooks use: its named parameters, each with a value and
  the flag \<open>requires_grad\<close> (the name is the path of attribute names, as
  \<open>fc.weight\<close>); its linear layers with \<open>in_features\<close> and \<open>out_features\<close>;
  everything else (buffers, mode, architecture) is kept abstract in \<open>other\<close>.
\<close>

record 't param =
  pvalue :: "'t"
  requires_grad :: bool

record ('t, 'x) module =
  named_parameters :: "(string list \<times> 't param) list"
  linears :: "(string list \<times> int \<times> int) list"
  other :: "'x"

text \<open>\<open>for param in m.parameters(): param.requires_grad = False\<close>\<close>

definition freeze_all :: "('t, 'x) module \<Rightarrow> ('t, 'x) module" where
  "freeze_all m =
     m\<lparr>named_parameters := map (\<lambda>(n, p). (n, p\<lparr>requires_grad := False\<rparr>)) (named_parameters m)\<rparr>"

text \<open>\<open>for param in m.<pre>.parameters(): param.requires_grad = False\<close>\<close>

definition freeze_under :: "string list \<Rightarrow> ('t, 'x) module \<Rightarrow> ('t, 'x) module" where
  "freeze_under pre m =
     m\<lparr>named_parameters :=
         map (\<lambda>(n, p). if prefix pre n then (n, p\<lparr>requires_grad := False\<rparr>) else (n, p))
           (named_parameters m)\<rparr>"

text \<open>
  \<open>m.<pre> = nn.Linear(n_in, n_out)\<close>: the parameters of the layer that was at \<open>pre\<close>
  leave the module, and the weight \<open>w\<close> and bias \<open>b\<close> of the new layer enter it, with
  \<open>requires_grad = True\<close> as \<open>nn.Linear\<close> creates them.
\<close>

definition set_layer ::
  "string list \<Rightarrow> int \<Rightarrow> int \<Rightarrow> 't \<Rightarrow> 't \<Rightarrow> ('t, 'x) module \<Rightarrow> ('t, 'x) module" where
  "set_layer pre n_in n_out w b m =
     m\<lparr>named_parameters :=
         filter (\<lambda>(n, p). \<not> prefix pre n) (named_parameters m)
         @ [(pre @ [''weight''], \<lparr>pvalue = w, requires_grad = True\<rparr>),
            (pre @ [''bias''], \<lparr>pvalue = b, requires_grad = True\<rparr>)],
       linears := (pre, n_in, n_out) # filter (\<lambda>(q, io). \<not> prefix pre q) (linears m)\<rparr>"

text \<open>\<open>m.<pre>.parameters()\<close>, as the names of the parameters.\<close>

definition parameters_under :: "string list \<Rightarrow> ('t, 'x) module \<Rightarrow> string list list" where
  "parameters_under pre m = map fst (filter (\<lambda>(n, p). prefix pre n) (named_parameters m))"

definition param_value :: "('t, 'x) module \<Rightarrow> string list \<Rightarrow> 't option" where
  "param_value m n = map_option pvalue (map_of (named_parameters m) n)"

definition frozen :: "('t, 'x) module \<Rightarrow> string list \<Rightarrow> bool" where
  "frozen m n = (map_option requires_grad (map_of (named_parameters m) n) = Some False)"

definition layer_shape :: "('t, 'x) module \<Rightarrow> string list \<Rightarrow> (int \<times> int) option" where
  "layer_shape m pre = map_of (linears m) pre"

subsection \<open>The interpreter state and the framework\<close>

text \<open>
  The notebooks' variables that hold a model, the module each of them refers to, and
  the rest of the framework's state (devices, random numbers, gradients, optimizer
  state, files, figures), which stays abstract.
\<close>

datatype model_var = Resnet18 | Resnet34 | Vgg19 | Model

record ('t, 'x, 'r) pystate =
  models :: "model_var \<Rightarrow> ('t, 'x) module"
  rest :: "'r"

type_synonym ('t, 'x, 'r, 'e, 'a) mcall =
  "('t, 'x) module \<Rightarrow> 'r \<Rightarrow> ('e + 'a) \<times> ('t, 'x) module \<times> 'r"

text \<open>
  The framework and the metric and plotting libraries. A method of a model or of its
  optimizer works on that model's module and on the rest of the state; every other
  function works on the rest of the state alone. \<open>lib\<close> holds the tensor functions,
  \<open>torch.max\<close>, \<open>torch.no_grad\<close>, \<open>accuracy_score\<close> and the float arithmetic (its
  fields for a model, an optimizer and a criterion are not used).
\<close>

record ('t, 'f, 'e, 'x, 'r) torch =
  t_zoo :: "string \<Rightarrow> bool \<Rightarrow> ('r, 'e, ('t, 'x) module) fcall"
  t_in_features :: "string list \<Rightarrow> ('t, 'x) module \<Rightarrow> ('r, 'e, int) fcall"
  t_linear :: "int \<Rightarrow> int \<Rightarrow> ('r, 'e, 't \<times> 't) fcall"
  t_adam :: "string list list \<Rightarrow> ('r, 'e, unit) fcall"
  t_model_to :: "('t, 'x, 'r, 'e, unit) mcall"
  t_train :: "('t, 'x, 'r, 'e, unit) mcall"
  t_eval :: "('t, 'x, 'r, 'e, unit) mcall"
  t_zero_grad :: "string list list \<Rightarrow> ('t, 'x, 'r, 'e, unit) mcall"
  t_forward :: "'t \<Rightarrow> ('t, 'x, 'r, 'e, 't) mcall"
  t_backward :: "'t \<Rightarrow> ('t, 'x, 'r, 'e, unit) mcall"
  t_step :: "string list list \<Rightarrow> ('t, 'x, 'r, 'e, unit) mcall"
  t_cross_entropy :: "'t \<Rightarrow> 't \<Rightarrow> ('r, 'e, 't) fcall"
  t_state_dict :: "('t, 'x) module \<Rightarrow> (string \<times> 't) list"
  t_save :: "(string \<times> 't) list \<Rightarrow> string \<Rightarrow> ('r, 'e, unit) fcall"
  sk_precision_score :: "int list \<Rightarrow> int list \<Rightarrow> ('r, 'e, 'f) fcall"
  sk_confusion_matrix :: "int list \<Rightarrow> int list \<Rightarrow> string \<Rightarrow> ('r, 'e, 'f list list) fcall"
  sk_display_plot :: "'f list list \<Rightarrow> string list \<Rightarrow> ('r, 'e, unit) fcall"
  lib :: "('r, 't, 'f, 'e) framework"

definition lift_rest :: "('r, 'e, 'a) fcall \<Rightarrow> (('t, 'x, 'r) pystate, 'e, 'a) fcall" where
  "lift_rest f = (\<lambda>s. case f (rest s) of (res, r1) \<Rightarrow> (res, s\<lparr>rest := r1\<rparr>))"

definition lift_model ::
  "model_var \<Rightarrow> ('t, 'x, 'r, 'e, 'a) mcall \<Rightarrow> (('t, 'x, 'r) pystate, 'e, 'a) fcall" where
  "lift_model v f = (\<lambda>s. case f (models s v) (rest s) of
       (res, m1, r1) \<Rightarrow> (res, s\<lparr>models := (models s)(v := m1), rest := r1\<rparr>))"

text \<open>
  The objects that a call \<open>entrenar_modelo(model, ..., optimizer, criterion, ...)\<close>
  receives: the model held by the variable \<open>v\<close>, an Adam optimizer over the parameters
  named \<open>ps\<close>, and \<open>nn.CrossEntropyLoss()\<close>.
\<close>

definition bound ::
  "('t, 'f, 'e, 'x, 'r) torch \<Rightarrow> model_var \<Rightarrow> string list list
     \<Rightarrow> (('t, 'x, 'r) pystate, 't, 'f, 'e) framework" where
  "bound T v ps = \<lparr>
     model_to = lift_model v (t_model_to T),
     model_train = lift_model v (t_train T),
     model_eval = lift_model v (t_eval T),
     tensor_to = (\<lambda>t. lift_rest (tensor_to (lib T) t)),
     zero_grad = lift_model v (t_zero_grad T ps),
     forward = (\<lambda>x. lift_model v (t_forward T x)),
     criterion = (\<lambda>out y. lift_rest (t_cross_entropy T out y)),
     backward = (\<lambda>l. lift_model v (t_backward T l)),
     opt_step = lift_model v (t_step T ps),
     item = (\<lambda>l. lift_rest (item (lib T) l)),
     no_grad_enter = (\<lambda>s. s\<lparr>rest := no_grad_enter (lib T) (rest s)\<rparr>),
     no_grad_exit = (\<lambda>s. s\<lparr>rest := no_grad_exit (lib T) (rest s)\<rparr>),
     torch_max = (\<lambda>out. lift_rest (torch_max (lib T) out)),
     to_numpy = (\<lambda>t. lift_rest (to_numpy (lib T) t)),
     accuracy_score = (\<lambda>yt yp. lift_rest (accuracy_score (lib T) yt yp)),
     size0 = (\<lambda>t. lift_rest (size0 (lib T) t)),
     count_equal = (\<lambda>p y. lift_rest (count_equal (lib T) p y)),
     fzero = fzero (lib T),
     fadd = fadd (lib T),
     fdiv = fdiv (lib T),
     int_truediv = int_truediv (lib T)\<rparr>"

text \<open>Reading and assigning a variable that holds a model.\<close>

definition get_model ::
  "model_var \<Rightarrow> (('t, 'x, 'r) pystate, 't, 'f, 'e, ('t, 'x) module) prog" where
  "get_model v = (\<lambda>s. (Inr (models s v), s, []))"

definition set_model ::
  "model_var \<Rightarrow> ('t, 'x) module \<Rightarrow> (('t, 'x, 'r) pystate, 't, 'f, 'e, unit) prog" where
  "set_model v m = (\<lambda>s. (Inr (), s\<lparr>models := (models s)(v := m)\<rparr>, []))"

subsection \<open>Comparison notebook, Paso 5: the three models\<close>

text \<open>
  The block for ResNet18 and the block for ResNet34 have the same text but for the
  zoo function and the variable; it returns the names of the parameters the optimizer
  was built over.
\<close>

definition setup_resnet ::
  "('t, 'f, 'e, 'x, 'r) torch \<Rightarrow> model_var \<Rightarrow> string \<Rightarrow> string list
     \<Rightarrow> (('t, 'x, 'r) pystate, 't, 'f, 'e, string list list) prog" where
  "setup_resnet T v name class_names =
     bind (call Top (lift_rest (t_zoo T name True)) (\<lambda>m. EZoo name True)) (\<lambda>m.
     bind (set_model v m) (\<lambda>_.
     bind (set_model v (freeze_all m)) (\<lambda>_.
     bind (call Top (lift_rest (t_in_features T [''fc''] (freeze_all m))) (EInFeatures [''fc''])) (\<lambda>n_in.
     bind (call Top (lift_rest (t_linear T n_in (int (length class_names))))
             (\<lambda>wb. ELinear n_in (int (length class_names)))) (\<lambda>wb.
     bind (set_model v (set_layer [''fc''] n_in (int (length class_names)) (fst wb) (snd wb)
             (freeze_all m))) (\<lambda>_.
     bind (get_model v) (\<lambda>m1.
     bind (call Top (lift_rest (t_adam T (parameters_under [''fc''] m1)))
             (\<lambda>_. EAdam (parameters_under [''fc''] m1))) (\<lambda>_.
     return (parameters_under [''fc''] m1)))))))))"

text \<open>The block for VGG19 (the same calls set the model up in the VGG19 notebook).\<close>

definition setup_vgg ::
  "('t, 'f, 'e, 'x, 'r) torch \<Rightarrow> model_var \<Rightarrow> string list
     \<Rightarrow> (('t, 'x, 'r) pystate, 't, 'f, 'e, string list list) prog" where
  "setup_vgg T v class_names =
     bind (call Top (lift_rest (t_zoo T ''vgg19'' True)) (\<lambda>m. EZoo ''vgg19'' True)) (\<lambda>m.
     bind (set_model v m) (\<lambda>_.
     bind (set_model v (freeze_under [''features''] m)) (\<lambda>_.
     bind (call Top (lift_rest (t_in_features T [''classifier'', ''6''] (freeze_under [''features''] m)))
             (EInFeatures [''classifier'', ''6''])) (\<lambda>n_in.
     bind (call Top (lift_rest (t_linear T n_in (int (length class_names))))
             (\<lambda>wb. ELinear n_in (int (length class_names)))) (\<lambda>wb.
     bind (set_model v (set_layer [''classifier'', ''6''] n_in (int (length class_names))
             (fst wb) (snd wb) (freeze_under [''features''] m))) (\<lambda>_.
     bind (get_model v) (\<lambda>m1.
     bind (call Top (lift_rest (t_adam T (parameters_under [''classifier''] m1)))
             (\<lambda>_. EAdam (parameters_under [''classifier''] m1))) (\<lambda>_.
     return (parameters_under [''classifier''] m1)))))))))"

type_synonym 'f results = "'f list \<times> 'f list \<times> 'f list \<times> int list \<times> int list"

definition paso5_modelos ::
  "('t, 'f, 'e, 'x, 'r) torch \<Rightarrow> string list \<Rightarrow> 't loader \<Rightarrow> 't loader \<Rightarrow> int
     \<Rightarrow> (('t, 'x, 'r) pystate, 't, 'f, 'e, 'f results \<times> 'f results \<times> 'f results) prog" where
  "paso5_modelos T class_names train_loader val_loader epochs =
     bind (setup_resnet T Resnet18 ''resnet18'' class_names) (\<lambda>ps18.
     bind (emit Top ECrossEntropyLoss) (\<lambda>_.
     bind (entrenar_modelo (bound T Resnet18 ps18) train_loader val_loader epochs ''ResNet18'') (\<lambda>r18.
     bind (setup_resnet T Resnet34 ''resnet34'' class_names) (\<lambda>ps34.
     bind (entrenar_modelo (bound T Resnet34 ps34) train_loader val_loader epochs ''ResNet34'') (\<lambda>r34.
     bind (setup_vgg T Vgg19 class_names) (\<lambda>psv.
     bind (entrenar_modelo (bound T Vgg19 psv) train_loader val_loader epochs ''VGG19'') (\<lambda>rv.
     return (r18, r34, rv))))))))"

subsection \<open>Comparison notebook, Paso 6 to Paso 8\<close>

text \<open>
  \<open>plot_metric_comparison\<close>: one \<open>plt.plot\<close> per entry of the dictionary, in its
  order, then the figure with its title and axis label is shown.
\<close>

definition plot_metric_comparison ::
  "(string \<times> 'f list) list \<Rightarrow> string \<Rightarrow> string \<Rightarrow> ('st, 't, 'f, 'e, unit) prog" where
  "plot_metric_comparison metric_dict title ylabel =
     bind (for_each metric_dict (\<lambda>lv _. emit Top (EPlot (fst lv) (snd lv))) ()) (\<lambda>_.
     emit Top (EFigure title ylabel))"

definition calcular_precision_final ::
  "('t, 'f, 'e, 'x, 'r) torch \<Rightarrow> int list \<Rightarrow> int list
     \<Rightarrow> (('t, 'x, 'r) pystate, 't, 'f, 'e, 'f) prog" where
  "calcular_precision_final T yt yp =
     call Top (lift_rest (sk_precision_score T yt yp)) (EPrecision yt yp)"

definition paso6 ::
  "('t, 'f, 'e, 'x, 'r) torch \<Rightarrow> 'f results \<Rightarrow> 'f results \<Rightarrow> 'f results
     \<Rightarrow> (('t, 'x, 'r) pystate, 't, 'f, 'e, unit) prog" where
  "paso6 T r18 r34 rv =
     (case (r18, r34, rv) of
        ((r18_train, r18_val, r18_acc, y_true_r18, y_pred_r18),
         (r34_train, r34_val, r34_acc, y_true_r34, y_pred_r34),
         (vgg_train, vgg_val, vgg_acc, y_true_vgg, y_pred_vgg)) \<Rightarrow>
     bind (calcular_precision_final T y_true_r18 y_pred_r18) (\<lambda>p18.
     bind (calcular_precision_final T y_true_r34 y_pred_r34) (\<lambda>p34.
     bind (calcular_precision_final T y_true_vgg y_pred_vgg) (\<lambda>pv.
     bind (plot_metric_comparison
             [(''ResNet18'', r18_val), (''ResNet34'', r34_val), (''VGG19'', vgg_val)]
             ''Validation Loss'' ''Loss'') (\<lambda>_.
     plot_metric_comparison
             [(''ResNet18'', r18_acc), (''ResNet34'', r34_acc), (''VGG19'', vgg_acc)]
             ''Validation Accuracy'' ''Accuracy'')))))"

definition mostrar_confusion ::
  "('t, 'f, 'e, 'x, 'r) torch \<Rightarrow> string list \<Rightarrow> int list \<Rightarrow> int list \<Rightarrow> string
     \<Rightarrow> (('t, 'x, 'r) pystate, 't, 'f, 'e, unit) prog" where
  "mostrar_confusion T class_names yt yp modelo =
     bind (call Top (lift_rest (sk_confusion_matrix T yt yp ''true''))
             (EConfusionMatrix yt yp ''true'')) (\<lambda>cm.
     bind (emit Top (EConfusionDisplay cm class_names)) (\<lambda>_.
     bind (call Top (lift_rest (sk_display_plot T cm class_names))
             (\<lambda>_. EDisplayPlot cm class_names)) (\<lambda>_.
     bind (emit Top (ETitle (''Normalized Confusion Matrix - '' @ modelo))) (\<lambda>_.
     emit Top EShow))))"

definition paso7 ::
  "('t, 'f, 'e, 'x, 'r) torch \<Rightarrow> string list \<Rightarrow> 'f results \<Rightarrow> 'f results \<Rightarrow> 'f results
     \<Rightarrow> (('t, 'x, 'r) pystate, 't, 'f, 'e, unit) prog" where
  "paso7 T class_names r18 r34 rv =
     bind (mostrar_confusion T class_names (fst (snd (snd (snd r18)))) (snd (snd (snd (snd r18))))
             ''ResNet18'') (\<lambda>_.
     bind (mostrar_confusion T class_names (fst (snd (snd (snd r34)))) (snd (snd (snd (snd r34))))
             ''ResNet34'') (\<lambda>_.
     mostrar_confusion T class_names (fst (snd (snd (snd rv)))) (snd (snd (snd (snd rv))))
             ''VGG19''))"

text \<open>\<open>torch.save(m.state_dict(), path)\<close> for the model held by \<open>v\<close>.\<close>

definition save_model ::
  "('t, 'f, 'e, 'x, 'r) torch \<Rightarrow> model_var \<Rightarrow> string
     \<Rightarrow> (('t, 'x, 'r) pystate, 't, 'f, 'e, unit) prog" where
  "save_model T v path =
     bind (get_model v) (\<lambda>m.
     call Top (lift_rest (t_save T (t_state_dict T m) path))
       (\<lambda>_. ESave (t_state_dict T m) path))"

definition paso8 ::
  "('t, 'f, 'e, 'x, 'r) torch \<Rightarrow> (('t, 'x, 'r) pystate, 't, 'f, 'e, unit) prog" where
  "paso8 T =
     bind (save_model T Resnet18 ''model_resnet18.pth'') (\<lambda>_.
     bind (save_model T Resnet34 ''model_resnet34.pth'') (\<lambda>_.
     save_model T Vgg19 ''model_vgg19.pth''))"

text \<open>The cells from Paso 5 on, run in order; the notebook sets \<open>epochs = 10\<close>.\<close>

definition combinados_cells ::
  "('t, 'f, 'e, 'x, 'r) torch \<Rightarrow> string list \<Rightarrow> 't loader \<Rightarrow> 't loader \<Rightarrow> int
     \<Rightarrow> (('t, 'x, 'r) pystate, 't, 'f, 'e, unit) prog" where
  "combinados_cells T class_names train_loader val_loader epochs =
     bind (paso5_modelos T class_names train_loader val_loader epochs) (\<lambda>rs.
     bind (paso6 T (fst rs) (fst (snd rs)) (snd (snd rs))) (\<lambda>_.
     bind (paso7 T class_names (fst rs) (fst (snd rs)) (snd (snd rs))) (\<lambda>_.
     paso8 T)))"

definition fruitscan_combinados ::
  "('t, 'f, 'e, 'x, 'r) torch \<Rightarrow> string list \<Rightarrow> 't loader \<Rightarrow> 't loader
     \<Rightarrow> (('t, 'x, 'r) pystate, 't, 'f, 'e, unit) prog" where
  "fruitscan_combinados T class_names train_loader val_loader =
     combinados_cells T class_names train_loader val_loader 10"

subsection \<open>VGG19 notebook, Paso 3 to Paso 7\<close>

text \<open>
  Paso 3 sets the model up and moves it to the device, and Paso 4 creates the criterion
  and the optimizer (\<open>vgg19_setup\<close>, which returns the names of the parameters the
  optimizer was built over); Paso 5 is the training loop, Paso 6 plots the two lists
  of losses, Paso 7 saves the weights.
\<close>

definition vgg19_setup ::
  "('t, 'f, 'e, 'x, 'r) torch \<Rightarrow> string list
     \<Rightarrow> (('t, 'x, 'r) pystate, 't, 'f, 'e, string list list) prog" where
  "vgg19_setup T class_names =
     bind (call Top (lift_rest (t_zoo T ''vgg19'' True)) (\<lambda>m. EZoo ''vgg19'' True)) (\<lambda>m.
     bind (set_model Model m) (\<lambda>_.
     bind (set_model Model (freeze_under [''features''] m)) (\<lambda>_.
     bind (call Top (lift_rest (t_in_features T [''classifier'', ''6''] (freeze_under [''features''] m)))
             (EInFeatures [''classifier'', ''6''])) (\<lambda>num_features.
     bind (call Top (lift_rest (t_linear T num_features (int (length class_names))))
             (\<lambda>wb. ELinear num_features (int (length class_names)))) (\<lambda>wb.
     bind (set_model Model (set_layer [''classifier'', ''6''] num_features
             (int (length class_names)) (fst wb) (snd wb) (freeze_under [''features''] m))) (\<lambda>_.
     bind (call Top (lift_model Model (t_model_to T)) (\<lambda>_. EModelTo)) (\<lambda>_.
     bind (emit Top ECrossEntropyLoss) (\<lambda>_.
     bind (get_model Model) (\<lambda>m1.
     bind (call Top (lift_rest (t_adam T (parameters_under [''classifier''] m1)))
             (\<lambda>_. EAdam (parameters_under [''classifier''] m1))) (\<lambda>_.
     return (parameters_under [''classifier''] m1)))))))))))"

definition vgg19_cells ::
  "('t, 'f, 'e, 'x, 'r) torch \<Rightarrow> string list \<Rightarrow> 't loader \<Rightarrow> 't loader \<Rightarrow> int
     \<Rightarrow> (('t, 'x, 'r) pystate, 't, 'f, 'e, unit) prog" where
  "vgg19_cells T class_names train_loader val_loader epochs =
     bind (vgg19_setup T class_names) (\<lambda>ps.
     bind (paso5 (bound T Model ps) train_loader val_loader epochs) (\<lambda>losses.
     bind (emit Top (EPlot ''Entrenamiento'' (fst losses))) (\<lambda>_.
     bind (emit Top (EPlot ''Validacion'' (snd losses))) (\<lambda>_.
     bind (emit Top (EFigure ''Curva de Perdida'' ''Perdida'')) (\<lambda>_.
     save_model T Model ''fruitscan_model.pth'')))))"

definition fruitscan_vgg19 ::
  "('t, 'f, 'e, 'x, 'r) torch \<Rightarrow> string list \<Rightarrow> 't loader \<Rightarrow> 't loader
     \<Rightarrow> (('t, 'x, 'r) pystate, 't, 'f, 'e, unit) prog" where
  "fruitscan_vgg19 T class_names train_loader val_loader =
     vgg19_cells T class_names train_loader val_loader 10"


section \<open>Observations on the call log\<close>

text \<open>The calls made at one place of the program, in the order they were made.\<close>

definition events_at :: "site \<Rightarrow> (site \<times> ('t, 'f, 'e) event) list \<Rightarrow> ('t, 'f, 'e) event list" where
  "events_at c evs = map snd (filter (\<lambda>e. fst e = c) evs)"

fun site_epoch :: "site \<Rightarrow> nat option" where
  "site_epoch Top = None"
| "site_epoch (Epoch k) = Some k"
| "site_epoch (TrainLoop k) = Some k"
| "site_epoch (ValLoop k) = Some k"

text \<open>The float that a logged \<open>loss.item()\<close> returned.\<close>

fun item_of :: "('t, 'f, 'e) event \<Rightarrow> 'f list" where
  "item_of (EItem l v) = [v]"
| "item_of _ = []"

definition item_values :: "site \<Rightarrow> (site \<times> ('t, 'f, 'e) event) list \<Rightarrow> 'f list" where
  "item_values c evs = concat (map item_of (events_at c evs))"

fun is_raise :: "('t, 'f, 'e) event \<Rightarrow> bool" where
  "is_raise (ERaise e) = True"
| "is_raise _ = False"

text \<open>The loaders whose traversal was started, in the order the traversals started.\<close>

fun iter_of :: "('t, 'f, 'e) event \<Rightarrow> loader_id list" where
  "iter_of (EIter i) = [i]"
| "iter_of _ = []"

definition loader_passes :: "(site \<times> ('t, 'f, 'e) event) list \<Rightarrow> loader_id list" where
  "loader_passes evs = concat (map (\<lambda>e. iter_of (snd e)) evs)"

fun is_save :: "('t, 'f, 'e) event \<Rightarrow> bool" where
  "is_save (ESave d p) = True"
| "is_save _ = False"

fun is_exit :: "('t, 'f, 'e) event \<Rightarrow> bool" where
  "is_exit ENoGradExit = True"
| "is_exit _ = False"

text \<open>
  The standard training sequence, batch after batch: the calls of one batch are the
  two transfers to the device, \<open>optimizer.zero_grad()\<close>, the forward pass on the
  transferred images, the criterion on its output and the transferred labels,
  \<open>loss.backward()\<close> on that loss, \<open>optimizer.step()\<close>, and \<open>loss.item()\<close>.
\<close>

inductive train_trace :: "('t \<times> 't) list \<Rightarrow> ('t, 'f, 'e) event list \<Rightarrow> bool" where
  train_trace_Nil: "train_trace [] []"
| train_trace_Cons: "train_trace bs evs \<Longrightarrow>
     train_trace (b # bs)
       ([ETensorTo (fst b) x, ETensorTo (snd b) y, EZeroGrad, EForward x out,
         ECriterion out y loss, EBackward loss, EStep, EItem loss v] @ evs)"

text \<open>
  The same sequence as it acts on the framework: from the running loss \<open>rl\<close> and the
  framework state \<open>s\<close>, each call is made on the state the call before it left, on the
  values the calls before it returned, and returns; the float of \<open>loss.item()\<close> is
  added to the running loss, and the next batch goes on from there. The sequence ends
  with the running loss \<open>rl'\<close> in the state \<open>s'\<close>.
\<close>

inductive train_steps ::
  "('st, 't, 'f, 'e) framework \<Rightarrow> ('t \<times> 't) list \<Rightarrow> 'f \<Rightarrow> 'st \<Rightarrow> 'f \<Rightarrow> 'st
     \<Rightarrow> ('t, 'f, 'e) event list \<Rightarrow> bool" where
  train_steps_Nil: "train_steps fw [] rl s rl s []"
| train_steps_Cons:
    "tensor_to fw (fst b) s = (Inr x, sa) \<Longrightarrow> tensor_to fw (snd b) sa = (Inr y, sb) \<Longrightarrow>
     zero_grad fw sb = (Inr (), sc) \<Longrightarrow> forward fw x sc = (Inr out, sd) \<Longrightarrow>
     criterion fw out y sd = (Inr loss, se) \<Longrightarrow> backward fw loss se = (Inr (), sf) \<Longrightarrow>
     opt_step fw sf = (Inr (), sg) \<Longrightarrow> item fw loss sg = (Inr v, sh) \<Longrightarrow>
     train_steps fw bs (fadd fw rl v) sh rl' s' evs \<Longrightarrow>
     train_steps fw (b # bs) rl s rl' s'
       ([ETensorTo (fst b) x, ETensorTo (snd b) y, EZeroGrad, EForward x out,
         ECriterion out y loss, EBackward loss, EStep, EItem loss v] @ evs)"

text \<open>
  The validation sequence of \<open>entrenar_modelo\<close>, batch after batch, with the label
  array and the prediction array that each batch contributed.
\<close>

inductive val_trace ::
  "('t \<times> 't) list \<Rightarrow> ('t, 'f, 'e) event list \<Rightarrow> int list list \<Rightarrow> int list list \<Rightarrow> bool" where
  val_trace_Nil: "val_trace [] [] [] []"
| val_trace_Cons: "val_trace bs evs lys lps \<Longrightarrow>
     val_trace (b # bs)
       ([ETensorTo (fst b) x, ETensorTo (snd b) y, EForward x out, ECriterion out y loss,
         EItem loss v, EMax out p, ENumpy y ly, ENumpy p lp] @ evs)
       (ly # lys) (lp # lps)"

text \<open>
  The validation sequence of the VGG19 notebook, batch after batch, with the number of
  samples and the number of correct predictions that each batch contributed.
\<close>

inductive vgg_val_trace ::
  "('t \<times> 't) list \<Rightarrow> ('t, 'f, 'e) event list \<Rightarrow> int list \<Rightarrow> int list \<Rightarrow> bool" where
  vgg_val_trace_Nil: "vgg_val_trace [] [] [] []"
| vgg_val_trace_Cons: "vgg_val_trace bs evs ns cs \<Longrightarrow>
     vgg_val_trace (b # bs)
       ([ETensorTo (fst b) x, ETensorTo (snd b) y, EForward x out, ECriterion out y loss,
         EItem loss v, EMax out p, ESize y n, ECountEqual p y c] @ evs)
       (n # ns) (c # cs)"

section \<open>Properties of computations used in the proofs\<close>

text \<open>
  What the outcome of a computation and its log have to do with each other when no
  exception is ever caught: a return, or an exception of the program's own, leaves no
  raising call in the log; an exception of a framework call is the one the log shows,
  no call before it raised, and after it only context managers were left.
\<close>

definition no_raise :: "(site \<times> ('t, 'f, 'e) event) list \<Rightarrow> bool" where
  "no_raise evs = list_all (\<lambda>e. \<not> is_raise (snd e)) evs"

fun outcome_ok :: "'e pyexn + 'a \<Rightarrow> (site \<times> ('t, 'f, 'e) event) list \<Rightarrow> bool" where
  "outcome_ok (Inr a) evs = no_raise evs"
| "outcome_ok (Inl (Raised e)) evs =
     (\<exists>pre c post. evs = pre @ (c, ERaise e) # post \<and> no_raise pre
        \<and> list_all (\<lambda>e. is_exit (snd e)) post)"
| "outcome_ok (Inl _) evs = no_raise evs"

definition uncaught :: "('st, 't, 'f, 'e, 'a) prog \<Rightarrow> bool" where
  "uncaught m = (\<forall>s. outcome_ok (fst (m s)) (snd (snd (m s))))"

text \<open>Every exception the computation can end with satisfies \<open>P\<close>.\<close>

definition raises :: "('e pyexn \<Rightarrow> bool) \<Rightarrow> ('st, 't, 'f, 'e, 'a) prog \<Rightarrow> bool" where
  "raises P m = (\<forall>s x. fst (m s) = Inl x \<longrightarrow> P x)"

text \<open>Every logged call of the computation satisfies \<open>Q\<close>.\<close>

definition emits ::
  "(site \<times> ('t, 'f, 'e) event \<Rightarrow> bool) \<Rightarrow> ('st, 't, 'f, 'e, 'a) prog \<Rightarrow> bool" where
  "emits Q m = (\<forall>s. list_all Q (snd (snd (m s))))"

text \<open>The computation, and a framework call, keep the property \<open>I\<close> of the framework state.\<close>

definition preserves :: "('st \<Rightarrow> bool) \<Rightarrow> ('st, 't, 'f, 'e, 'a) prog \<Rightarrow> bool" where
  "preserves I m = (\<forall>s. I s \<longrightarrow> I (fst (snd (m s))))"

definition call_preserves :: "('st \<Rightarrow> bool) \<Rightarrow> ('st, 'e, 'a) fcall \<Rightarrow> bool" where
  "call_preserves I f = (\<forall>s. I s \<longrightarrow> I (snd (f s)))"

text \<open>What one returning epoch of \<open>entrenar_modelo\<close> leaves in the log and the locals.\<close>

definition epoch_ok ::
  "('st, 't, 'f, 'e) framework \<Rightarrow> 't loader \<Rightarrow> 't loader \<Rightarrow> nat \<Rightarrow> 'f locals \<Rightarrow> 'f locals
     \<Rightarrow> (site \<times> ('t, 'f, 'e) event) list \<Rightarrow> bool" where
  "epoch_ok fw trn vld k l l' ev \<longleftrightarrow>
     train_trace (loader_batches trn k) (events_at (TrainLoop k) ev)
   \<and> (\<exists>lys lps. val_trace (loader_batches vld k) (events_at (ValLoop k) ev) lys lps
        \<and> y_true l' = Some (concat lys) \<and> y_pred l' = Some (concat lps))
   \<and> loader_len trn \<noteq> 0 \<and> loader_len vld \<noteq> 0
   \<and> train_losses l' = train_losses l @
        [fdiv fw (foldl (fadd fw) (fzero fw) (item_values (TrainLoop k) ev)) (int (loader_len trn))]
   \<and> val_losses l' = val_losses l @
        [fdiv fw (foldl (fadd fw) (fzero fw) (item_values (ValLoop k) ev)) (int (loader_len vld))]
   \<and> length (val_accuracies l') = Suc (length (val_accuracies l))"

text \<open>The same for one returning epoch of Paso 5 of the VGG19 notebook.\<close>

definition vgg_epoch_ok ::
  "('st, 't, 'f, 'e) framework \<Rightarrow> 't loader \<Rightarrow> 't loader \<Rightarrow> nat \<Rightarrow> 'f list \<times> 'f list
     \<Rightarrow> 'f list \<times> 'f list \<Rightarrow> (site \<times> ('t, 'f, 'e) event) list \<Rightarrow> bool" where
  "vgg_epoch_ok fw trn vld k l l' ev \<longleftrightarrow>
     train_trace (loader_batches trn k) (events_at (TrainLoop k) ev)
   \<and> (\<exists>ns cs. vgg_val_trace (loader_batches vld k) (events_at (ValLoop k) ev) ns cs
         \<and> sum_list ns \<noteq> 0)
   \<and> loader_len trn \<noteq> 0 \<and> loader_len vld \<noteq> 0
   \<and> fst l' = fst l @
        [fdiv fw (foldl (fadd fw) (fzero fw) (item_values (TrainLoop k) ev)) (int (loader_len trn))]
   \<and> snd l' = snd l @
        [fdiv fw (foldl (fadd fw) (fzero fw) (item_values (ValLoop k) ev)) (int (loader_len vld))]"



text \<open>Every framework call that the training loops make keeps the property \<open>I\<close>.\<close>

definition fw_preserves :: "('st \<Rightarrow> bool) \<Rightarrow> ('st, 't, 'f, 'e) framework \<Rightarrow> bool" where
  "fw_preserves I fw \<longleftrightarrow>
     call_preserves I (model_to fw) \<and> call_preserves I (model_train fw)
   \<and> call_preserves I (model_eval fw) \<and> (\<forall>t. call_preserves I (tensor_to fw t))
   \<and> call_preserves I (zero_grad fw) \<and> (\<forall>x. call_preserves I (forward fw x))
   \<and> (\<forall>out y. call_preserves I (criterion fw out y)) \<and> (\<forall>l. call_preserves I (backward fw l))
   \<and> call_preserves I (opt_step fw) \<and> (\<forall>l. call_preserves I (item fw l))
   \<and> (\<forall>s. I s \<longrightarrow> I (no_grad_enter fw s)) \<and> (\<forall>s. I s \<longrightarrow> I (no_grad_exit fw s))
   \<and> (\<forall>out. call_preserves I (torch_max fw out)) \<and> (\<forall>t. call_preserves I (to_numpy fw t))
   \<and> (\<forall>yt yp. call_preserves I (accuracy_score fw yt yp))
   \<and> (\<forall>t. call_preserves I (size0 fw t)) \<and> (\<forall>p y. call_preserves I (count_equal fw p y))"

text \<open>
  What is assumed of the framework: moving a model, switching its mode, zeroing the
  gradients, the forward pass and the backward pass leave the table of parameters as
  it is; a step of the optimizer leaves the entry of every parameter that the
  optimizer was not built over as it is.
\<close>

definition keeps_parameters :: "('t, 'x, 'r, 'e, 'a) mcall \<Rightarrow> bool" where
  "keeps_parameters f = (\<forall>m r. named_parameters (fst (snd (f m r))) = named_parameters m)"

definition torch_contract :: "('t, 'f, 'e, 'x, 'r) torch \<Rightarrow> bool" where
  "torch_contract T \<longleftrightarrow>
     keeps_parameters (t_model_to T) \<and> keeps_parameters (t_train T)
   \<and> keeps_parameters (t_eval T) \<and> (\<forall>ps. keeps_parameters (t_zero_grad T ps))
   \<and> (\<forall>x. keeps_parameters (t_forward T x)) \<and> (\<forall>l. keeps_parameters (t_backward T l))
   \<and> (\<forall>ps m r n. n \<notin> set ps \<longrightarrow>
         map_of (named_parameters (fst (snd (t_step T ps m r)))) n = map_of (named_parameters m) n)"

text \<open>The model zoo hands out modules all of whose parameters require a gradient.\<close>

definition zoo_trainable :: "('t, 'f, 'e, 'x, 'r) torch \<Rightarrow> bool" where
  "zoo_trainable T = (\<forall>name b r m r1. t_zoo T name b r = (Inr m, r1) \<longrightarrow>
     list_all (\<lambda>np. requires_grad (snd np)) (named_parameters m))"

text \<open>What a log shows of the zoo, of the saved files and of the confusion matrices.\<close>

fun zoo_of :: "('t, 'f, 'e) event \<Rightarrow> (string \<times> bool) list" where
  "zoo_of (EZoo name b) = [(name, b)]"
| "zoo_of _ = []"

definition zoo_calls :: "(site \<times> ('t, 'f, 'e) event) list \<Rightarrow> (string \<times> bool) list" where
  "zoo_calls evs = concat (map (\<lambda>e. zoo_of (snd e)) evs)"

fun save_of :: "('t, 'f, 'e) event \<Rightarrow> ((string \<times> 't) list \<times> string) list" where
  "save_of (ESave d p) = [(d, p)]"
| "save_of _ = []"

definition saved :: "(site \<times> ('t, 'f, 'e) event) list \<Rightarrow> ((string \<times> 't) list \<times> string) list" where
  "saved evs = concat (map (\<lambda>e. save_of (snd e)) evs)"

fun plot_of :: "('t, 'f, 'e) event \<Rightarrow> ('t, 'f, 'e) event list" where
  "plot_of (EConfusionMatrix yt yp nrm cm) = [EConfusionMatrix yt yp nrm cm]"
| "plot_of (EConfusionDisplay cm labels) = [EConfusionDisplay cm labels]"
| "plot_of (EDisplayPlot cm labels) = [EDisplayPlot cm labels]"
| "plot_of (ETitle t) = [ETitle t]"
| "plot_of _ = []"

definition confusion_plots :: "(site \<times> ('t, 'f, 'e) event) list \<Rightarrow> ('t, 'f, 'e) event list" where
  "confusion_plots evs = concat (map (\<lambda>e. plot_of (snd e)) evs)"

text \<open>An event that is no call of the zoo, no saved file and no part of a confusion plot.\<close>

definition quiet :: "site \<times> ('t, 'f, 'e) event \<Rightarrow> bool" where
  "quiet e \<longleftrightarrow> zoo_of (snd e) = [] \<and> save_of (snd e) = [] \<and> plot_of (snd e) = []"

text \<open>
  The lists \<open>yt\<close> and \<open>yp\<close> are the labels and the predictions that the validation loop
  of the last of \<open>E\<close> epochs collected, batch after batch, in the log \<open>evs\<close>.
\<close>

definition last_epoch_labels ::
  "'t loader \<Rightarrow> int \<Rightarrow> (site \<times> ('t, 'f, 'e) event) list \<Rightarrow> int list \<Rightarrow> int list \<Rightarrow> bool" where
  "last_epoch_labels vld E evs yt yp \<longleftrightarrow>
     1 \<le> E
   \<and> (\<exists>lys lps. val_trace (loader_batches vld (nat E - 1))
                     (events_at (ValLoop (nat E - 1)) evs) lys lps
          \<and> yt = concat lys \<and> yp = concat lps)"

section \<open>A small concrete framework, for evaluating the definitions\<close>

text \<open>
  The framework state counts the optimizer steps taken so far; a tensor is a list of
  ints, the forward pass adds the state to every entry, the criterion is the sum of the
  absolute differences, \<open>size(0)\<close> is the number of entries, and floats are reals.
\<close>

definition demo_fw :: "(nat, int list, real, string) framework" where
  "demo_fw = \<lparr>
     model_to = (\<lambda>s. (Inr (), s)),
     model_train = (\<lambda>s. (Inr (), s)),
     model_eval = (\<lambda>s. (Inr (), s)),
     tensor_to = (\<lambda>t s. (Inr t, s)),
     zero_grad = (\<lambda>s. (Inr (), s)),
     forward = (\<lambda>x s. (Inr (map (\<lambda>v. v + int s) x), s)),
     criterion = (\<lambda>out y s. (Inr [sum_list (map2 (\<lambda>a b. abs (a - b)) out y)], s)),
     backward = (\<lambda>l s. (Inr (), s)),
     opt_step = (\<lambda>s. (Inr (), Suc s)),
     item = (\<lambda>l s. (Inr (of_int (sum_list l)), s)),
     no_grad_enter = (\<lambda>s. s),
     no_grad_exit = (\<lambda>s. s),
     torch_max = (\<lambda>out s. (Inr out, s)),
     to_numpy = (\<lambda>t s. (Inr t, s)),
     accuracy_score = (\<lambda>yt yp s.
        (Inr (of_nat (length (filter (\<lambda>(a, b). a = b) (zip yt yp))) / of_nat (length yt)), s)),
     size0 = (\<lambda>t s. (Inr (int (length t)), s)),
     count_equal = (\<lambda>p y s. (Inr (int (length (filter (\<lambda>(a, b). a = b) (zip p y)))), s)),
     fzero = 0,
     fadd = (\<lambda>a b. a + b),
     fdiv = (\<lambda>x n. x / of_int n),
     int_truediv = (\<lambda>a b. of_int a / of_int b)\<rparr>"

definition demo_train :: "int list loader" where
  "demo_train = \<lparr>loader_len = 2, loader_batches = (\<lambda>k. [([1, 2], [1, 3]), ([5], [4])])\<rparr>"

definition demo_val :: "int list loader" where
  "demo_val = \<lparr>loader_len = 1, loader_batches = (\<lambda>k. [([2, 7], [4, 7])])\<rparr>"

definition demo_log :: "(site \<times> (int list, real, string) event) list" where
  "demo_log =
    [(Epoch 0, ETrainMode), (Epoch 0, EIter TrainLoader),
     (TrainLoop 0, ETensorTo [1, 2] [1, 2]), (TrainLoop 0, ETensorTo [1, 3] [1, 3]),
     (TrainLoop 0, EZeroGrad), (TrainLoop 0, EForward [1, 2] [1, 2]),
     (TrainLoop 0, ECriterion [1, 2] [1, 3] [1]), (TrainLoop 0, EBackward [1]),
     (TrainLoop 0, EStep), (TrainLoop 0, EItem [1] 1),
     (TrainLoop 0, ETensorTo [5] [5]), (TrainLoop 0, ETensorTo [4] [4]),
     (TrainLoop 0, EZeroGrad), (TrainLoop 0, EForward [5] [6]),
     (TrainLoop 0, ECriterion [6] [4] [2]), (TrainLoop 0, EBackward [2]),
     (TrainLoop 0, EStep), (TrainLoop 0, EItem [2] 2),
     (Epoch 0, EEvalMode), (Epoch 0, ENoGradEnter), (Epoch 0, EIter ValLoader),
     (ValLoop 0, ETensorTo [2, 7] [2, 7]), (ValLoop 0, ETensorTo [4, 7] [4, 7]),
     (ValLoop 0, EForward [2, 7] [4, 9]), (ValLoop 0, ECriterion [4, 9] [4, 7] [2]),
     (ValLoop 0, EItem [2] 2), (ValLoop 0, EMax [4, 9] [4, 9]),
     (ValLoop 0, ENumpy [4, 7] [4, 7]), (ValLoop 0, ENumpy [4, 9] [4, 9]),
     (Epoch 0, ENoGradExit), (Epoch 0, EAccuracy [4, 7] [4, 9] (1 / 2)),
     (Epoch 0, EPrint 1 1 (3 / 2) 2 (1 / 2))]"

definition demo_vgg_log :: "(site \<times> (int list, real, string) event) list" where
  "demo_vgg_log =
    [(Epoch 0, ETrainMode), (Epoch 0, EIter TrainLoader),
     (TrainLoop 0, ETensorTo [1, 2] [1, 2]), (TrainLoop 0, ETensorTo [1, 3] [1, 3]),
     (TrainLoop 0, EZeroGrad), (TrainLoop 0, EForward [1, 2] [1, 2]),
     (TrainLoop 0, ECriterion [1, 2] [1, 3] [1]), (TrainLoop 0, EBackward [1]),
     (TrainLoop 0, EStep), (TrainLoop 0, EItem [1] 1),
     (TrainLoop 0, ETensorTo [5] [5]), (TrainLoop 0, ETensorTo [4] [4]),
     (TrainLoop 0, EZeroGrad), (TrainLoop 0, EForward [5] [6]),
     (TrainLoop 0, ECriterion [6] [4] [2]), (TrainLoop 0, EBackward [2]),
     (TrainLoop 0, EStep), (TrainLoop 0, EItem [2] 2),
     (Epoch 0, EEvalMode), (Epoch 0, ENoGradEnter), (Epoch 0, EIter ValLoader),
     (ValLoop 0, ETensorTo [2, 7] [2, 7]), (ValLoop 0, ETensorTo [4, 7] [4, 7]),
     (ValLoop 0, EForward [2, 7] [4, 9]), (ValLoop 0, ECriterion [4, 9] [4, 7] [2]),
     (ValLoop 0, EItem [2] 2), (ValLoop 0, EMax [4, 9] [4, 9]),
     (ValLoop 0, ESize [4, 7] 2), (ValLoop 0, ECountEqual [4, 9] [4, 7] 1),
     (Epoch 0, ENoGradExit), (Epoch 0, EPrint 1 1 (3 / 2) 2 50)]"


text \<open>A loader over an empty dataset, and a framework whose \<open>torch.max\<close> raises.\<close>

definition demo_empty :: "int list loader" where
  "demo_empty = \<lparr>loader_len = 0, loader_batches = (\<lambda>k. [])\<rparr>"

definition demo_bad :: "(nat, int list, real, string) framework" where
  "demo_bad = demo_fw\<lparr>torch_max := (\<lambda>out s. (Inl ''max failed'', s))\<rparr>"


text \<open>The logs of the runs that end with an exception.\<close>

definition demo_bad_log :: "(site \<times> (int list, real, string) event) list" where
  "demo_bad_log =
    [(Epoch 0, ETrainMode), (Epoch 0, EIter TrainLoader),
     (TrainLoop 0, ETensorTo [1, 2] [1, 2]), (TrainLoop 0, ETensorTo [1, 3] [1, 3]),
     (TrainLoop 0, EZeroGrad), (TrainLoop 0, EForward [1, 2] [1, 2]),
     (TrainLoop 0, ECriterion [1, 2] [1, 3] [1]), (TrainLoop 0, EBackward [1]),
     (TrainLoop 0, EStep), (TrainLoop 0, EItem [1] 1),
     (TrainLoop 0, ETensorTo [5] [5]), (TrainLoop 0, ETensorTo [4] [4]),
     (TrainLoop 0, EZeroGrad), (TrainLoop 0, EForward [5] [6]),
     (TrainLoop 0, ECriterion [6] [4] [2]), (TrainLoop 0, EBackward [2]),
     (TrainLoop 0, EStep), (TrainLoop 0, EItem [2] 2),
     (Epoch 0, EEvalMode), (Epoch 0, ENoGradEnter), (Epoch 0, EIter ValLoader),
     (ValLoop 0, ETensorTo [2, 7] [2, 7]), (ValLoop 0, ETensorTo [4, 7] [4, 7]),
     (ValLoop 0, EForward [2, 7] [4, 9]), (ValLoop 0, ECriterion [4, 9] [4, 7] [2]),
     (ValLoop 0, EItem [2] 2), (ValLoop 0, ERaise ''max failed''),
     (Epoch 0, ENoGradExit)]"

definition demo_empty_val_log :: "(site \<times> (int list, real, string) event) list" where
  "demo_empty_val_log =
    [(Epoch 0, ETrainMode), (Epoch 0, EIter TrainLoader),
     (TrainLoop 0, ETensorTo [1, 2] [1, 2]), (TrainLoop 0, ETensorTo [1, 3] [1, 3]),
     (TrainLoop 0, EZeroGrad), (TrainLoop 0, EForward [1, 2] [1, 2]),
     (TrainLoop 0, ECriterion [1, 2] [1, 3] [1]), (TrainLoop 0, EBackward [1]),
     (TrainLoop 0, EStep), (TrainLoop 0, EItem [1] 1),
     (TrainLoop 0, ETensorTo [5] [5]), (TrainLoop 0, ETensorTo [4] [4]),
     (TrainLoop 0, EZeroGrad), (TrainLoop 0, EForward [5] [6]),
     (TrainLoop 0, ECriterion [6] [4] [2]), (TrainLoop 0, EBackward [2]),
     (TrainLoop 0, EStep), (TrainLoop 0, EItem [2] 2),
     (Epoch 0, EEvalMode), (Epoch 0, ENoGradEnter), (Epoch 0, EIter ValLoader),
     (Epoch 0, ENoGradExit)]"

text \<open>
  A small zoo and a small framework for the notebooks. The rest of the state is the
  number of optimizer steps taken so far and the files written so far, each with its
  path and its contents. A step of the optimizer adds 1 to every entry of the
  parameters it was built over, the forward pass adds the sum of all parameter entries
  to its input, \<open>torch.save\<close> writes a file, the confusion matrix is a matrix with two
  rows, the plot of a matrix raises when it has not one row per label, and the library
  functions are those of the concrete framework above, working on the number of steps.
\<close>

type_synonym demo_rest = "nat \<times> (string \<times> (string \<times> int list) list) list"

definition on_steps :: "(nat, 'e, 'a) fcall \<Rightarrow> (demo_rest, 'e, 'a) fcall" where
  "on_steps f = (\<lambda>r. case f (fst r) of (res, c) \<Rightarrow> (res, (c, snd r)))"

definition demo_lib :: "(demo_rest, int list, real, string) framework" where
  "demo_lib = \<lparr>
     model_to = on_steps (model_to demo_fw),
     model_train = on_steps (model_train demo_fw),
     model_eval = on_steps (model_eval demo_fw),
     tensor_to = (\<lambda>t. on_steps (tensor_to demo_fw t)),
     zero_grad = on_steps (zero_grad demo_fw),
     forward = (\<lambda>x. on_steps (forward demo_fw x)),
     criterion = (\<lambda>out y. on_steps (criterion demo_fw out y)),
     backward = (\<lambda>l. on_steps (backward demo_fw l)),
     opt_step = on_steps (opt_step demo_fw),
     item = (\<lambda>l. on_steps (item demo_fw l)),
     no_grad_enter = (\<lambda>r. (no_grad_enter demo_fw (fst r), snd r)),
     no_grad_exit = (\<lambda>r. (no_grad_exit demo_fw (fst r), snd r)),
     torch_max = (\<lambda>out. on_steps (torch_max demo_fw out)),
     to_numpy = (\<lambda>t. on_steps (to_numpy demo_fw t)),
     accuracy_score = (\<lambda>yt yp. on_steps (accuracy_score demo_fw yt yp)),
     size0 = (\<lambda>t. on_steps (size0 demo_fw t)),
     count_equal = (\<lambda>p y. on_steps (count_equal demo_fw p y)),
     fzero = fzero demo_fw,
     fadd = fadd demo_fw,
     fdiv = fdiv demo_fw,
     int_truediv = int_truediv demo_fw\<rparr>"

definition demo_resnet :: "(int list, unit) module" where
  "demo_resnet = \<lparr>
     named_parameters =
       [([''conv1'', ''weight''], \<lparr>pvalue = [1], requires_grad = True\<rparr>),
        ([''fc'', ''weight''], \<lparr>pvalue = [2], requires_grad = True\<rparr>),
        ([''fc'', ''bias''], \<lparr>pvalue = [3], requires_grad = True\<rparr>)],
     linears = [([''fc''], 4, 1000)],
     other = ()\<rparr>"

definition demo_vgg :: "(int list, unit) module" where
  "demo_vgg = \<lparr>
     named_parameters =
       [([''features'', ''0'', ''weight''], \<lparr>pvalue = [1], requires_grad = True\<rparr>),
        ([''classifier'', ''0'', ''weight''], \<lparr>pvalue = [2], requires_grad = True\<rparr>),
        ([''classifier'', ''6'', ''weight''], \<lparr>pvalue = [3], requires_grad = True\<rparr>),
        ([''classifier'', ''6'', ''bias''], \<lparr>pvalue = [4], requires_grad = True\<rparr>)],
     linears = [([''classifier'', ''0''], 8, 8), ([''classifier'', ''6''], 8, 1000)],
     other = ()\<rparr>"

definition demo_step :: "string list list \<Rightarrow> (int list, unit) module \<Rightarrow> (int list, unit) module" where
  "demo_step ps m =
     m\<lparr>named_parameters :=
         map (\<lambda>(n, p). if n \<in> set ps then (n, p\<lparr>pvalue := map (\<lambda>v. v + 1) (pvalue p)\<rparr>)
                         else (n, p))
           (named_parameters m)\<rparr>"

definition demo_torch :: "(int list, real, string, unit, demo_rest) torch" where
  "demo_torch = \<lparr>
     t_zoo = (\<lambda>name b r. (Inr (if name = ''vgg19'' then demo_vgg else demo_resnet), r)),
     t_in_features = (\<lambda>pre m r. case layer_shape m pre of
                         Some io \<Rightarrow> (Inr (fst io), r)
                       | None \<Rightarrow> (Inl ''no such layer'', r)),
     t_linear = (\<lambda>i o_n r. (Inr ([i], [o_n]), r)),
     t_adam = (\<lambda>ps r. (Inr (), r)),
     t_model_to = (\<lambda>m r. (Inr (), m, r)),
     t_train = (\<lambda>m r. (Inr (), m, r)),
     t_eval = (\<lambda>m r. (Inr (), m, r)),
     t_zero_grad = (\<lambda>ps m r. (Inr (), m, r)),
     t_forward = (\<lambda>x m r.
        (Inr (map (\<lambda>v. v + sum_list (concat (map (\<lambda>np. pvalue (snd np)) (named_parameters m)))) x),
         m, r)),
     t_backward = (\<lambda>l m r. (Inr (), m, r)),
     t_step = (\<lambda>ps m r. (Inr (), demo_step ps m, (Suc (fst r), snd r))),
     t_cross_entropy = criterion demo_lib,
     t_state_dict = (\<lambda>m. map (\<lambda>np. (concat (fst np), pvalue (snd np))) (named_parameters m)),
     t_save = (\<lambda>d p r. (Inr (), (fst r, snd r @ [(p, d)]))),
     sk_precision_score = accuracy_score demo_lib,
     sk_confusion_matrix = (\<lambda>yt yp nrm r.
        (Inr [[of_int (sum_list yt), 0], [0, of_int (sum_list yp)]], r)),
     sk_display_plot = (\<lambda>cm labels r.
        if length cm = length labels then (Inr (), r) else (Inl ''ValueError'', r)),
     lib = demo_lib\<rparr>"

definition demo_state :: "(int list, unit, demo_rest) pystate" where
  "demo_state =
     \<lparr>models = (\<lambda>v. \<lparr>named_parameters = [], linears = [], other = ()\<rparr>), rest = (0, [])\<rparr>"

definition demo_classes :: "string list" where
  "demo_classes = [''freshapples'', ''rottenapples'']"

text \<open>A train loader and a validation loader with one batch of two images each.\<close>

definition demo_small :: "int list loader" where
  "demo_small = \<lparr>loader_len = 1, loader_batches = (\<lambda>k. [([2, 7], [4, 7])])\<rparr>"

text \<open>The states in which the concrete notebooks have set their models up.\<close>

definition demo_resnet_ready :: "(int list, unit, demo_rest) pystate" where
  "demo_resnet_ready =
     fst (snd (setup_resnet demo_torch Resnet18 ''resnet18'' demo_classes demo_state))"

definition demo_vgg_ready :: "(int list, unit, demo_rest) pystate" where
  "demo_vgg_ready = fst (snd (setup_vgg demo_torch Vgg19 demo_classes demo_state))"

definition demo_model_ready :: "(int list, unit, demo_rest) pystate" where
  "demo_model_ready = fst (snd (vgg19_setup demo_torch demo_classes demo_state))"

text \<open>
  The three training runs of the concrete comparison notebook, each from the state in
  which the run before it and the set-up of its own model have left the framework.
\<close>

definition demo_run18 ::
  "(string pyexn + real list \<times> real list \<times> real list \<times> int list \<times> int list)
     \<times> (int list, unit, demo_rest) pystate \<times> (site \<times> (int list, real, string) event) list" where
  "demo_run18 = entrenar_modelo (bound demo_torch Resnet18 [[''fc'', ''weight''], [''fc'', ''bias'']])
                  demo_small demo_small 1 ''ResNet18'' demo_resnet_ready"

definition demo_ready34 :: "(int list, unit, demo_rest) pystate" where
  "demo_ready34 =
     fst (snd (setup_resnet demo_torch Resnet34 ''resnet34'' demo_classes (fst (snd demo_run18))))"

definition demo_run34 ::
  "(string pyexn + real list \<times> real list \<times> real list \<times> int list \<times> int list)
     \<times> (int list, unit, demo_rest) pystate \<times> (site \<times> (int list, real, string) event) list" where
  "demo_run34 = entrenar_modelo (bound demo_torch Resnet34 [[''fc'', ''weight''], [''fc'', ''bias'']])
                  demo_small demo_small 1 ''ResNet34'' demo_ready34"

definition demo_ready19 :: "(int list, unit, demo_rest) pystate" where
  "demo_ready19 = fst (snd (setup_vgg demo_torch Vgg19 demo_classes (fst (snd demo_run34))))"

definition demo_run19 ::
  "(string pyexn + real list \<times> real list \<times> real list \<times> int list \<times> int list)
     \<times> (int list, unit, demo_rest) pystate \<times> (site \<times> (int list, real, string) event) list" where
  "demo_run19 = entrenar_modelo (bound demo_torch Vgg19 [[''classifier'', ''0'', ''weight''],
                    [''classifier'', ''6'', ''weight''], [''classifier'', ''6'', ''bias'']])
                  demo_small demo_small 1 ''VGG19'' demo_ready19"

section \<open>Basic facts about the effect monad\<close>

lemma return_run [simp]: "return a s = (Inr a, s, [])"
  by (simp add: return_def)

lemma raise_run [simp]: "raise x s = (Inl x, s, [])"
  by (simp add: raise_def)

lemma emit_run [simp]: "emit c ev s = (Inr (), s, [(c, ev)])"
  by (simp add: emit_def)

lemma bind_Inr:
  "bind m f s = (Inr b, s', evs) \<longleftrightarrow>
     (\<exists>a s1 e1 e2. m s = (Inr a, s1, e1) \<and> f a s1 = (Inr b, s', e2) \<and> evs = e1 @ e2)"
  by (auto simp: bind_def split: prod.splits sum.splits)

lemma bind_Inl:
  "bind m f s = (Inl x, s', evs) \<longleftrightarrow>
     m s = (Inl x, s', evs) \<or>
     (\<exists>a s1 e1 e2. m s = (Inr a, s1, e1) \<and> f a s1 = (Inl x, s', e2) \<and> evs = e1 @ e2)"
  by (auto simp: bind_def split: prod.splits sum.splits)

lemma call_Inr:
  "call c f mk s = (Inr a, s', evs) \<longleftrightarrow> f s = (Inr a, s') \<and> evs = [(c, mk a)]"
  by (auto simp: call_def split: prod.splits sum.splits)

lemma call_Inl:
  "call c f mk s = (Inl x, s', evs) \<longleftrightarrow>
     (\<exists>e. f s = (Inl e, s') \<and> x = Raised e \<and> evs = [(c, ERaise e)])"
  by (auto simp: call_def split: prod.splits sum.splits)

lemma py_fdiv_Inr:
  "py_fdiv fw x n s = (Inr y, s', evs) \<longleftrightarrow> n \<noteq> 0 \<and> y = fdiv fw x n \<and> s' = s \<and> evs = []"
  by (auto simp: py_fdiv_def)

lemma py_truediv_Inr:
  "py_truediv fw a b s = (Inr y, s', evs) \<longleftrightarrow> b \<noteq> 0 \<and> y = int_truediv fw a b \<and> s' = s \<and> evs = []"
  by (auto simp: py_truediv_def)

lemma with_no_grad_Inr:
  "with_no_grad fw c m s = (Inr a, s', evs) \<longleftrightarrow>
     (\<exists>s1 ev. m (no_grad_enter fw s) = (Inr a, s1, ev) \<and> s' = no_grad_exit fw s1
        \<and> evs = (c, ENoGradEnter) # ev @ [(c, ENoGradExit)])"
  by (auto simp: with_no_grad_def split: prod.splits)

lemma for_each_append:
  "for_each (xs @ ys) body acc = bind (for_each xs body acc) (for_each ys body)"
proof (induction xs arbitrary: acc)
  case Nil
  show ?case by (rule ext) (simp add: bind_def split: prod.splits)
next
  case (Cons x xs)
  show ?case
    by (rule ext) (simp add: Cons.IH bind_def split: prod.splits sum.splits)
qed

lemma for_each_single: "for_each [x] body acc = body x acc"
  by (rule ext) (simp add: bind_def split: prod.splits sum.splits)

section \<open>Call log\<close>

lemma events_at_Nil [simp]: "events_at c [] = []"
  by (simp add: events_at_def)

lemma events_at_Cons [simp]:
  "events_at c ((c', ev) # evs) = (if c' = c then ev # events_at c evs else events_at c evs)"
  by (simp add: events_at_def)

lemma events_at_append [simp]: "events_at c (xs @ ys) = events_at c xs @ events_at c ys"
  by (simp add: events_at_def)

lemma events_at_Pair [simp]:
  "events_at c (map (Pair c') evs) = (if c' = c then evs else [])"
  by (induction evs) auto

lemma events_at_other:
  "\<forall>e \<in> set evs. fst e \<noteq> c \<Longrightarrow> events_at c evs = []"
  by (induction evs) auto

lemma item_values_Nil [simp]: "item_values c [] = []"
  by (simp add: item_values_def)

lemma item_values_append [simp]:
  "item_values c (xs @ ys) = item_values c xs @ item_values c ys"
  by (simp add: item_values_def)

section \<open>A loop over \<open>range(n)\<close> that returns splits into its iterations\<close>

lemma for_each_upt_Inr:
  assumes "for_each [0..<n] body l0 s = (Inr l, s', evs)"
  shows "\<exists>L S E. L 0 = l0 \<and> S 0 = s \<and> L n = l \<and> S n = s' \<and> evs = concat (map E [0..<n])
           \<and> (\<forall>k<n. body k (L k) (S k) = (Inr (L (Suc k)), S (Suc k), E k))"
  using assms
proof (induction n arbitrary: l s' evs)
  case 0
  then show ?case
    by (intro exI[of _ "\<lambda>_. l0"] exI[of _ "\<lambda>_. s"] exI[of _ "\<lambda>_. []"]) simp
next
  case (Suc n)
  from Suc.prems obtain l1 s1 e1 e2 where
    r1: "for_each [0..<n] body l0 s = (Inr l1, s1, e1)" and
    r2: "body n l1 s1 = (Inr l, s', e2)" and ev: "evs = e1 @ e2"
    by (auto simp: for_each_append for_each_single bind_Inr)
  from Suc.IH[OF r1] obtain L S E where
    h: "L 0 = l0" "S 0 = s" "L n = l1" "S n = s1" "e1 = concat (map E [0..<n])"
       "\<forall>k<n. body k (L k) (S k) = (Inr (L (Suc k)), S (Suc k), E k)"
    by blast
  let ?L = "L(Suc n := l)" and ?S = "S(Suc n := s')" and ?E = "E(n := e2)"
  have "?L 0 = l0" "?S 0 = s" "?L (Suc n) = l" "?S (Suc n) = s'"
    using h by simp_all
  moreover have "evs = concat (map ?E [0..<Suc n])"
    using h ev by simp
  moreover have "\<forall>k<Suc n. body k (?L k) (?S k) = (Inr (?L (Suc k)), ?S (Suc k), ?E k)"
    using h r2 by (auto simp: less_Suc_eq)
  ultimately show ?case by blast
qed

section \<open>Rules for uncaught exceptions\<close>

lemma no_raise_simps [simp]:
  "no_raise []"
  "no_raise (e # evs) \<longleftrightarrow> \<not> is_raise (snd e) \<and> no_raise evs"
  "no_raise (xs @ ys) \<longleftrightarrow> no_raise xs \<and> no_raise ys"
  by (simp_all add: no_raise_def)

lemma outcome_ok_RaisedI:
  "no_raise pre \<Longrightarrow> list_all (\<lambda>e. is_exit (snd e)) post
     \<Longrightarrow> outcome_ok (Inl (Raised e)) (pre @ (c, ERaise e) # post)"
  by auto

lemma outcome_ok_Inl:
  "outcome_ok (Inl x :: 'e pyexn + 'a) evs \<Longrightarrow> outcome_ok (Inl x :: 'e pyexn + 'b) evs"
  by (cases x) simp_all

lemma outcome_ok_prepend:
  assumes "no_raise e1" "outcome_ok r e2"
  shows "outcome_ok r (e1 @ e2)"
proof (cases r)
  case (Inr a)
  then show ?thesis using assms by simp
next
  case (Inl x)
  show ?thesis
  proof (cases x)
    case (Raised e)
    with Inl assms(2) obtain pre c post where
      "e2 = pre @ (c, ERaise e) # post" "no_raise pre" "list_all (\<lambda>e. is_exit (snd e)) post"
      by auto
    then have "e1 @ e2 = (e1 @ pre) @ (c, ERaise e) # post \<and> no_raise (e1 @ pre)
                 \<and> list_all (\<lambda>e. is_exit (snd e)) post"
      using assms(1) by simp
    then show ?thesis unfolding Inl Raised outcome_ok.simps by blast
  qed (use Inl assms in simp_all)
qed

lemma outcome_ok_exit:
  assumes "outcome_ok r ev"
  shows "outcome_ok r (ev @ [(c, ENoGradExit)])"
proof (cases r)
  case (Inr a)
  then show ?thesis using assms by simp
next
  case (Inl x)
  show ?thesis
  proof (cases x)
    case (Raised e)
    with Inl assms obtain pre c' post where
      "ev = pre @ (c', ERaise e) # post" "no_raise pre" "list_all (\<lambda>e. is_exit (snd e)) post"
      by auto
    then have "ev @ [(c, ENoGradExit)] = pre @ (c', ERaise e) # (post @ [(c, ENoGradExit)])
                 \<and> no_raise pre \<and> list_all (\<lambda>e. is_exit (snd e)) (post @ [(c, ENoGradExit)])"
      by simp
    then show ?thesis unfolding Inl Raised outcome_ok.simps by blast
  qed (use Inl assms in simp_all)
qed

lemma uncaught_return [intro!]: "uncaught (return a)"
  by (simp add: uncaught_def)

lemma uncaught_raise_zde [intro!]: "uncaught (raise ZeroDivisionError)"
  by (simp add: uncaught_def)

lemma uncaught_raise_unbound [intro!]: "uncaught (raise UnboundLocalError)"
  by (simp add: uncaught_def)

lemma uncaught_emit [intro!]: "\<not> is_raise ev \<Longrightarrow> uncaught (emit c ev)"
  by (simp add: uncaught_def)

lemma uncaught_call [intro!]:
  assumes "\<And>a. \<not> is_raise (mk a)"
  shows "uncaught (call c f mk)"
proof -
  have "outcome_ok (fst (call c f mk s)) (snd (snd (call c f mk s)))" for s
  proof (cases "f s")
    case (Pair r s1)
    show ?thesis
    proof (cases r)
      case (Inl e)
      show ?thesis
        using Pair Inl outcome_ok_RaisedI[of "[]" "[]" e c] by (simp add: call_def)
    next
      case (Inr a)
      then show ?thesis using Pair assms by (simp add: call_def)
    qed
  qed
  then show ?thesis by (simp add: uncaught_def)
qed

lemma uncaught_bind [intro!]:
  assumes "uncaught m" "\<And>a. uncaught (f a)"
  shows "uncaught (bind m f)"
proof -
  have "outcome_ok (fst (bind m f s)) (snd (snd (bind m f s)))" for s
  proof (cases "m s")
    case (fields r s1 e1)
    have m: "outcome_ok r e1" using assms(1) fields by (auto simp: uncaught_def dest: spec[of _ s])
    show ?thesis
    proof (cases r)
      case (Inl x)
      then show ?thesis using fields outcome_ok_Inl[OF m[unfolded Inl]] by (simp add: bind_def)
    next
      case (Inr a)
      obtain r2 s2 e2 where f: "f a s1 = (r2, s2, e2)" by (cases "f a s1") auto
      have "outcome_ok r2 e2" using assms(2)[of a] f by (auto simp: uncaught_def dest: spec[of _ s1])
      moreover have "no_raise e1" using m Inr by simp
      ultimately have "outcome_ok r2 (e1 @ e2)" by (simp add: outcome_ok_prepend)
      then show ?thesis using fields Inr f by (simp add: bind_def)
    qed
  qed
  then show ?thesis by (simp add: uncaught_def)
qed

lemma uncaught_for_each [intro!]:
  assumes "\<And>x acc. uncaught (body x acc)"
  shows "uncaught (for_each xs body acc)"
  using assms by (induction xs arbitrary: acc) auto

lemma uncaught_with_no_grad [intro!]:
  assumes "uncaught m"
  shows "uncaught (with_no_grad fw c m)"
proof -
  have "outcome_ok (fst (with_no_grad fw c m s)) (snd (snd (with_no_grad fw c m s)))" for s
  proof (cases "m (no_grad_enter fw s)")
    case (fields r s1 ev)
    have "outcome_ok r ev" using assms fields
      by (auto simp: uncaught_def dest: spec[of _ "no_grad_enter fw s"])
    then have "outcome_ok r (ev @ [(c, ENoGradExit)])" by (rule outcome_ok_exit)
    then have "outcome_ok r ([(c, ENoGradEnter)] @ (ev @ [(c, ENoGradExit)]))"
      by (rule outcome_ok_prepend[rotated]) simp
    then show ?thesis using fields by (simp add: with_no_grad_def)
  qed
  then show ?thesis by (simp add: uncaught_def)
qed

lemma uncaught_py_fdiv [intro!]: "uncaught (py_fdiv fw x n)"
  by (auto simp: py_fdiv_def)

lemma uncaught_py_truediv [intro!]: "uncaught (py_truediv fw a b)"
  by (auto simp: py_truediv_def)

lemma uncaught_case_prod [intro!]:
  "(\<And>a b. uncaught (f a b)) \<Longrightarrow> uncaught (case_prod f p)"
  by (cases p) simp


section \<open>Rules for the exceptions a computation can end with\<close>

lemma raises_return [intro!]: "raises P (return a)"
  by (simp add: raises_def)

lemma raises_raise [intro!]: "P x \<Longrightarrow> raises P (raise x)"
  by (simp add: raises_def)

lemma raises_emit [intro!]: "raises P (emit c ev)"
  by (simp add: raises_def)

lemma raises_call [intro!]: "(\<And>e. P (Raised e)) \<Longrightarrow> raises P (call c f mk)"
  by (auto simp: raises_def call_def split: prod.splits sum.splits)

lemma raises_bind_post:
  assumes "raises P m" "\<And>s a s' ev. m s = (Inr a, s', ev) \<Longrightarrow> raises P (f a)"
  shows "raises P (bind m f)"
  unfolding raises_def
proof (intro allI impI)
  fix s x assume r: "fst (bind m f s) = Inl x"
  obtain r1 s1 e1 where m: "m s = (r1, s1, e1)" by (cases "m s") auto
  show "P x"
  proof (cases r1)
    case (Inl y)
    then have "fst (m s) = Inl x" using r m by (simp add: bind_def)
    then show ?thesis using assms(1) by (simp add: raises_def)
  next
    case (Inr a)
    then have "fst (f a s1) = Inl x" using r m by (simp add: bind_def split: prod.splits)
    moreover have "raises P (f a)" using assms(2) m Inr by simp
    ultimately show ?thesis by (simp add: raises_def)
  qed
qed

lemma raises_bind [intro!]: "raises P m \<Longrightarrow> (\<And>a. raises P (f a)) \<Longrightarrow> raises P (bind m f)"
  by (rule raises_bind_post)

lemma raises_for_each [intro!]:
  assumes "\<And>x acc. raises P (body x acc)"
  shows "raises P (for_each xs body acc)"
  using assms by (induction xs arbitrary: acc) auto

lemma raises_with_no_grad [intro!]: "raises P m \<Longrightarrow> raises P (with_no_grad fw c m)"
  by (auto simp: raises_def with_no_grad_def split: prod.splits) (metis fst_conv)

lemma raises_case_prod [intro!]: "(\<And>a b. raises P (f a b)) \<Longrightarrow> raises P (case_prod f p)"
  by (cases p) simp

lemma raises_py_fdiv [intro!]: "n = 0 \<longrightarrow> P ZeroDivisionError \<Longrightarrow> raises P (py_fdiv fw x n)"
  by (auto simp: py_fdiv_def)

lemma raises_py_truediv [intro!]: "b = 0 \<longrightarrow> P ZeroDivisionError \<Longrightarrow> raises P (py_truediv fw a b)"
  by (auto simp: py_truediv_def)

section \<open>Rules for the calls a computation logs\<close>

lemma emits_return [intro!]: "emits Q (return a)"
  by (simp add: emits_def)

lemma emits_raise [intro!]: "emits Q (raise x)"
  by (simp add: emits_def)

lemma emits_emit [intro!]: "Q (c, ev) \<Longrightarrow> emits Q (emit c ev)"
  by (simp add: emits_def)

lemma emits_call [intro!]:
  "(\<And>a. Q (c, mk a)) \<Longrightarrow> (\<And>e. Q (c, ERaise e)) \<Longrightarrow> emits Q (call c f mk)"
  by (auto simp: emits_def call_def split: prod.splits sum.splits)

lemma emits_bind [intro!]: "emits Q m \<Longrightarrow> (\<And>a. emits Q (f a)) \<Longrightarrow> emits Q (bind m f)"
  unfolding emits_def
proof (intro allI)
  fix s assume m: "\<forall>s. list_all Q (snd (snd (m s)))" and f: "\<And>a. \<forall>s. list_all Q (snd (snd (f a s)))"
  obtain r1 s1 e1 where ms: "m s = (r1, s1, e1)" by (cases "m s") auto
  have e1: "list_all Q e1" using m ms by (metis snd_conv)
  show "list_all Q (snd (snd (bind m f s)))"
  proof (cases r1)
    case (Inl x)
    then show ?thesis using ms e1 by (simp add: bind_def)
  next
    case (Inr a)
    obtain r2 s2 e2 where fs: "f a s1 = (r2, s2, e2)" by (cases "f a s1") auto
    have "list_all Q e2" using f[of a] fs by (metis snd_conv)
    then show ?thesis using ms Inr fs e1 by (simp add: bind_def)
  qed
qed

lemma emits_for_each [intro!]:
  assumes "\<And>x acc. emits Q (body x acc)"
  shows "emits Q (for_each xs body acc)"
  using assms by (induction xs arbitrary: acc) auto

lemma emits_with_no_grad [intro!]:
  "Q (c, ENoGradEnter) \<Longrightarrow> Q (c, ENoGradExit) \<Longrightarrow> emits Q m \<Longrightarrow> emits Q (with_no_grad fw c m)"
  by (auto simp: emits_def with_no_grad_def split: prod.splits) (metis snd_conv)

lemma emits_case_prod [intro!]: "(\<And>a b. emits Q (f a b)) \<Longrightarrow> emits Q (case_prod f p)"
  by (cases p) simp

lemma emits_py_fdiv [intro!]: "emits Q (py_fdiv fw x n)"
  by (auto simp: py_fdiv_def)

lemma emits_py_truediv [intro!]: "emits Q (py_truediv fw a b)"
  by (auto simp: py_truediv_def)

lemma emitsD: "emits Q m \<Longrightarrow> m s = (r, s', evs) \<Longrightarrow> e \<in> set evs \<Longrightarrow> Q e"
  by (auto simp: emits_def list_all_iff dest!: spec[of _ s])

section \<open>Rules for invariants of the framework state\<close>

lemma preserves_return [intro!]: "preserves I (return a)"
  by (simp add: preserves_def)

lemma preserves_raise [intro!]: "preserves I (raise x)"
  by (simp add: preserves_def)

lemma preserves_emit [intro!]: "preserves I (emit c ev)"
  by (simp add: preserves_def)

lemma preserves_call [intro!]: "call_preserves I f \<Longrightarrow> preserves I (call c f mk)"
  by (auto simp: preserves_def call_preserves_def call_def split: prod.splits sum.splits)

lemma preserves_bind [intro!]:
  assumes "preserves I m" "\<And>a. preserves I (f a)"
  shows "preserves I (bind m f)"
  unfolding preserves_def
proof (intro allI impI)
  fix s assume i: "I s"
  obtain r1 s1 e1 where ms: "m s = (r1, s1, e1)" by (cases "m s") auto
  have i1: "I s1" using assms(1) i ms by (auto simp: preserves_def dest!: spec[of _ s])
  show "I (fst (snd (bind m f s)))"
  proof (cases r1)
    case (Inl x)
    then show ?thesis using ms i1 by (simp add: bind_def)
  next
    case (Inr a)
    obtain r2 s2 e2 where fs: "f a s1 = (r2, s2, e2)" by (cases "f a s1") auto
    have "I s2" using assms(2)[of a] i1 fs by (auto simp: preserves_def dest!: spec[of _ s1])
    then show ?thesis using ms Inr fs by (simp add: bind_def)
  qed
qed

lemma preserves_for_each [intro!]:
  assumes "\<And>x acc. preserves I (body x acc)"
  shows "preserves I (for_each xs body acc)"
  using assms by (induction xs arbitrary: acc) auto

lemma preserves_with_no_grad [intro!]:
  assumes "\<And>s. I s \<Longrightarrow> I (no_grad_enter fw s)" "\<And>s. I s \<Longrightarrow> I (no_grad_exit fw s)" "preserves I m"
  shows "preserves I (with_no_grad fw c m)"
  unfolding preserves_def
proof (intro allI impI)
  fix s assume i: "I s"
  obtain r1 s1 e1 where ms: "m (no_grad_enter fw s) = (r1, s1, e1)"
    by (cases "m (no_grad_enter fw s)") auto
  have "I s1" using assms(1)[OF i] assms(3) ms
    by (auto simp: preserves_def dest!: spec[of _ "no_grad_enter fw s"])
  then show "I (fst (snd (with_no_grad fw c m s)))"
    using ms assms(2) by (simp add: with_no_grad_def)
qed

lemma preserves_case_prod [intro!]: "(\<And>a b. preserves I (f a b)) \<Longrightarrow> preserves I (case_prod f p)"
  by (cases p) simp

lemma preserves_py_fdiv [intro!]: "preserves I (py_fdiv fw x n)"
  by (auto simp: py_fdiv_def)

lemma preserves_py_truediv [intro!]: "preserves I (py_truediv fw a b)"
  by (auto simp: py_truediv_def)

lemma preservesD: "preserves I m \<Longrightarrow> m s = (r, s', evs) \<Longrightarrow> I s \<Longrightarrow> I s'"
  by (auto simp: preserves_def dest!: spec[of _ s])

section \<open>The loader traversals in a log\<close>

lemma loader_passes_Nil [simp]: "loader_passes [] = []"
  by (simp add: loader_passes_def)

lemma loader_passes_Cons [simp]: "loader_passes (e # evs) = iter_of (snd e) @ loader_passes evs"
  by (simp add: loader_passes_def)

lemma loader_passes_append [simp]: "loader_passes (xs @ ys) = loader_passes xs @ loader_passes ys"
  by (simp add: loader_passes_def)

section \<open>The loops over the batches\<close>

lemma train_batch_Inr:
  assumes "train_batch fw k b rl s = (Inr rl', s', evs)"
  shows "\<exists>x y out loss v.
           evs = map (Pair (TrainLoop k))
                   [ETensorTo (fst b) x, ETensorTo (snd b) y, EZeroGrad, EForward x out,
                    ECriterion out y loss, EBackward loss, EStep, EItem loss v]
         \<and> rl' = fadd fw rl v"
  using assms unfolding train_batch_def
  by (auto simp: bind_Inr call_Inr)

lemma train_loop_Inr:
  assumes "for_each bs (train_batch fw k) rl s = (Inr rl', s', evs)"
  shows "\<exists>tr. evs = map (Pair (TrainLoop k)) tr \<and> train_trace bs tr
           \<and> rl' = foldl (fadd fw) rl (concat (map item_of tr))"
  using assms
proof (induction bs arbitrary: rl s evs)
  case Nil
  then show ?case by (auto intro: train_trace_Nil)
next
  case (Cons b bs)
  from Cons.prems obtain rl1 s1 e1 e2 where
    b: "train_batch fw k b rl s = (Inr rl1, s1, e1)" and
    r: "for_each bs (train_batch fw k) rl1 s1 = (Inr rl', s', e2)" and ev: "evs = e1 @ e2"
    by (auto simp: bind_Inr)
  from train_batch_Inr[OF b] obtain x y out loss v where
    e1: "e1 = map (Pair (TrainLoop k))
             [ETensorTo (fst b) x, ETensorTo (snd b) y, EZeroGrad, EForward x out,
              ECriterion out y loss, EBackward loss, EStep, EItem loss v]"
    and rl1: "rl1 = fadd fw rl v" by blast
  from Cons.IH[OF r] obtain tr where
    tr: "e2 = map (Pair (TrainLoop k)) tr" "train_trace bs tr"
        "rl' = foldl (fadd fw) rl1 (concat (map item_of tr))" by blast
  let ?tr = "[ETensorTo (fst b) x, ETensorTo (snd b) y, EZeroGrad, EForward x out,
              ECriterion out y loss, EBackward loss, EStep, EItem loss v] @ tr"
  have "evs = map (Pair (TrainLoop k)) ?tr" using ev e1 tr by simp
  moreover have "train_trace (b # bs) ?tr" by (rule train_trace_Cons[OF tr(2)])
  moreover have "rl' = foldl (fadd fw) rl (concat (map item_of ?tr))"
    using tr(3) rl1 by simp
  ultimately show ?case by blast
qed

lemma val_batch_Inr:
  assumes "val_batch fw k b (vl, yt, yp) s = (Inr (vl', yt', yp'), s', evs)"
  shows "\<exists>x y out loss v p ly lp.
           evs = map (Pair (ValLoop k))
                   [ETensorTo (fst b) x, ETensorTo (snd b) y, EForward x out,
                    ECriterion out y loss, EItem loss v, EMax out p, ENumpy y ly, ENumpy p lp]
         \<and> vl' = fadd fw vl v \<and> yt' = yt @ ly \<and> yp' = yp @ lp"
  using assms unfolding val_batch_def
  by (auto simp: bind_Inr call_Inr)

lemma val_loop_Inr:
  assumes "for_each bs (val_batch fw k) (vl, yt, yp) s = (Inr (vl', yt', yp'), s', evs)"
  shows "\<exists>tr lys lps. evs = map (Pair (ValLoop k)) tr \<and> val_trace bs tr lys lps
           \<and> vl' = foldl (fadd fw) vl (concat (map item_of tr))
           \<and> yt' = yt @ concat lys \<and> yp' = yp @ concat lps"
  using assms
proof (induction bs arbitrary: vl yt yp s evs)
  case Nil
  then have "evs = map (Pair (ValLoop k)) []" "vl' = vl" "yt' = yt" "yp' = yp"
    by simp_all
  with val_trace_Nil show ?case by fastforce
next
  case (Cons b bs)
  from Cons.prems obtain a1 s1 e1 e2 where
    b: "val_batch fw k b (vl, yt, yp) s = (Inr a1, s1, e1)" and
    r: "for_each bs (val_batch fw k) a1 s1 = (Inr (vl', yt', yp'), s', e2)" and
    ev: "evs = e1 @ e2"
    by (auto simp: bind_Inr)
  obtain vl1 yt1 yp1 where a1: "a1 = (vl1, yt1, yp1)" by (cases a1) auto
  from val_batch_Inr[OF b[unfolded a1]] obtain x y out loss v p ly lp where
    e1: "e1 = map (Pair (ValLoop k))
             [ETensorTo (fst b) x, ETensorTo (snd b) y, EForward x out,
              ECriterion out y loss, EItem loss v, EMax out p, ENumpy y ly, ENumpy p lp]"
    and st: "vl1 = fadd fw vl v" "yt1 = yt @ ly" "yp1 = yp @ lp" by blast
  from Cons.IH[OF r[unfolded a1]] obtain tr lys lps where
    tr: "e2 = map (Pair (ValLoop k)) tr" "val_trace bs tr lys lps"
        "vl' = foldl (fadd fw) vl1 (concat (map item_of tr))"
        "yt' = yt1 @ concat lys" "yp' = yp1 @ concat lps" by blast
  let ?tr = "[ETensorTo (fst b) x, ETensorTo (snd b) y, EForward x out,
              ECriterion out y loss, EItem loss v, EMax out p, ENumpy y ly, ENumpy p lp] @ tr"
  have "evs = map (Pair (ValLoop k)) ?tr" using ev e1 tr by simp
  moreover have "val_trace (b # bs) ?tr (ly # lys) (lp # lps)"
    by (rule val_trace_Cons[OF tr(2)])
  moreover have "vl' = foldl (fadd fw) vl (concat (map item_of ?tr))"
    using tr(3) st by simp
  moreover have "yt' = yt @ concat (ly # lys)" "yp' = yp @ concat (lp # lps)"
    using tr st by simp_all
  ultimately show ?case by blast
qed


lemma epoch_body_Inr:
  assumes "epoch_body fw trn vld E k l s = (Inr l', s', evs)"
  shows "\<exists>tr vt lys lps acc tloss vloss.
      evs = [(Epoch k, ETrainMode), (Epoch k, EIter TrainLoader)]
            @ map (Pair (TrainLoop k)) tr
            @ [(Epoch k, EEvalMode), (Epoch k, ENoGradEnter), (Epoch k, EIter ValLoader)]
            @ map (Pair (ValLoop k)) vt
            @ [(Epoch k, ENoGradExit), (Epoch k, EAccuracy (concat lys) (concat lps) acc),
               (Epoch k, EPrint (k + 1) E tloss vloss acc)]
    \<and> train_trace (loader_batches trn k) tr
    \<and> val_trace (loader_batches vld k) vt lys lps
    \<and> loader_len trn \<noteq> 0 \<and> loader_len vld \<noteq> 0
    \<and> tloss = fdiv fw (foldl (fadd fw) (fzero fw) (concat (map item_of tr))) (int (loader_len trn))
    \<and> vloss = fdiv fw (foldl (fadd fw) (fzero fw) (concat (map item_of vt))) (int (loader_len vld))
    \<and> l' = \<lparr>train_losses = train_losses l @ [tloss], val_losses = val_losses l @ [vloss],
             val_accuracies = val_accuracies l @ [acc],
             y_true = Some (concat lys), y_pred = Some (concat lps)\<rparr>"
proof -
  from assms obtain s1 rl s2 e2 s3 vl0 yt yp s4 e4 acc s5 where
    tp: "for_each (loader_batches trn k) (train_batch fw k) (fzero fw) s1 = (Inr rl, s2, e2)" and
    n1: "loader_len trn \<noteq> 0" and
    vp: "for_each (loader_batches vld k) (val_batch fw k) (fzero fw, [], []) (no_grad_enter fw s3)
           = (Inr (vl0, yt, yp), s4, e4)" and
    n2: "loader_len vld \<noteq> 0" and
    ev: "evs = [(Epoch k, ETrainMode), (Epoch k, EIter TrainLoader)] @ e2
            @ [(Epoch k, EEvalMode), (Epoch k, ENoGradEnter), (Epoch k, EIter ValLoader)] @ e4
            @ [(Epoch k, ENoGradExit), (Epoch k, EAccuracy yt yp acc),
               (Epoch k, EPrint (k + 1) E (fdiv fw rl (int (loader_len trn)))
                  (fdiv fw vl0 (int (loader_len vld))) acc)]" and
    l': "l' = \<lparr>train_losses = train_losses l @ [fdiv fw rl (int (loader_len trn))],
              val_losses = val_losses l @ [fdiv fw vl0 (int (loader_len vld))],
              val_accuracies = val_accuracies l @ [acc],
              y_true = Some yt, y_pred = Some yp\<rparr>"
    unfolding epoch_body_def train_pass_def val_pass_def
    by (auto simp: bind_Inr call_Inr py_fdiv_Inr with_no_grad_Inr split: prod.splits)
  from train_loop_Inr[OF tp] obtain tr where
    tr: "e2 = map (Pair (TrainLoop k)) tr" "train_trace (loader_batches trn k) tr"
        "rl = foldl (fadd fw) (fzero fw) (concat (map item_of tr))" by blast
  from val_loop_Inr[OF vp] obtain vt lys lps where
    vt: "e4 = map (Pair (ValLoop k)) vt" "val_trace (loader_batches vld k) vt lys lps"
        "vl0 = foldl (fadd fw) (fzero fw) (concat (map item_of vt))"
        "yt = concat lys" "yp = concat lps" by auto
  show ?thesis
    using ev l' tr vt n1 n2 by blast
qed


lemma events_at_concat_upt:
  assumes "\<forall>j<n. \<forall>e \<in> set (E j). site_epoch (fst e) = Some j"
    and "site_epoch c = Some k" and "k < n"
  shows "events_at c (concat (map E [0..<n])) = events_at c (E k)"
  using assms
proof (induction n)
  case 0
  then show ?case by simp
next
  case (Suc n)
  show ?case
  proof (cases "k = n")
    case True
    have "\<forall>j<n. \<forall>e \<in> set (E j). fst e \<noteq> c"
      using Suc.prems(1,2) True by (metis less_Suc_eq nat_neq_iff option.inject)
    then have "\<forall>e \<in> set (concat (map E [0..<n])). fst e \<noteq> c" by auto
    then have "events_at c (concat (map E [0..<n])) = []" by (rule events_at_other)
    then show ?thesis using True by simp
  next
    case False
    then have kn: "k < n" using Suc.prems(3) by simp
    have "\<forall>e \<in> set (E n). fst e \<noteq> c"
      using Suc.prems(1,2) False by (metis lessI option.inject)
    then have "events_at c (E n) = []" by (rule events_at_other)
    moreover have "events_at c (concat (map E [0..<n])) = events_at c (E k)"
      using Suc.IH Suc.prems(1,2) kn by simp
    ultimately show ?thesis by simp
  qed
qed

lemma acc_upt:
  assumes "\<forall>k<n. g (L (Suc k)) = g (L k) @ [f k]"
  shows "g (L n) = g (L 0) @ map f [0..<n]"
  using assms by (induction n) simp_all

lemma loader_passes_concat_upt:
  assumes "\<forall>k<n. loader_passes (E k) = c"
  shows "loader_passes (concat (map E [0..<n])) = concat (replicate n c)"
  using assms
proof (induction n)
  case 0
  then show ?case by simp
next
  case (Suc n)
  then have "loader_passes (concat (map E [0..<n])) = concat (replicate n c)" by simp
  moreover have "loader_passes (E n) = c" using Suc.prems by simp
  moreover have "replicate (Suc n) c = replicate n c @ [c]"
    by (simp add: replicate_append_same)
  ultimately show ?case by simp
qed

text \<open>What one returning epoch of \<open>entrenar_modelo\<close> leaves in the log and the locals.\<close>

lemma loader_passes_train_trace:
  "train_trace bs tr \<Longrightarrow> loader_passes (map (Pair c) tr) = []"
  by (induction rule: train_trace.induct) simp_all

lemma loader_passes_val_trace:
  "val_trace bs tr lys lps \<Longrightarrow> loader_passes (map (Pair c) tr) = []"
  by (induction rule: val_trace.induct) simp_all

lemma epoch_body_ok:
  assumes "epoch_body fw trn vld E k l s = (Inr l', s', ev)"
  shows "epoch_ok fw trn vld k l l' ev"
    and "\<forall>e \<in> set ev. site_epoch (fst e) = Some k"
    and "loader_passes ev = [TrainLoader, ValLoader]"
proof -
  from epoch_body_Inr[OF assms] obtain tr vt lys lps acc tloss vloss where
    ev: "ev = [(Epoch k, ETrainMode), (Epoch k, EIter TrainLoader)]
            @ map (Pair (TrainLoop k)) tr
            @ [(Epoch k, EEvalMode), (Epoch k, ENoGradEnter), (Epoch k, EIter ValLoader)]
            @ map (Pair (ValLoop k)) vt
            @ [(Epoch k, ENoGradExit), (Epoch k, EAccuracy (concat lys) (concat lps) acc),
               (Epoch k, EPrint (k + 1) E tloss vloss acc)]" and
    tt: "train_trace (loader_batches trn k) tr" and
    vv: "val_trace (loader_batches vld k) vt lys lps" and
    n: "loader_len trn \<noteq> 0" "loader_len vld \<noteq> 0" and
    tloss: "tloss = fdiv fw (foldl (fadd fw) (fzero fw) (concat (map item_of tr))) (int (loader_len trn))" and
    vloss: "vloss = fdiv fw (foldl (fadd fw) (fzero fw) (concat (map item_of vt))) (int (loader_len vld))" and
    l': "l' = \<lparr>train_losses = train_losses l @ [tloss], val_losses = val_losses l @ [vloss],
             val_accuracies = val_accuracies l @ [acc],
             y_true = Some (concat lys), y_pred = Some (concat lps)\<rparr>"
    by blast
  show sites: "\<forall>e \<in> set ev. site_epoch (fst e) = Some k"
    unfolding ev by auto
  have et: "events_at (TrainLoop k) ev = tr" and evl: "events_at (ValLoop k) ev = vt"
    unfolding ev by simp_all
  show "loader_passes ev = [TrainLoader, ValLoader]"
    unfolding ev by (simp add: loader_passes_train_trace[OF tt] loader_passes_val_trace[OF vv])
  show "epoch_ok fw trn vld k l l' ev"
    unfolding epoch_ok_def item_values_def et evl
    using tt vv n tloss vloss l' by auto
qed

lemma epochs_loop_Inr:
  assumes "for_each [0..<n] (epoch_body fw trn vld E) l0 s = (Inr l, s', evs)"
  shows "\<exists>L. L 0 = l0 \<and> L n = l \<and> (\<forall>k<n. epoch_ok fw trn vld k (L k) (L (Suc k)) evs)
            \<and> loader_passes evs = concat (replicate n [TrainLoader, ValLoader])"
proof -
  from for_each_upt_Inr[OF assms] obtain L S Ev where
    h: "L 0 = l0" "L n = l" "evs = concat (map Ev [0..<n])"
       "\<forall>k<n. epoch_body fw trn vld E k (L k) (S k) = (Inr (L (Suc k)), S (Suc k), Ev k)"
    by blast
  have ok: "epoch_ok fw trn vld k (L k) (L (Suc k)) (Ev k)" if "k < n" for k
    using h(4) that by (intro epoch_body_ok(1)) auto
  have sites: "\<forall>j<n. \<forall>e \<in> set (Ev j). site_epoch (fst e) = Some j"
    using h(4) by (intro allI impI epoch_body_ok(2)) auto
  have iters: "\<forall>j<n. loader_passes (Ev j) = [TrainLoader, ValLoader]"
    using h(4) by (intro allI impI epoch_body_ok(3)) auto
  have at: "events_at c evs = events_at c (Ev k)" if "site_epoch c = Some k" "k < n" for c k
    unfolding h(3) using events_at_concat_upt[OF sites that] .
  have "epoch_ok fw trn vld k (L k) (L (Suc k)) evs" if k: "k < n" for k
  proof -
    have a: "events_at (TrainLoop k) evs = events_at (TrainLoop k) (Ev k)"
         "events_at (ValLoop k) evs = events_at (ValLoop k) (Ev k)"
      using at k by simp_all
    have "epoch_ok fw trn vld k (L k) (L (Suc k)) (Ev k)" using ok k by simp
    then show ?thesis
      unfolding epoch_ok_def item_values_def a .
  qed
  moreover have "loader_passes evs = concat (replicate n [TrainLoader, ValLoader])"
    unfolding h(3) using iters by (rule loader_passes_concat_upt)
  ultimately show ?thesis using h(1,2) by blast
qed


lemma vgg_val_batch_Inr:
  assumes "vgg_val_batch fw k b (vl, cr, tt) s = (Inr (vl', cr', tt'), s', evs)"
  shows "\<exists>x y out loss v p n c.
           evs = map (Pair (ValLoop k))
                   [ETensorTo (fst b) x, ETensorTo (snd b) y, EForward x out,
                    ECriterion out y loss, EItem loss v, EMax out p, ESize y n, ECountEqual p y c]
         \<and> vl' = fadd fw vl v \<and> cr' = cr + c \<and> tt' = tt + n"
  using assms unfolding vgg_val_batch_def
  by (auto simp: bind_Inr call_Inr)

lemma vgg_val_loop_Inr:
  assumes "for_each bs (vgg_val_batch fw k) (vl, cr, tt) s = (Inr (vl', cr', tt'), s', evs)"
  shows "\<exists>tr ns cs. evs = map (Pair (ValLoop k)) tr \<and> vgg_val_trace bs tr ns cs
           \<and> vl' = foldl (fadd fw) vl (concat (map item_of tr))
           \<and> cr' = cr + sum_list cs \<and> tt' = tt + sum_list ns"
  using assms
proof (induction bs arbitrary: vl cr tt s evs)
  case Nil
  then have "evs = map (Pair (ValLoop k)) []" "vl' = vl" "cr' = cr + sum_list []"
    "tt' = tt + sum_list []"
    by simp_all
  with vgg_val_trace_Nil show ?case by fastforce
next
  case (Cons b bs)
  from Cons.prems obtain a1 s1 e1 e2 where
    b: "vgg_val_batch fw k b (vl, cr, tt) s = (Inr a1, s1, e1)" and
    r: "for_each bs (vgg_val_batch fw k) a1 s1 = (Inr (vl', cr', tt'), s', e2)" and
    ev: "evs = e1 @ e2"
    by (auto simp: bind_Inr)
  obtain vl1 cr1 tt1 where a1: "a1 = (vl1, cr1, tt1)" by (cases a1) auto
  from vgg_val_batch_Inr[OF b[unfolded a1]] obtain x y out loss v p n c where
    e1: "e1 = map (Pair (ValLoop k))
             [ETensorTo (fst b) x, ETensorTo (snd b) y, EForward x out,
              ECriterion out y loss, EItem loss v, EMax out p, ESize y n, ECountEqual p y c]"
    and st: "vl1 = fadd fw vl v" "cr1 = cr + c" "tt1 = tt + n" by blast
  from Cons.IH[OF r[unfolded a1]] obtain tr ns cs where
    tr: "e2 = map (Pair (ValLoop k)) tr" "vgg_val_trace bs tr ns cs"
        "vl' = foldl (fadd fw) vl1 (concat (map item_of tr))"
        "cr' = cr1 + sum_list cs" "tt' = tt1 + sum_list ns" by blast
  let ?tr = "[ETensorTo (fst b) x, ETensorTo (snd b) y, EForward x out,
              ECriterion out y loss, EItem loss v, EMax out p, ESize y n, ECountEqual p y c] @ tr"
  have "evs = map (Pair (ValLoop k)) ?tr" using ev e1 tr by simp
  moreover have "vgg_val_trace (b # bs) ?tr (n # ns) (c # cs)"
    by (rule vgg_val_trace_Cons[OF tr(2)])
  moreover have "vl' = foldl (fadd fw) vl (concat (map item_of ?tr))"
    using tr(3) st by simp
  moreover have "cr' = cr + sum_list (c # cs)" "tt' = tt + sum_list (n # ns)"
    using tr st by simp_all
  ultimately show ?case by blast
qed

lemma vgg_epoch_body_Inr:
  assumes "vgg_epoch_body fw trn vld E k l s = (Inr l', s', evs)"
  shows "\<exists>tr vt ns cs tloss vloss acc.
      evs = [(Epoch k, ETrainMode), (Epoch k, EIter TrainLoader)]
            @ map (Pair (TrainLoop k)) tr
            @ [(Epoch k, EEvalMode), (Epoch k, ENoGradEnter), (Epoch k, EIter ValLoader)]
            @ map (Pair (ValLoop k)) vt
            @ [(Epoch k, ENoGradExit), (Epoch k, EPrint (k + 1) E tloss vloss acc)]
    \<and> train_trace (loader_batches trn k) tr
    \<and> vgg_val_trace (loader_batches vld k) vt ns cs
    \<and> loader_len trn \<noteq> 0 \<and> loader_len vld \<noteq> 0 \<and> sum_list ns \<noteq> 0
    \<and> tloss = fdiv fw (foldl (fadd fw) (fzero fw) (concat (map item_of tr))) (int (loader_len trn))
    \<and> vloss = fdiv fw (foldl (fadd fw) (fzero fw) (concat (map item_of vt))) (int (loader_len vld))
    \<and> acc = int_truediv fw (100 * sum_list cs) (sum_list ns)
    \<and> l' = (fst l @ [tloss], snd l @ [vloss])"
proof -
  from assms obtain s1 rl s2 e2 s3 vl0 cr tt s4 e4 where
    tp: "for_each (loader_batches trn k) (train_batch fw k) (fzero fw) s1 = (Inr rl, s2, e2)" and
    n1: "loader_len trn \<noteq> 0" and
    vp: "for_each (loader_batches vld k) (vgg_val_batch fw k) (fzero fw, 0, 0) (no_grad_enter fw s3)
           = (Inr (vl0, cr, tt), s4, e4)" and
    n2: "loader_len vld \<noteq> 0" and n3: "tt \<noteq> 0" and
    ev: "evs = [(Epoch k, ETrainMode), (Epoch k, EIter TrainLoader)] @ e2
            @ [(Epoch k, EEvalMode), (Epoch k, ENoGradEnter), (Epoch k, EIter ValLoader)] @ e4
            @ [(Epoch k, ENoGradExit),
               (Epoch k, EPrint (k + 1) E (fdiv fw rl (int (loader_len trn)))
                  (fdiv fw vl0 (int (loader_len vld))) (int_truediv fw (100 * cr) tt))]" and
    l': "l' = (fst l @ [fdiv fw rl (int (loader_len trn))],
               snd l @ [fdiv fw vl0 (int (loader_len vld))])"
    unfolding vgg_epoch_body_def train_pass_def vgg_val_pass_def
    by (auto simp: bind_Inr call_Inr py_fdiv_Inr py_truediv_Inr with_no_grad_Inr split: prod.splits)
  from train_loop_Inr[OF tp] obtain tr where
    tr: "e2 = map (Pair (TrainLoop k)) tr" "train_trace (loader_batches trn k) tr"
        "rl = foldl (fadd fw) (fzero fw) (concat (map item_of tr))" by blast
  from vgg_val_loop_Inr[OF vp] obtain vt ns cs where
    vt: "e4 = map (Pair (ValLoop k)) vt" "vgg_val_trace (loader_batches vld k) vt ns cs"
        "vl0 = foldl (fadd fw) (fzero fw) (concat (map item_of vt))"
        "cr = sum_list cs" "tt = sum_list ns" by auto
  show ?thesis
    using ev l' tr vt n1 n2 n3 by blast
qed

lemma loader_passes_vgg_val_trace:
  "vgg_val_trace bs tr ns cs \<Longrightarrow> loader_passes (map (Pair c) tr) = []"
  by (induction rule: vgg_val_trace.induct) simp_all

lemma vgg_epoch_body_ok:
  assumes "vgg_epoch_body fw trn vld E k l s = (Inr l', s', ev)"
  shows "vgg_epoch_ok fw trn vld k l l' ev"
    and "\<forall>e \<in> set ev. site_epoch (fst e) = Some k"
    and "loader_passes ev = [TrainLoader, ValLoader]"
proof -
  from vgg_epoch_body_Inr[OF assms] obtain tr vt ns cs tloss vloss acc where
    ev: "ev = [(Epoch k, ETrainMode), (Epoch k, EIter TrainLoader)]
            @ map (Pair (TrainLoop k)) tr
            @ [(Epoch k, EEvalMode), (Epoch k, ENoGradEnter), (Epoch k, EIter ValLoader)]
            @ map (Pair (ValLoop k)) vt
            @ [(Epoch k, ENoGradExit), (Epoch k, EPrint (k + 1) E tloss vloss acc)]" and
    tt: "train_trace (loader_batches trn k) tr" and
    vv: "vgg_val_trace (loader_batches vld k) vt ns cs" and
    n: "loader_len trn \<noteq> 0" "loader_len vld \<noteq> 0" "sum_list ns \<noteq> 0" and
    tloss: "tloss = fdiv fw (foldl (fadd fw) (fzero fw) (concat (map item_of tr))) (int (loader_len trn))" and
    vloss: "vloss = fdiv fw (foldl (fadd fw) (fzero fw) (concat (map item_of vt))) (int (loader_len vld))" and
    l': "l' = (fst l @ [tloss], snd l @ [vloss])"
    by blast
  show sites: "\<forall>e \<in> set ev. site_epoch (fst e) = Some k"
    unfolding ev by auto
  have et: "events_at (TrainLoop k) ev = tr" and evl: "events_at (ValLoop k) ev = vt"
    unfolding ev by simp_all
  show "loader_passes ev = [TrainLoader, ValLoader]"
    unfolding ev by (simp add: loader_passes_train_trace[OF tt] loader_passes_vgg_val_trace[OF vv])
  show "vgg_epoch_ok fw trn vld k l l' ev"
    unfolding vgg_epoch_ok_def item_values_def et evl
    using tt vv n tloss vloss l' by auto
qed

lemma paso5_loop_Inr:
  assumes "for_each [0..<n] (vgg_epoch_body fw trn vld E) l0 s = (Inr l, s', evs)"
  shows "\<exists>L. L 0 = l0 \<and> L n = l \<and> (\<forall>k<n. vgg_epoch_ok fw trn vld k (L k) (L (Suc k)) evs)
            \<and> loader_passes evs = concat (replicate n [TrainLoader, ValLoader])"
proof -
  from for_each_upt_Inr[OF assms] obtain L S Ev where
    h: "L 0 = l0" "L n = l" "evs = concat (map Ev [0..<n])"
       "\<forall>k<n. vgg_epoch_body fw trn vld E k (L k) (S k) = (Inr (L (Suc k)), S (Suc k), Ev k)"
    by blast
  have ok: "vgg_epoch_ok fw trn vld k (L k) (L (Suc k)) (Ev k)" if "k < n" for k
    using h(4) that by (intro vgg_epoch_body_ok(1)) auto
  have sites: "\<forall>j<n. \<forall>e \<in> set (Ev j). site_epoch (fst e) = Some j"
    using h(4) by (intro allI impI vgg_epoch_body_ok(2)) auto
  have iters: "\<forall>j<n. loader_passes (Ev j) = [TrainLoader, ValLoader]"
    using h(4) by (intro allI impI vgg_epoch_body_ok(3)) auto
  have at: "events_at c evs = events_at c (Ev k)" if "site_epoch c = Some k" "k < n" for c k
    unfolding h(3) using events_at_concat_upt[OF sites that] .
  have "vgg_epoch_ok fw trn vld k (L k) (L (Suc k)) evs" if k: "k < n" for k
  proof -
    have a: "events_at (TrainLoop k) evs = events_at (TrainLoop k) (Ev k)"
         "events_at (ValLoop k) evs = events_at (ValLoop k) (Ev k)"
      using at k by simp_all
    have "vgg_epoch_ok fw trn vld k (L k) (L (Suc k)) (Ev k)" using ok k by simp
    then show ?thesis
      unfolding vgg_epoch_ok_def item_values_def a .
  qed
  moreover have "loader_passes evs = concat (replicate n [TrainLoader, ValLoader])"
    unfolding h(3) using iters by (rule loader_passes_concat_upt)
  ultimately show ?thesis using h(1,2) by blast
qed


section \<open>Neither function catches an exception\<close>

lemma uncaught_train_batch: "uncaught (train_batch fw k b rl)"
  unfolding train_batch_def by (intro uncaught_bind uncaught_call uncaught_return) simp_all

lemma uncaught_val_batch: "uncaught (val_batch fw k b acc)"
  unfolding val_batch_def by (intro uncaught_case_prod uncaught_bind uncaught_call uncaught_return) simp_all

lemma uncaught_vgg_val_batch: "uncaught (vgg_val_batch fw k b acc)"
  unfolding vgg_val_batch_def by (intro uncaught_case_prod uncaught_bind uncaught_call uncaught_return) simp_all

lemma uncaught_epoch_body: "uncaught (epoch_body fw trn vld E k l)"
  unfolding epoch_body_def train_pass_def val_pass_def
  by (intro uncaught_bind uncaught_call uncaught_return uncaught_emit uncaught_for_each
        uncaught_with_no_grad uncaught_py_fdiv uncaught_case_prod
        uncaught_train_batch uncaught_val_batch) simp_all

lemma uncaught_vgg_epoch_body: "uncaught (vgg_epoch_body fw trn vld E k l)"
  unfolding vgg_epoch_body_def train_pass_def vgg_val_pass_def
  by (intro uncaught_bind uncaught_call uncaught_return uncaught_emit uncaught_for_each
        uncaught_with_no_grad uncaught_py_fdiv uncaught_py_truediv uncaught_case_prod
        uncaught_train_batch uncaught_vgg_val_batch) simp_all

lemma uncaught_entrenar_modelo: "uncaught (entrenar_modelo fw trn vld E nombre)"
  unfolding entrenar_modelo_def entrenar_epochs_def
  by (intro uncaught_bind uncaught_call uncaught_for_each uncaught_epoch_body)
     (auto split: option.splits)

lemma uncaught_paso5: "uncaught (paso5 fw trn vld E)"
  unfolding paso5_def by (intro uncaught_for_each uncaught_vgg_epoch_body)


section \<open>The lists of losses\<close>

lemma train_trace_items: "train_trace bs tr \<Longrightarrow> length (concat (map item_of tr)) = length bs"
  by (induction rule: train_trace.induct) simp_all

lemma val_trace_items: "val_trace bs tr lys lps \<Longrightarrow> length (concat (map item_of tr)) = length bs"
  by (induction rule: val_trace.induct) simp_all

lemma vgg_val_trace_items: "vgg_val_trace bs tr ns cs \<Longrightarrow> length (concat (map item_of tr)) = length bs"
  by (induction rule: vgg_val_trace.induct) simp_all

lemma entrenar_epochs_lists:
  assumes "entrenar_epochs fw trn vld epochs s = (Inr l, s', evs)"
  shows "train_losses l = map (\<lambda>k. fdiv fw (foldl (fadd fw) (fzero fw)
            (item_values (TrainLoop k) evs)) (int (loader_len trn))) [0..<nat epochs]"
    and "val_losses l = map (\<lambda>k. fdiv fw (foldl (fadd fw) (fzero fw)
            (item_values (ValLoop k) evs)) (int (loader_len vld))) [0..<nat epochs]"
proof -
  from epochs_loop_Inr[OF assms[unfolded entrenar_epochs_def]] obtain L where
    L: "L 0 = \<lparr>train_losses = [], val_losses = [], val_accuracies = [],
               y_true = None, y_pred = None\<rparr>" "L (nat epochs) = l"
       "\<forall>k<nat epochs. epoch_ok fw trn vld k (L k) (L (Suc k)) evs"
    by blast
  have "train_losses (L (nat epochs)) = train_losses (L 0) @ map (\<lambda>k. fdiv fw (foldl (fadd fw) (fzero fw)
            (item_values (TrainLoop k) evs)) (int (loader_len trn))) [0..<nat epochs]"
    by (rule acc_upt) (use L(3) in \<open>simp add: epoch_ok_def\<close>)
  then show "train_losses l = map (\<lambda>k. fdiv fw (foldl (fadd fw) (fzero fw)
            (item_values (TrainLoop k) evs)) (int (loader_len trn))) [0..<nat epochs]"
    using L(1,2) by simp
  have "val_losses (L (nat epochs)) = val_losses (L 0) @ map (\<lambda>k. fdiv fw (foldl (fadd fw) (fzero fw)
            (item_values (ValLoop k) evs)) (int (loader_len vld))) [0..<nat epochs]"
    by (rule acc_upt) (use L(3) in \<open>simp add: epoch_ok_def\<close>)
  then show "val_losses l = map (\<lambda>k. fdiv fw (foldl (fadd fw) (fzero fw)
            (item_values (ValLoop k) evs)) (int (loader_len vld))) [0..<nat epochs]"
    using L(1,2) by simp
qed

lemma paso5_lists:
  assumes "paso5 fw trn vld epochs s = (Inr l, s', evs)"
  shows "fst l = map (\<lambda>k. fdiv fw (foldl (fadd fw) (fzero fw)
            (item_values (TrainLoop k) evs)) (int (loader_len trn))) [0..<nat epochs]"
    and "snd l = map (\<lambda>k. fdiv fw (foldl (fadd fw) (fzero fw)
            (item_values (ValLoop k) evs)) (int (loader_len vld))) [0..<nat epochs]"
proof -
  from paso5_loop_Inr[OF assms[unfolded paso5_def]] obtain L where
    L: "L 0 = ([], [])" "L (nat epochs) = l"
       "\<forall>k<nat epochs. vgg_epoch_ok fw trn vld k (L k) (L (Suc k)) evs"
    by blast
  have "fst (L (nat epochs)) = fst (L 0) @ map (\<lambda>k. fdiv fw (foldl (fadd fw) (fzero fw)
            (item_values (TrainLoop k) evs)) (int (loader_len trn))) [0..<nat epochs]"
    by (rule acc_upt) (use L(3) in \<open>simp add: vgg_epoch_ok_def\<close>)
  then show "fst l = map (\<lambda>k. fdiv fw (foldl (fadd fw) (fzero fw)
            (item_values (TrainLoop k) evs)) (int (loader_len trn))) [0..<nat epochs]"
    using L(1,2) by simp
  have "snd (L (nat epochs)) = snd (L 0) @ map (\<lambda>k. fdiv fw (foldl (fadd fw) (fzero fw)
            (item_values (ValLoop k) evs)) (int (loader_len vld))) [0..<nat epochs]"
    by (rule acc_upt) (use L(3) in \<open>simp add: vgg_epoch_ok_def\<close>)
  then show "snd l = map (\<lambda>k. fdiv fw (foldl (fadd fw) (fzero fw)
            (item_values (ValLoop k) evs)) (int (loader_len vld))) [0..<nat epochs]"
    using L(1,2) by simp
qed

section \<open>Runs that end with an exception\<close>

lemma for_each_Inl:
  assumes "for_each xs body acc s = (Inl x, s', evs)"
  shows "\<exists>ys z zs acc1 s1 e1 e2. xs = ys @ z # zs
           \<and> for_each ys body acc s = (Inr acc1, s1, e1)
           \<and> body z acc1 s1 = (Inl x, s', e2) \<and> evs = e1 @ e2"
  using assms
proof (induction xs arbitrary: acc s evs)
  case Nil
  then show ?case by simp
next
  case (Cons a xs)
  from Cons.prems have
    "body a acc s = (Inl x, s', evs) \<or>
     (\<exists>acc1 s1 e1 e2. body a acc s = (Inr acc1, s1, e1)
        \<and> for_each xs body acc1 s1 = (Inl x, s', e2) \<and> evs = e1 @ e2)"
    by (simp add: bind_Inl)
  then show ?case
  proof
    assume "body a acc s = (Inl x, s', evs)"
    then have "a # xs = [] @ a # xs \<and> for_each [] body acc s = (Inr acc, s, [])
                 \<and> body a acc s = (Inl x, s', evs) \<and> evs = [] @ evs"
      by simp
    then show ?thesis by blast
  next
    assume "\<exists>acc1 s1 e1 e2. body a acc s = (Inr acc1, s1, e1)
        \<and> for_each xs body acc1 s1 = (Inl x, s', e2) \<and> evs = e1 @ e2"
    then obtain acc1 s1 e1 e2 where
      b: "body a acc s = (Inr acc1, s1, e1)" and
      r: "for_each xs body acc1 s1 = (Inl x, s', e2)" and ev: "evs = e1 @ e2"
      by blast
    from Cons.IH[OF r] obtain ys z zs acc2 s2 e3 e4 where
      h: "xs = ys @ z # zs" "for_each ys body acc1 s1 = (Inr acc2, s2, e3)"
         "body z acc2 s2 = (Inl x, s', e4)" "e2 = e3 @ e4"
      by blast
    have "a # xs = (a # ys) @ z # zs" using h(1) by simp
    moreover have "for_each (a # ys) body acc s = (Inr acc2, s2, e1 @ e3)"
      using b h(2) by (simp add: bind_Inr)
    moreover have "evs = (e1 @ e3) @ e4" using ev h(4) by simp
    ultimately show ?thesis using h(3) by blast
  qed
qed

lemma upt_split:
  assumes "[0..<n] = ys @ z # zs"
  shows "ys = [0..<z]" and "z < n"
proof -
  have len: "length ys < n"
    using arg_cong[OF assms, of length] by simp
  have "[0..<n] ! length ys = z" using assms by simp
  then have z: "z = length ys" using len by simp
  have "take (length ys) [0..<n] = ys" using assms by simp
  then show "ys = [0..<z]" using z len by (simp add: take_upt)
  show "z < n" using z len by simp
qed

lemma emits_no_pass:
  assumes "emits (\<lambda>e. iter_of (snd e) = []) m" "m s = (r, s', evs)"
  shows "loader_passes evs = []"
proof -
  have "\<forall>e \<in> set evs. iter_of (snd e) = []"
    using emitsD[OF assms] by blast
  then show ?thesis by (induction evs) simp_all
qed

lemma train_loop_no_pass:
  "for_each bs (train_batch fw k) rl s = (r, s', evs) \<Longrightarrow> loader_passes evs = []"
  by (rule emits_no_pass[rotated], assumption)
     (auto simp: train_batch_def)

lemma val_loop_no_pass:
  "for_each bs (val_batch fw k) acc s = (r, s', evs) \<Longrightarrow> loader_passes evs = []"
  by (rule emits_no_pass[rotated], assumption)
     (auto simp: val_batch_def)

lemma vgg_val_loop_no_pass:
  "for_each bs (vgg_val_batch fw k) acc s = (r, s', evs) \<Longrightarrow> loader_passes evs = []"
  by (rule emits_no_pass[rotated], assumption)
     (auto simp: vgg_val_batch_def)

lemma train_pass_passes:
  assumes "train_pass fw k trn s = (r, s', evs)"
  shows "loader_passes evs = [TrainLoader]"
proof -
  obtain r2 s2 e2 where
    l: "for_each (loader_batches trn k) (train_batch fw k) (fzero fw) s = (r2, s2, e2)"
    by (cases "for_each (loader_batches trn k) (train_batch fw k) (fzero fw) s") auto
  then have "evs = (Epoch k, EIter TrainLoader) # e2"
    using assms by (simp add: train_pass_def bind_def emit_def)
  then show ?thesis using train_loop_no_pass[OF l] by simp
qed

lemma val_pass_passes:
  assumes "val_pass fw k vld s = (r, s', evs)"
  shows "loader_passes evs = [ValLoader]"
proof -
  obtain r2 s2 e2 where
    l: "for_each (loader_batches vld k) (val_batch fw k) (fzero fw, [], []) (no_grad_enter fw s)
          = (r2, s2, e2)"
    by (cases "for_each (loader_batches vld k) (val_batch fw k) (fzero fw, [], []) (no_grad_enter fw s)") auto
  then have "evs = (Epoch k, ENoGradEnter) # ((Epoch k, EIter ValLoader) # e2) @ [(Epoch k, ENoGradExit)]"
    using assms by (simp add: val_pass_def with_no_grad_def bind_def emit_def)
  then show ?thesis using val_loop_no_pass[OF l] by simp
qed

lemma vgg_val_pass_passes:
  assumes "vgg_val_pass fw k vld s = (r, s', evs)"
  shows "loader_passes evs = [ValLoader]"
proof -
  obtain r2 s2 e2 where
    l: "for_each (loader_batches vld k) (vgg_val_batch fw k) (fzero fw, 0, 0) (no_grad_enter fw s)
          = (r2, s2, e2)"
    by (cases "for_each (loader_batches vld k) (vgg_val_batch fw k) (fzero fw, 0, 0) (no_grad_enter fw s)") auto
  then have "evs = (Epoch k, ENoGradEnter) # ((Epoch k, EIter ValLoader) # e2) @ [(Epoch k, ENoGradExit)]"
    using assms by (simp add: vgg_val_pass_def with_no_grad_def bind_def emit_def)
  then show ?thesis using vgg_val_loop_no_pass[OF l] by simp
qed

lemma bind_cases:
  assumes "bind m f s = (r, s', ev)"
  obtains (fail) x where "r = Inl x" "m s = (Inl x, s', ev)"
        | (go) a s1 e1 e2 where "m s = (Inr a, s1, e1)" "f a s1 = (r, s', e2)" "ev = e1 @ e2"
  using assms by (auto simp: bind_def split: prod.splits sum.splits)

lemma call_no_pass:
  assumes "call c f mk s = (r, s', ev)" "\<And>a. iter_of (mk a) = []"
  shows "loader_passes ev = []"
  using assms by (auto simp: call_def split: prod.splits sum.splits)

lemma py_fdiv_no_events: "py_fdiv fw x n s = (r, s', ev) \<Longrightarrow> ev = []"
  by (auto simp: py_fdiv_def split: if_splits)

lemma py_truediv_no_events: "py_truediv fw a b s = (r, s', ev) \<Longrightarrow> ev = []"
  by (auto simp: py_truediv_def split: if_splits)

lemma epoch_body_passes:
  assumes "epoch_body fw trn vld E k l s = (r, s', ev)"
  shows "prefix (loader_passes ev) [TrainLoader, ValLoader]"
  using assms unfolding epoch_body_def
  apply (elim bind_cases)
  apply (auto dest!: call_no_pass train_pass_passes val_pass_passes py_fdiv_no_events
              split: prod.splits)
  apply (erule emits_no_pass[rotated])
  apply (intro emits_bind emits_call emits_emit emits_return emits_py_fdiv emits_py_truediv;
         simp)
  done

lemma vgg_epoch_body_passes:
  assumes "vgg_epoch_body fw trn vld E k l s = (r, s', ev)"
  shows "prefix (loader_passes ev) [TrainLoader, ValLoader]"
  using assms unfolding vgg_epoch_body_def
  apply (elim bind_cases)
  apply (auto dest!: call_no_pass train_pass_passes vgg_val_pass_passes py_fdiv_no_events
              split: prod.splits)
  apply (erule emits_no_pass[rotated])
  apply (intro emits_bind emits_call emits_emit emits_return emits_py_fdiv emits_py_truediv;
         simp)
  done

lemma prefix_replicate_aux:
  assumes "prefix p c"
  shows "prefix (concat (replicate z c) @ p) (concat (replicate (z + Suc m) c))"
proof (induction z)
  case 0
  have "prefix p (c @ concat (replicate m c))" using assms by (rule prefix_prefix)
  then show ?case by simp
next
  case (Suc z)
  have "prefix (c @ (concat (replicate z c) @ p)) (c @ concat (replicate (z + Suc m) c))"
    using Suc.IH by (simp only: same_prefix_prefix)
  then show ?case by simp
qed

lemma prefix_replicate_pattern:
  assumes "z < n" "prefix p c"
  shows "prefix (concat (replicate z c) @ p) (concat (replicate n c))"
proof -
  have "n = z + Suc (n - Suc z)" using assms(1) by arith
  then obtain m where "n = z + Suc m" ..
  then show ?thesis using prefix_replicate_aux[OF assms(2)] by blast
qed

lemma epochs_loop_passes:
  assumes "for_each [0..<n] (epoch_body fw trn vld E) l0 s = (r, s', evs)"
  shows "prefix (loader_passes evs) (concat (replicate n [TrainLoader, ValLoader]))"
proof (cases r)
  case (Inr l)
  from epochs_loop_Inr[OF assms[unfolded Inr]]
  have "loader_passes evs = concat (replicate n [TrainLoader, ValLoader])"
    by (elim exE conjE)
  then show ?thesis by simp
next
  case (Inl x)
  from for_each_Inl[OF assms[unfolded Inl]] obtain ys z zs acc1 s1 e1 e2 where
    h: "[0..<n] = ys @ z # zs" "for_each ys (epoch_body fw trn vld E) l0 s = (Inr acc1, s1, e1)"
       "epoch_body fw trn vld E z acc1 s1 = (Inl x, s', e2)" "evs = e1 @ e2"
    by blast
  note sp = upt_split[OF h(1)]
  from epochs_loop_Inr[OF h(2)[unfolded sp(1)]]
  have p1: "loader_passes e1 = concat (replicate z [TrainLoader, ValLoader])"
    by (elim exE conjE)
  have p2: "prefix (loader_passes e2) [TrainLoader, ValLoader]"
    using epoch_body_passes[OF h(3)] .
  have "loader_passes evs = concat (replicate z [TrainLoader, ValLoader]) @ loader_passes e2"
    unfolding h(4) using p1 by simp
  then show ?thesis
    using prefix_replicate_pattern[OF sp(2) p2] by simp
qed

lemma paso5_loop_passes:
  assumes "for_each [0..<n] (vgg_epoch_body fw trn vld E) l0 s = (r, s', evs)"
  shows "prefix (loader_passes evs) (concat (replicate n [TrainLoader, ValLoader]))"
proof (cases r)
  case (Inr l)
  from paso5_loop_Inr[OF assms[unfolded Inr]]
  have "loader_passes evs = concat (replicate n [TrainLoader, ValLoader])"
    by (elim exE conjE)
  then show ?thesis by simp
next
  case (Inl x)
  from for_each_Inl[OF assms[unfolded Inl]] obtain ys z zs acc1 s1 e1 e2 where
    h: "[0..<n] = ys @ z # zs" "for_each ys (vgg_epoch_body fw trn vld E) l0 s = (Inr acc1, s1, e1)"
       "vgg_epoch_body fw trn vld E z acc1 s1 = (Inl x, s', e2)" "evs = e1 @ e2"
    by blast
  note sp = upt_split[OF h(1)]
  from paso5_loop_Inr[OF h(2)[unfolded sp(1)]]
  have p1: "loader_passes e1 = concat (replicate z [TrainLoader, ValLoader])"
    by (elim exE conjE)
  have p2: "prefix (loader_passes e2) [TrainLoader, ValLoader]"
    using vgg_epoch_body_passes[OF h(3)] .
  have "loader_passes evs = concat (replicate z [TrainLoader, ValLoader]) @ loader_passes e2"
    unfolding h(4) using p1 by simp
  then show ?thesis
    using prefix_replicate_pattern[OF sp(2) p2] by simp
qed

section \<open>Facts about whole runs\<close>

lemma entrenar_modelo_Inr:
  assumes "entrenar_modelo fw trn vld E nombre s = (Inr (tls, vls, accs, yt, yp), s', evs)"
  shows "\<exists>s1 l evl. model_to fw s = (Inr (), s1)
           \<and> entrenar_epochs fw trn vld E s1 = (Inr l, s', evl)
           \<and> evs = (Top, EModelTo) # evl
           \<and> tls = train_losses l \<and> vls = val_losses l \<and> accs = val_accuracies l
           \<and> y_true l = Some yt \<and> y_pred l = Some yp"
  using assms unfolding entrenar_modelo_def
  by (auto simp: bind_Inr call_Inr split: option.splits)

lemma entrenar_epochs_last:
  assumes "entrenar_epochs fw trn vld E s = (Inr l, s', evs)" "y_true l = Some yt" "y_pred l = Some yp"
  shows "0 < nat E"
    and "\<exists>lys lps. val_trace (loader_batches vld (nat E - 1)) (events_at (ValLoop (nat E - 1)) evs) lys lps
            \<and> yt = concat lys \<and> yp = concat lps"
proof -
  from epochs_loop_Inr[OF assms(1)[unfolded entrenar_epochs_def]] obtain L where
    L: "L 0 = \<lparr>train_losses = [], val_losses = [], val_accuracies = [],
               y_true = None, y_pred = None\<rparr>" "L (nat E) = l"
       "\<forall>k<nat E. epoch_ok fw trn vld k (L k) (L (Suc k)) evs"
    by (elim exE conjE)
  show pos: "0 < nat E"
  proof (rule ccontr)
    assume "\<not> 0 < nat E"
    then have "l = L 0" using L(2) by simp
    then show False using L(1) assms(2) by simp
  qed
  then obtain m where m: "nat E = Suc m" by (cases "nat E") auto
  have "epoch_ok fw trn vld m (L m) (L (Suc m)) evs"
    using L(3) m by simp
  then have "epoch_ok fw trn vld (nat E - 1) (L (nat E - 1)) l evs"
    using m L(2) by simp
  then show "\<exists>lys lps. val_trace (loader_batches vld (nat E - 1))
            (events_at (ValLoop (nat E - 1)) evs) lys lps \<and> yt = concat lys \<and> yp = concat lps"
    using assms(2,3) by (auto simp: epoch_ok_def)
qed

lemma entrenar_epochs_traces:
  assumes "entrenar_epochs fw trn vld E s = (Inr l, s', evs)" "k < nat E"
  shows "train_trace (loader_batches trn k) (events_at (TrainLoop k) evs)"
    and "\<exists>lys lps. val_trace (loader_batches vld k) (events_at (ValLoop k) evs) lys lps"
    and "loader_len trn \<noteq> 0" and "loader_len vld \<noteq> 0"
proof -
  from epochs_loop_Inr[OF assms(1)[unfolded entrenar_epochs_def]] obtain L where
    "\<forall>k<nat E. epoch_ok fw trn vld k (L k) (L (Suc k)) evs"
    by (elim exE conjE)
  then have ok: "epoch_ok fw trn vld k (L k) (L (Suc k)) evs" using assms(2) by simp
  show "train_trace (loader_batches trn k) (events_at (TrainLoop k) evs)"
    using ok by (simp add: epoch_ok_def)
  show "\<exists>lys lps. val_trace (loader_batches vld k) (events_at (ValLoop k) evs) lys lps"
    using ok by (auto simp: epoch_ok_def)
  show "loader_len trn \<noteq> 0" "loader_len vld \<noteq> 0"
    using ok by (simp_all add: epoch_ok_def)
qed

lemma paso5_traces:
  assumes "paso5 fw trn vld E s = (Inr l, s', evs)" "k < nat E"
  shows "train_trace (loader_batches trn k) (events_at (TrainLoop k) evs)"
    and "\<exists>ns cs. vgg_val_trace (loader_batches vld k) (events_at (ValLoop k) evs) ns cs"
    and "loader_len trn \<noteq> 0" and "loader_len vld \<noteq> 0"
proof -
  from paso5_loop_Inr[OF assms(1)[unfolded paso5_def]] obtain L where
    "\<forall>k<nat E. vgg_epoch_ok fw trn vld k (L k) (L (Suc k)) evs"
    by (elim exE conjE)
  then have ok: "vgg_epoch_ok fw trn vld k (L k) (L (Suc k)) evs" using assms(2) by simp
  show "train_trace (loader_batches trn k) (events_at (TrainLoop k) evs)"
    using ok by (simp add: vgg_epoch_ok_def)
  show "\<exists>ns cs. vgg_val_trace (loader_batches vld k) (events_at (ValLoop k) evs) ns cs"
    using ok by (auto simp: vgg_epoch_ok_def)
  show "loader_len trn \<noteq> 0" "loader_len vld \<noteq> 0"
    using ok by (simp_all add: vgg_epoch_ok_def)
qed


section \<open>Which exceptions a run can end with\<close>

lemma outcome_ok_raise_event:
  assumes "outcome_ok r evs" "(c, ERaise e) \<in> set evs"
  shows "r = Inl (Raised e)"
    and "\<exists>pre post. evs = pre @ (c, ERaise e) # post \<and> no_raise pre
           \<and> list_all (\<lambda>x. is_exit (snd x)) post"
proof -
  have "is_raise (snd (c, ERaise e))" by simp
  with assms(2) have nr: "\<not> no_raise evs"
    unfolding no_raise_def list_all_iff by blast
  have "\<exists>e'. r = Inl (Raised e')"
  proof (cases r)
    case (Inr a)
    then show ?thesis using assms(1) nr by simp
  next
    case (Inl x)
    then show ?thesis using assms(1) nr by (cases x) simp_all
  qed
  then obtain e' where r: "r = Inl (Raised e')" ..
  from assms(1)[unfolded r outcome_ok.simps] obtain pre c' post where
    d: "evs = pre @ (c', ERaise e') # post" "no_raise pre" "list_all (\<lambda>x. is_exit (snd x)) post"
    by (elim exE conjE)
  have "(c, ERaise e) \<notin> set pre" using d(2) by (auto simp: no_raise_def list_all_iff)
  moreover have "(c, ERaise e) \<notin> set post" using d(3) by (auto simp: list_all_iff)
  ultimately have eq: "c = c'" "e = e'" using assms(2) d(1) by auto
  show "r = Inl (Raised e)" using r eq by simp
  show "\<exists>pre post. evs = pre @ (c, ERaise e) # post \<and> no_raise pre
           \<and> list_all (\<lambda>x. is_exit (snd x)) post"
    using d eq by (intro exI[of _ pre] exI[of _ post]) simp
qed

lemma outcome_ok_Raised_logged:
  "outcome_ok (Inl (Raised e)) evs \<Longrightarrow> \<exists>c. (c, ERaise e) \<in> set evs"
  by auto

lemma uncaughtD: "uncaught m \<Longrightarrow> m s = (r, s', evs) \<Longrightarrow> outcome_ok r evs"
  by (auto simp: uncaught_def dest!: spec[of _ s])

lemma raisesD: "raises P m \<Longrightarrow> m s = (Inl x, s', evs) \<Longrightarrow> P x"
  by (auto simp: raises_def dest!: spec[of _ s])

lemma raises_train_batch: "(\<And>e. P (Raised e)) \<Longrightarrow> raises P (train_batch fw k b rl)"
  unfolding train_batch_def by (intro raises_bind raises_call raises_return) simp_all

lemma raises_val_batch: "(\<And>e. P (Raised e)) \<Longrightarrow> raises P (val_batch fw k b acc)"
  unfolding val_batch_def
  by (intro raises_case_prod raises_bind raises_call raises_return) simp_all

lemma raises_vgg_val_batch: "(\<And>e. P (Raised e)) \<Longrightarrow> raises P (vgg_val_batch fw k b acc)"
  unfolding vgg_val_batch_def
  by (intro raises_case_prod raises_bind raises_call raises_return) simp_all

lemma raises_train_pass: "(\<And>e. P (Raised e)) \<Longrightarrow> raises P (train_pass fw k trn)"
  unfolding train_pass_def
  by (intro raises_bind raises_emit raises_for_each raises_train_batch) simp_all

lemma raises_val_pass: "(\<And>e. P (Raised e)) \<Longrightarrow> raises P (val_pass fw k vld)"
  unfolding val_pass_def
  by (intro raises_with_no_grad raises_bind raises_emit raises_for_each raises_val_batch) simp_all

lemma raises_vgg_val_pass: "(\<And>e. P (Raised e)) \<Longrightarrow> raises P (vgg_val_pass fw k vld)"
  unfolding vgg_val_pass_def
  by (intro raises_with_no_grad raises_bind raises_emit raises_for_each raises_vgg_val_batch)
     simp_all

lemma raises_epoch_body:
  assumes "\<And>e. P (Raised e)"
    "loader_len trn = 0 \<or> loader_len vld = 0 \<longrightarrow> P ZeroDivisionError"
  shows "raises P (epoch_body fw trn vld E k l)"
  unfolding epoch_body_def
  by (intro raises_bind raises_call raises_train_pass raises_val_pass raises_py_fdiv
        raises_case_prod raises_emit raises_return)
     (use assms in auto)

lemma raises_entrenar_epochs:
  assumes "\<And>e. P (Raised e)"
    "loader_len trn = 0 \<or> loader_len vld = 0 \<longrightarrow> P ZeroDivisionError"
  shows "raises P (entrenar_epochs fw trn vld E)"
  unfolding entrenar_epochs_def
  by (intro raises_for_each raises_epoch_body assms)

lemma raises_entrenar_modelo:
  assumes "\<And>e. P (Raised e)" "P UnboundLocalError"
    "loader_len trn = 0 \<or> loader_len vld = 0 \<longrightarrow> P ZeroDivisionError"
  shows "raises P (entrenar_modelo fw trn vld E nombre)"
  unfolding entrenar_modelo_def
  by (intro raises_bind raises_call raises_entrenar_epochs assms)
     (auto split: option.splits intro: assms)

section \<open>The divisions\<close>

text \<open>Paso 5 never ends with \<open>UnboundLocalError\<close>, whatever the loaders.\<close>

lemma raises_vgg_epoch_body_any:
  "raises (\<lambda>x. x \<noteq> UnboundLocalError) (vgg_epoch_body fw trn vld E k l)"
  unfolding vgg_epoch_body_def
  by (intro raises_bind raises_call raises_train_pass raises_py_fdiv raises_py_truediv
        raises_vgg_val_pass raises_case_prod raises_emit raises_return) simp_all

lemma raises_paso5_any: "raises (\<lambda>x. x \<noteq> UnboundLocalError) (paso5 fw trn vld E)"
  unfolding paso5_def by (intro raises_for_each raises_vgg_epoch_body_any)

lemma outcome_ok_Raised_logged':
  "outcome_ok r evs \<Longrightarrow> r = Inl (Raised e) \<Longrightarrow> \<exists>c. (c, ERaise e) \<in> set evs"
  by auto

lemma entrenar_modelo_Inl:
  assumes "entrenar_modelo fw trn vld E nombre s = (Inl x, s', evs)"
  shows "(\<exists>e. x = Raised e \<and> model_to fw s = (Inl e, s'))
       \<or> (\<exists>s1 evl. entrenar_epochs fw trn vld E s1 = (Inl x, s', evl))
       \<or> (\<exists>s1 l evl. entrenar_epochs fw trn vld E s1 = (Inr l, s', evl))"
  using assms[unfolded entrenar_modelo_def]
proof (cases rule: bind_cases)
  case (fail x')
  then show ?thesis by (auto simp: call_Inl)
next
  case (go a s1 e1 e2)
  from go(2) show ?thesis
  proof (cases rule: bind_cases)
    case (fail x')
    then show ?thesis by blast
  next
    case (go l s2 e3 e4)
    from go(2) have "s' = s2" by (auto split: option.splits)
    with go(1) show ?thesis by blast
  qed
qed

lemma entrenar_modelo_zero_len:
  assumes run: "entrenar_modelo fw trn vld E nombre s = (r, s', evs)"
    and E: "1 \<le> E" and z: "loader_len trn = 0 \<or> loader_len vld = 0" and nr: "no_raise evs"
  shows "r = Inl ZeroDivisionError"
proof (cases r)
  case (Inr a)
  obtain tls vls accs yt yp where a: "a = (tls, vls, accs, yt, yp)" by (cases a) auto
  from entrenar_modelo_Inr[OF run[unfolded Inr a]] obtain s1 l evl where
    "entrenar_epochs fw trn vld E s1 = (Inr l, s', evl)" by (elim exE conjE)
  from entrenar_epochs_traces(3,4)[OF this, of 0] E z show ?thesis by simp
next
  case (Inl x)
  show ?thesis
  proof (cases x)
    case ZeroDivisionError
    then show ?thesis using Inl by simp
  next
    case UnboundLocalError
    from entrenar_modelo_Inl[OF run[unfolded Inl UnboundLocalError]] show ?thesis
    proof (elim disjE exE conjE)
      fix e assume "UnboundLocalError = Raised e"
      then show ?thesis by simp
    next
      fix s1 evl assume "entrenar_epochs fw trn vld E s1 = (Inl UnboundLocalError, s', evl)"
      from raisesD[OF raises_entrenar_epochs[of "\<lambda>x. x \<noteq> UnboundLocalError"] this]
      show ?thesis by simp
    next
      fix s1 l evl assume "entrenar_epochs fw trn vld E s1 = (Inr l, s', evl)"
      from entrenar_epochs_traces(3,4)[OF this, of 0] E z show ?thesis by simp
    qed
  next
    case (Raised e)
    from outcome_ok_Raised_logged'[OF uncaughtD[OF uncaught_entrenar_modelo run]] Inl Raised
    obtain c where "(c, ERaise e) \<in> set evs" by blast
    moreover have "is_raise (snd (c, ERaise e))" by simp
    ultimately have "\<not> no_raise evs" unfolding no_raise_def list_all_iff by blast
    then show ?thesis using nr by simp
  qed
qed

lemma paso5_zero_len:
  assumes run: "paso5 fw trn vld E s = (r, s', evs)"
    and E: "1 \<le> E" and z: "loader_len trn = 0 \<or> loader_len vld = 0" and nr: "no_raise evs"
  shows "r = Inl ZeroDivisionError"
proof (cases r)
  case (Inr a)
  from paso5_traces(3,4)[OF run[unfolded Inr], of 0] E z show ?thesis by simp
next
  case (Inl x)
  show ?thesis
  proof (cases x)
    case ZeroDivisionError
    then show ?thesis using Inl by simp
  next
    case UnboundLocalError
    from raisesD[OF raises_paso5_any run[unfolded Inl UnboundLocalError]]
    show ?thesis by simp
  next
    case (Raised e)
    from outcome_ok_Raised_logged'[OF uncaughtD[OF uncaught_paso5 run]] Inl Raised
    obtain c where "(c, ERaise e) \<in> set evs" by blast
    moreover have "is_raise (snd (c, ERaise e))" by simp
    ultimately have "\<not> no_raise evs" unfolding no_raise_def list_all_iff by blast
    then show ?thesis using nr by simp
  qed
qed

section \<open>Nothing is saved by the training function\<close>

lemma emits_entrenar_modelo_not_save:
  "emits (\<lambda>e. \<not> is_save (snd e)) (entrenar_modelo fw trn vld E nombre)"
  unfolding entrenar_modelo_def entrenar_epochs_def epoch_body_def train_pass_def val_pass_def
    train_batch_def val_batch_def
  by (intro emits_bind emits_call emits_emit emits_return emits_raise emits_for_each
        emits_with_no_grad emits_py_fdiv emits_case_prod)
     (auto split: option.splits)

section \<open>Runs of the concrete framework\<close>

lemmas run_defs = entrenar_modelo_def entrenar_epochs_def epoch_body_def train_pass_def
  val_pass_def val_batch_def train_batch_def with_no_grad_def py_fdiv_def py_truediv_def
  bind_def call_def paso5_def vgg_epoch_body_def vgg_val_pass_def vgg_val_batch_def
  demo_fw_def demo_train_def demo_val_def demo_empty_def demo_bad_def

lemma demo_entrenar_epochs:
  "entrenar_epochs demo_fw demo_train demo_val 1 0 =
     (Inr \<lparr>train_losses = [3 / 2], val_losses = [2], val_accuracies = [1 / 2],
           y_true = Some [4, 7], y_pred = Some [4, 9]\<rparr>, 2, demo_log)"
  by (simp add: run_defs demo_log_def)

lemma demo_entrenar_modelo:
  "entrenar_modelo demo_fw demo_train demo_val 1 ''demo'' 0 =
     (Inr ([3 / 2], [2], [1 / 2], [4, 7], [4, 9]), 2, (Top, EModelTo) # demo_log)"
  by (simp add: run_defs demo_log_def)

lemma demo_paso5:
  "paso5 demo_fw demo_train demo_val 1 0 = (Inr ([3 / 2], [2]), 2, demo_vgg_log)"
  by (simp add: run_defs demo_vgg_log_def)

section \<open>The division by \<open>total\<close>\<close>

lemma vgg_val_trace_sizes:
  assumes "vgg_val_trace bs tr ns cs"
  shows "length ns = length bs" and "\<forall>n \<in> set ns. \<exists>y. ESize y n \<in> set tr"
  using assms by (induction rule: vgg_val_trace.induct) auto

lemma sum_list_positive:
  fixes ns :: "int list"
  shows "ns \<noteq> [] \<Longrightarrow> \<forall>n \<in> set ns. 0 < n \<Longrightarrow> 0 < sum_list ns"
proof (induction ns)
  case Nil
  then show ?case by simp
next
  case (Cons a ns)
  then show ?case by (cases ns) auto
qed

lemma vgg_val_pass_sizes:
  assumes run: "vgg_val_pass fw k vld s = (Inr (vl, cr, tt), s', evs)"
    and ne: "loader_batches vld k \<noteq> []"
    and pos: "\<forall>c t n. (c, ESize t n) \<in> set evs \<longrightarrow> 0 < n"
  shows "tt \<noteq> 0"
proof -
  from run obtain s1 e1 where
    loop: "for_each (loader_batches vld k) (vgg_val_batch fw k) (fzero fw, 0, 0)
             (no_grad_enter fw s) = (Inr (vl, cr, tt), s1, e1)" and
    ev: "evs = (Epoch k, ENoGradEnter) # ((Epoch k, EIter ValLoader) # e1)
                 @ [(Epoch k, ENoGradExit)]"
    unfolding vgg_val_pass_def by (auto simp: with_no_grad_Inr bind_Inr)
  from vgg_val_loop_Inr[OF loop] obtain tr ns cs where
    e1: "e1 = map (Pair (ValLoop k)) tr" and
    tr: "vgg_val_trace (loader_batches vld k) tr ns cs" and tt: "tt = 0 + sum_list ns"
    by (elim exE conjE)
  have "ns \<noteq> []" using vgg_val_trace_sizes(1)[OF tr] ne by auto
  moreover have "\<forall>n \<in> set ns. 0 < n"
  proof
    fix n assume "n \<in> set ns"
    with vgg_val_trace_sizes(2)[OF tr] obtain y where "ESize y n \<in> set tr" by blast
    then have "(ValLoop k, ESize y n) \<in> set evs" unfolding ev e1 by auto
    then show "0 < n" using pos by blast
  qed
  ultimately have "0 < sum_list ns" by (rule sum_list_positive)
  then show ?thesis using tt by simp
qed

lemma vgg_epoch_body_ZeroDivision:
  assumes run: "vgg_epoch_body fw trn vld E k l s = (Inl ZeroDivisionError, s', ev)"
    and len: "loader_len trn \<noteq> 0" "loader_len vld \<noteq> 0"
  shows "\<exists>s1 s2 vl cr e1. vgg_val_pass fw k vld s1 = (Inr (vl, cr, 0), s2, e1)
            \<and> set e1 \<subseteq> set ev"
proof -
  have tp: "train_pass fw k trn u \<noteq> (Inl ZeroDivisionError, u', e)" for u u' e
    using raisesD[OF raises_train_pass[of "\<lambda>x. x \<noteq> ZeroDivisionError" fw k trn], of u] by auto
  have vp: "vgg_val_pass fw k vld u \<noteq> (Inl ZeroDivisionError, u', e)" for u u' e
    using raisesD[OF raises_vgg_val_pass[of "\<lambda>x. x \<noteq> ZeroDivisionError" fw k vld], of u]
    by auto
  from run[unfolded vgg_epoch_body_def] show ?thesis
  proof (cases rule: bind_cases)
    case (fail x)
    then show ?thesis by (auto simp: call_Inl)
  next
    case (go a1 u1 e1 r1)
    from go(2) show ?thesis
    proof (cases rule: bind_cases)
      case (fail x)
      then show ?thesis using tp by auto
    next
      case (go a2 u2 e2 r2)
      from go(2) show ?thesis
      proof (cases rule: bind_cases)
        case (fail x)
        then show ?thesis using len by (auto simp: py_fdiv_def raise_def return_def)
      next
        case (go a3 u3 e3 r3)
        from go(2) show ?thesis
        proof (cases rule: bind_cases)
          case (fail x)
          then show ?thesis by (auto simp: call_Inl)
        next
          case (go a4 u4 e4 r4)
          from go(2) show ?thesis
          proof (cases rule: bind_cases)
            case (fail x)
            then show ?thesis using vp by auto
          next
            case (go a5 u5 e5 r5)
            obtain vl cr tt where a5: "a5 = (vl, cr, tt)" by (cases a5) auto
            have "tt = 0"
              using go(2) len unfolding a5
              by (auto simp: bind_def py_fdiv_def py_truediv_def raise_def return_def emit_def
                    split: if_splits)
            then have "vgg_val_pass fw k vld u4 = (Inr (vl, cr, 0), u5, e5)"
              using go(1) a5 by simp
            moreover have "set e5 \<subseteq> set ev"
              using \<open>ev = e1 @ r1\<close> \<open>r1 = e2 @ r2\<close> \<open>r2 = e3 @ r3\<close> \<open>r3 = e4 @ r4\<close>
                \<open>r4 = e5 @ r5\<close> by auto
            ultimately show ?thesis by blast
          qed
        qed
      qed
    qed
  qed
qed

lemma paso5_no_ZeroDivision:
  assumes run: "paso5 fw trn vld E s = (r, s', evs)"
    and len: "loader_len trn \<noteq> 0" "loader_len vld \<noteq> 0"
    and ne: "\<forall>j<nat E. loader_batches vld j \<noteq> []"
    and pos: "\<forall>c t n. (c, ESize t n) \<in> set evs \<longrightarrow> 0 < n"
  shows "r \<noteq> Inl ZeroDivisionError"
proof
  assume "r = Inl ZeroDivisionError"
  with run have "for_each [0..<nat E] (vgg_epoch_body fw trn vld E) ([], []) s
                   = (Inl ZeroDivisionError, s', evs)" by (simp add: paso5_def)
  from for_each_Inl[OF this] obtain ys z zs acc1 s1 e1 e2 where
    xs: "[0..<nat E] = ys @ z # zs" and
    b: "vgg_epoch_body fw trn vld E z acc1 s1 = (Inl ZeroDivisionError, s', e2)" and
    ev: "evs = e1 @ e2"
    by (elim exE conjE)
  have "z \<in> set [0..<nat E]" unfolding xs by simp
  then have z: "z < nat E" by simp
  from vgg_epoch_body_ZeroDivision[OF b len] obtain u1 u2 vl cr e where
    vp: "vgg_val_pass fw z vld u1 = (Inr (vl, cr, 0), u2, e)" and sub: "set e \<subseteq> set e2"
    by (elim exE conjE)
  have "\<forall>c t n. (c, ESize t n) \<in> set e \<longrightarrow> 0 < n" using pos sub ev by auto
  from vgg_val_pass_sizes[OF vp _ this] ne z show False by auto
qed

lemma zero_epochs:
  assumes "epochs \<le> 0"
  shows "paso5 fw trn vld epochs s = (Inr ([], []), s, [])"
    and "entrenar_epochs fw trn vld epochs s
           = (Inr \<lparr>train_losses = [], val_losses = [], val_accuracies = [],
                    y_true = None, y_pred = None\<rparr>, s, [])"
    and "fst (entrenar_modelo fw trn vld epochs nombre s) \<noteq> Inl ZeroDivisionError"
  using assms
  by (auto simp: paso5_def entrenar_epochs_def entrenar_modelo_def return_def bind_def call_def
        raise_def split: prod.splits sum.splits)

section \<open>The training sequence on the framework\<close>

lemma train_batch_steps:
  assumes "train_batch fw k b rl s = (Inr rl', s', evs)"
  shows "\<exists>x y out loss v sa sb sc sd se sf sg.
           tensor_to fw (fst b) s = (Inr x, sa) \<and> tensor_to fw (snd b) sa = (Inr y, sb)
         \<and> zero_grad fw sb = (Inr (), sc) \<and> forward fw x sc = (Inr out, sd)
         \<and> criterion fw out y sd = (Inr loss, se) \<and> backward fw loss se = (Inr (), sf)
         \<and> opt_step fw sf = (Inr (), sg) \<and> item fw loss sg = (Inr v, s')
         \<and> evs = map (Pair (TrainLoop k))
                   [ETensorTo (fst b) x, ETensorTo (snd b) y, EZeroGrad, EForward x out,
                    ECriterion out y loss, EBackward loss, EStep, EItem loss v]
         \<and> rl' = fadd fw rl v"
  using assms unfolding train_batch_def
  by (auto simp: bind_Inr call_Inr)

lemma train_loop_steps:
  assumes "for_each bs (train_batch fw k) rl s = (Inr rl', s', evs)"
  shows "\<exists>tr. evs = map (Pair (TrainLoop k)) tr \<and> train_steps fw bs rl s rl' s' tr"
  using assms
proof (induction bs arbitrary: rl s evs)
  case Nil
  then show ?case by (auto intro: train_steps_Nil)
next
  case (Cons b bs)
  from Cons.prems obtain rl1 s1 e1 e2 where
    b: "train_batch fw k b rl s = (Inr rl1, s1, e1)" and
    r: "for_each bs (train_batch fw k) rl1 s1 = (Inr rl', s', e2)" and ev: "evs = e1 @ e2"
    by (auto simp: bind_Inr)
  from train_batch_steps[OF b] obtain x y out loss v sa sb sc sd se sf sg where
    c: "tensor_to fw (fst b) s = (Inr x, sa)" "tensor_to fw (snd b) sa = (Inr y, sb)"
       "zero_grad fw sb = (Inr (), sc)" "forward fw x sc = (Inr out, sd)"
       "criterion fw out y sd = (Inr loss, se)" "backward fw loss se = (Inr (), sf)"
       "opt_step fw sf = (Inr (), sg)" "item fw loss sg = (Inr v, s1)" and
    e1: "e1 = map (Pair (TrainLoop k))
             [ETensorTo (fst b) x, ETensorTo (snd b) y, EZeroGrad, EForward x out,
              ECriterion out y loss, EBackward loss, EStep, EItem loss v]"
    and rl1: "rl1 = fadd fw rl v" by (elim exE conjE)
  from Cons.IH[OF r] obtain tr where
    tr: "e2 = map (Pair (TrainLoop k)) tr" "train_steps fw bs rl1 s1 rl' s' tr"
    by (elim exE conjE)
  let ?tr = "[ETensorTo (fst b) x, ETensorTo (snd b) y, EZeroGrad, EForward x out,
              ECriterion out y loss, EBackward loss, EStep, EItem loss v] @ tr"
  have "evs = map (Pair (TrainLoop k)) ?tr" using ev e1 tr(1) by simp
  moreover have "train_steps fw (b # bs) rl s rl' s' ?tr"
    by (rule train_steps_Cons[OF c tr(2)[unfolded rl1]])
  ultimately show ?case by blast
qed

lemma train_pass_steps:
  assumes "train_pass fw k trn s = (Inr rl, s', evs)"
  shows "\<exists>tr. evs = (Epoch k, EIter TrainLoader) # map (Pair (TrainLoop k)) tr
            \<and> train_steps fw (loader_batches trn k) (fzero fw) s rl s' tr"
proof -
  from assms obtain e where
    "for_each (loader_batches trn k) (train_batch fw k) (fzero fw) s = (Inr rl, s', e)"
    "evs = (Epoch k, EIter TrainLoader) # e"
    unfolding train_pass_def by (auto simp: bind_Inr)
  with train_loop_steps[OF this(1)] show ?thesis by auto
qed

lemma events_at_map_same [simp]: "events_at c (map (Pair c) tr) = tr"
  by (induction tr) (simp_all add: events_at_def)

lemma events_at_skip:
  "list_all (\<lambda>e. fst e \<noteq> c) evs \<Longrightarrow> events_at c evs = []"
  by (induction evs) (simp_all add: events_at_def)

lemma emits_val_pass_site: "emits (\<lambda>e. fst e \<noteq> TrainLoop k) (val_pass fw k vld)"
  unfolding val_pass_def val_batch_def
  by (intro emits_with_no_grad emits_bind emits_emit emits_for_each emits_case_prod emits_call
        emits_return) simp_all

lemma emits_vgg_val_pass_site: "emits (\<lambda>e. fst e \<noteq> TrainLoop k) (vgg_val_pass fw k vld)"
  unfolding vgg_val_pass_def vgg_val_batch_def
  by (intro emits_with_no_grad emits_bind emits_emit emits_for_each emits_case_prod emits_call
        emits_return) simp_all

lemma epoch_body_steps:
  assumes run: "epoch_body fw trn vld E k l s = (Inr l', s', ev)"
  shows "\<exists>u u' rl. model_train fw s = (Inr (), u)
           \<and> train_steps fw (loader_batches trn k) (fzero fw) u rl u' (events_at (TrainLoop k) ev)"
  using run[unfolded epoch_body_def]
proof (cases rule: bind_cases)
  case (fail x)
  then show ?thesis by simp
next
  case (go a u e1 r1)
  from go(1) have mt: "model_train fw s = (Inr (), u)" and e1: "e1 = [(Epoch k, ETrainMode)]"
    by (auto simp: call_Inr)
  from go(2) show ?thesis
  proof (cases rule: bind_cases)
    case (fail x)
    then show ?thesis by simp
  next
    case (go rl u' e2 r2)
    from train_pass_steps[OF go(1)] obtain tr where
      e2: "e2 = (Epoch k, EIter TrainLoader) # map (Pair (TrainLoop k)) tr" and
      st: "train_steps fw (loader_batches trn k) (fzero fw) u rl u' tr"
      by (elim exE conjE)
    have "emits (\<lambda>e. fst e \<noteq> TrainLoop k)
            (\<lambda>u. (\<lambda>running_loss.
              bind (py_fdiv fw running_loss (int (loader_len trn))) (\<lambda>train_loss.
              bind (call (Epoch k) (model_eval fw) (\<lambda>_. EEvalMode)) (\<lambda>_.
              bind (val_pass fw k vld) (\<lambda>(val_loss, yt, yp).
              bind (py_fdiv fw val_loss (int (loader_len vld))) (\<lambda>val_loss.
              bind (call (Epoch k) (accuracy_score fw yt yp) (EAccuracy yt yp)) (\<lambda>accuracy.
              bind (emit (Epoch k) (EPrint (k + 1) E train_loss val_loss accuracy)) (\<lambda>_.
              return \<lparr>train_losses = train_losses l @ [train_loss],
                      val_losses = val_losses l @ [val_loss],
                      val_accuracies = val_accuracies l @ [accuracy],
                      y_true = Some yt, y_pred = Some yp\<rparr>))))))) rl u)"
      by (intro emits_bind emits_py_fdiv emits_call emits_val_pass_site emits_case_prod
            emits_emit emits_return) simp_all
    from emitsD[OF this go(2)] have "list_all (\<lambda>e. fst e \<noteq> TrainLoop k) r2"
      by (auto simp: list_all_iff)
    then have "events_at (TrainLoop k) r2 = []" by (rule events_at_skip)
    then have "events_at (TrainLoop k) ev = tr"
      unfolding \<open>ev = e1 @ r1\<close> \<open>r1 = e2 @ r2\<close> e1 e2 by simp
    with mt st show ?thesis by blast
  qed
qed

lemma vgg_epoch_body_steps:
  assumes run: "vgg_epoch_body fw trn vld E k l s = (Inr l', s', ev)"
  shows "\<exists>u u' rl. model_train fw s = (Inr (), u)
           \<and> train_steps fw (loader_batches trn k) (fzero fw) u rl u' (events_at (TrainLoop k) ev)"
  using run[unfolded vgg_epoch_body_def]
proof (cases rule: bind_cases)
  case (fail x)
  then show ?thesis by simp
next
  case (go a u e1 r1)
  from go(1) have mt: "model_train fw s = (Inr (), u)" and e1: "e1 = [(Epoch k, ETrainMode)]"
    by (auto simp: call_Inr)
  from go(2) show ?thesis
  proof (cases rule: bind_cases)
    case (fail x)
    then show ?thesis by simp
  next
    case (go rl u' e2 r2)
    from train_pass_steps[OF go(1)] obtain tr where
      e2: "e2 = (Epoch k, EIter TrainLoader) # map (Pair (TrainLoop k)) tr" and
      st: "train_steps fw (loader_batches trn k) (fzero fw) u rl u' tr"
      by (elim exE conjE)
    have "emits (\<lambda>e. fst e \<noteq> TrainLoop k)
            (\<lambda>u. (\<lambda>running_loss.
              bind (py_fdiv fw running_loss (int (loader_len trn))) (\<lambda>epoch_loss.
              bind (call (Epoch k) (model_eval fw) (\<lambda>_. EEvalMode)) (\<lambda>_.
              bind (vgg_val_pass fw k vld) (\<lambda>(val_loss, correct, total_n).
              bind (py_fdiv fw val_loss (int (loader_len vld))) (\<lambda>val_loss.
              bind (py_truediv fw (100 * correct) total_n) (\<lambda>accuracy.
              bind (emit (Epoch k) (EPrint (k + 1) E epoch_loss val_loss accuracy)) (\<lambda>_.
              return (fst l @ [epoch_loss], snd l @ [val_loss])))))))) rl u)"
      by (intro emits_bind emits_py_fdiv emits_py_truediv emits_call emits_vgg_val_pass_site
            emits_case_prod emits_emit emits_return) simp_all
    from emitsD[OF this go(2)] have "list_all (\<lambda>e. fst e \<noteq> TrainLoop k) r2"
      by (auto simp: list_all_iff)
    then have "events_at (TrainLoop k) r2 = []" by (rule events_at_skip)
    then have "events_at (TrainLoop k) ev = tr"
      unfolding \<open>ev = e1 @ r1\<close> \<open>r1 = e2 @ r2\<close> e1 e2 by simp
    with mt st show ?thesis by blast
  qed
qed

lemma epochs_loop_steps:
  assumes "for_each [0..<n] (epoch_body fw trn vld E) l0 s = (Inr l, s', evs)" "j < n"
  shows "\<exists>u u' rl. train_steps fw (loader_batches trn j) (fzero fw) u rl u'
                      (events_at (TrainLoop j) evs)"
proof -
  from for_each_upt_Inr[OF assms(1)] obtain L S Ev where
    h: "evs = concat (map Ev [0..<n])"
       "\<forall>k<n. epoch_body fw trn vld E k (L k) (S k) = (Inr (L (Suc k)), S (Suc k), Ev k)"
    by blast
  have sites: "\<forall>j<n. \<forall>e \<in> set (Ev j). site_epoch (fst e) = Some j"
    using h(2) by (intro allI impI epoch_body_ok(2)) auto
  have at: "events_at (TrainLoop j) evs = events_at (TrainLoop j) (Ev j)"
    unfolding h(1) using events_at_concat_upt[OF sites _ assms(2), of "TrainLoop j"] by simp
  from h(2) assms(2) have "epoch_body fw trn vld E j (L j) (S j)
      = (Inr (L (Suc j)), S (Suc j), Ev j)" by simp
  from epoch_body_steps[OF this] show ?thesis unfolding at by blast
qed

lemma paso5_loop_steps:
  assumes "for_each [0..<n] (vgg_epoch_body fw trn vld E) l0 s = (Inr l, s', evs)" "j < n"
  shows "\<exists>u u' rl. train_steps fw (loader_batches trn j) (fzero fw) u rl u'
                      (events_at (TrainLoop j) evs)"
proof -
  from for_each_upt_Inr[OF assms(1)] obtain L S Ev where
    h: "evs = concat (map Ev [0..<n])"
       "\<forall>k<n. vgg_epoch_body fw trn vld E k (L k) (S k) = (Inr (L (Suc k)), S (Suc k), Ev k)"
    by blast
  have sites: "\<forall>j<n. \<forall>e \<in> set (Ev j). site_epoch (fst e) = Some j"
    using h(2) by (intro allI impI vgg_epoch_body_ok(2)) auto
  have at: "events_at (TrainLoop j) evs = events_at (TrainLoop j) (Ev j)"
    unfolding h(1) using events_at_concat_upt[OF sites _ assms(2), of "TrainLoop j"] by simp
  from h(2) assms(2) have "vgg_epoch_body fw trn vld E j (L j) (S j)
      = (Inr (L (Suc j)), S (Suc j), Ev j)" by simp
  from vgg_epoch_body_steps[OF this] show ?thesis unfolding at by blast
qed

lemma entrenar_modelo_passes:
  assumes "entrenar_modelo fw trn vld E nombre s = (r, s', evs)"
  shows "prefix (loader_passes evs) (concat (replicate (nat E) [TrainLoader, ValLoader]))"
  using assms[unfolded entrenar_modelo_def]
proof (cases rule: bind_cases)
  case (fail x)
  then have "loader_passes evs = []" by (auto simp: call_Inl)
  then show ?thesis by simp
next
  case (go a s1 e1 e2)
  have e1: "loader_passes e1 = []" using go(1) by (auto simp: call_Inr)
  from go(2) have "prefix (loader_passes e2) (concat (replicate (nat E) [TrainLoader, ValLoader]))"
  proof (cases rule: bind_cases)
    case (fail x)
    from fail(2)[unfolded entrenar_epochs_def] show ?thesis by (rule epochs_loop_passes)
  next
    case (go l s2 e3 e4)
    have "e4 = []" using go(2) by (auto split: option.splits)
    then have "e2 = e3" using go(3) by simp
    with go(1)[unfolded entrenar_epochs_def] show ?thesis by (simp add: epochs_loop_passes)
  qed
  then show ?thesis using go(3) e1 by simp
qed

lemma demo_train_batch:
  "train_batch demo_fw 0 ([1, 2], [1, 3]) 0 0 =
     (Inr 1, 1, map (Pair (TrainLoop 0))
        [ETensorTo [1, 2] [1, 2], ETensorTo [1, 3] [1, 3], EZeroGrad, EForward [1, 2] [1, 2],
         ECriterion [1, 2] [1, 3] [1], EBackward [1], EStep, EItem [1] 1])"
  by (simp add: run_defs)

lemma demo_bad_run:
  "entrenar_modelo demo_bad demo_train demo_val 1 ''demo'' 0 =
     (Inl (Raised ''max failed''), 2, (Top, EModelTo) # demo_bad_log)"
  by (simp add: run_defs demo_bad_log_def)

lemma demo_empty_val_run:
  "entrenar_modelo demo_fw demo_train demo_empty 2 ''demo'' 0 =
     (Inl ZeroDivisionError, 2, (Top, EModelTo) # demo_empty_val_log)"
  by (simp add: run_defs demo_empty_val_log_def eval_nat_numeral)

lemma demo_empty_val_paso5:
  "paso5 demo_fw demo_train demo_empty 1 0 = (Inl ZeroDivisionError, 2, demo_empty_val_log)"
  by (simp add: run_defs demo_empty_val_log_def)

lemma demo_empty_train_run:
  "entrenar_modelo demo_fw demo_empty demo_val 1 ''demo'' 0 =
     (Inl ZeroDivisionError, 0,
      [(Top, EModelTo), (Epoch 0, ETrainMode), (Epoch 0, EIter TrainLoader)])"
  by (simp add: run_defs)

lemma demo_zero_epochs_paso5: "paso5 demo_fw demo_empty demo_empty 0 0 = (Inr ([], []), 0, [])"
  by (simp add: run_defs)

lemma demo_zero_epochs_run:
  "entrenar_modelo demo_fw demo_empty demo_empty 0 ''demo'' 0 =
     (Inl UnboundLocalError, 0, [(Top, EModelTo)])"
  by (simp add: run_defs)

section \<open>Invariants of the framework state through the training loops\<close>

lemma preserves_train_batch: "fw_preserves I fw \<Longrightarrow> preserves I (train_batch fw k b rl)"
  unfolding train_batch_def
  by (intro preserves_bind preserves_call preserves_return) (simp_all add: fw_preserves_def)

lemma preserves_val_batch: "fw_preserves I fw \<Longrightarrow> preserves I (val_batch fw k b acc)"
  unfolding val_batch_def
  by (intro preserves_case_prod preserves_bind preserves_call preserves_return)
     (simp_all add: fw_preserves_def)

lemma preserves_vgg_val_batch: "fw_preserves I fw \<Longrightarrow> preserves I (vgg_val_batch fw k b acc)"
  unfolding vgg_val_batch_def
  by (intro preserves_case_prod preserves_bind preserves_call preserves_return)
     (simp_all add: fw_preserves_def)

lemma preserves_epoch_body:
  "fw_preserves I fw \<Longrightarrow> preserves I (epoch_body fw trn vld E k l)"
  unfolding epoch_body_def train_pass_def val_pass_def
  by (intro preserves_bind preserves_call preserves_return preserves_emit preserves_for_each
        preserves_with_no_grad preserves_py_fdiv preserves_case_prod
        preserves_train_batch preserves_val_batch)
     (simp_all add: fw_preserves_def)

lemma preserves_vgg_epoch_body:
  "fw_preserves I fw \<Longrightarrow> preserves I (vgg_epoch_body fw trn vld E k l)"
  unfolding vgg_epoch_body_def train_pass_def vgg_val_pass_def
  by (intro preserves_bind preserves_call preserves_return preserves_emit preserves_for_each
        preserves_with_no_grad preserves_py_fdiv preserves_py_truediv preserves_case_prod
        preserves_train_batch preserves_vgg_val_batch)
     (simp_all add: fw_preserves_def)

lemma preserves_entrenar_modelo:
  "fw_preserves I fw \<Longrightarrow> preserves I (entrenar_modelo fw trn vld E nombre)"
  unfolding entrenar_modelo_def entrenar_epochs_def
  by (intro preserves_bind preserves_call preserves_for_each preserves_epoch_body)
     (auto simp: fw_preserves_def split: option.splits)

lemma preserves_paso5: "fw_preserves I fw \<Longrightarrow> preserves I (paso5 fw trn vld E)"
  unfolding paso5_def by (intro preserves_for_each preserves_vgg_epoch_body)

section \<open>The methods bound to a model\<close>

lemma lift_rest_models: "models (snd (lift_rest f s)) = models s"
  by (simp add: lift_rest_def split: prod.splits)

lemma lift_model_other: "v' \<noteq> v \<Longrightarrow> models (snd (lift_model v f s)) v' = models s v'"
  by (simp add: lift_model_def split: prod.splits)

lemma lift_model_kept:
  "keeps_parameters f \<Longrightarrow>
     named_parameters (models (snd (lift_model v f s)) v) = named_parameters (models s v)"
  by (auto simp: lift_model_def keeps_parameters_def split: prod.splits)
     (metis fst_conv snd_conv)

text \<open>Training one model leaves every other model as it is.\<close>

lemma bound_preserves_other:
  assumes "v' \<noteq> v"
  shows "fw_preserves (\<lambda>s. models s v' = m) (bound T v ps)"
  unfolding fw_preserves_def call_preserves_def bound_def
  using assms by (simp add: lift_rest_models lift_model_other)

text \<open>
  Under the contract, training a model leaves the entry of every parameter that its
  optimizer was not built over as it is.
\<close>

lemma bound_preserves_entry:
  assumes c: "torch_contract T" and n: "n \<notin> set ps"
  shows "fw_preserves (\<lambda>s. map_of (named_parameters (models s v)) n = e) (bound T v ps)"
proof -
  have k: "keeps_parameters (t_model_to T)" "keeps_parameters (t_train T)"
    "keeps_parameters (t_eval T)" "\<And>ps. keeps_parameters (t_zero_grad T ps)"
    "\<And>x. keeps_parameters (t_forward T x)" "\<And>l. keeps_parameters (t_backward T l)"
    using c by (simp_all add: torch_contract_def)
  have st: "map_of (named_parameters (models (snd (lift_model v (t_step T ps) s)) v)) n
              = map_of (named_parameters (models s v)) n" for s
  proof -
    obtain res m1 r1 where f: "t_step T ps (models s v) (rest s) = (res, m1, r1)"
      by (cases "t_step T ps (models s v) (rest s)") auto
    have "map_of (named_parameters (fst (snd (t_step T ps (models s v) (rest s))))) n
            = map_of (named_parameters (models s v)) n"
      using c n by (simp add: torch_contract_def)
    then show ?thesis using f by (simp add: lift_model_def)
  qed
  show ?thesis
    unfolding fw_preserves_def call_preserves_def bound_def
    by (simp add: lift_rest_models lift_model_kept k st)
qed

section \<open>Frozen parameters and the parameters of the optimizer\<close>

lemma map_of_filter_None:
  "\<not> P n \<Longrightarrow> map_of (filter (\<lambda>(k, p). P k) xs) n = None"
  by (induction xs) auto

lemma map_of_filter_keep:
  "P n \<Longrightarrow> map_of (filter (\<lambda>(k, p). P k) xs) n = map_of xs n"
  by (induction xs) auto

lemma frozen_set_layer:
  assumes "frozen (set_layer pre n_in n_out w b m) n"
  shows "\<not> prefix pre n" and "frozen m n"
proof -
  show np: "\<not> prefix pre n"
  proof
    assume p: "prefix pre n"
    have "map_of (filter (\<lambda>(k, q). \<not> prefix pre k) (named_parameters m)) n = None"
      using map_of_filter_None[of "\<lambda>k. \<not> prefix pre k" n] p by simp
    then show False
      using assms by (auto simp: frozen_def set_layer_def map_add_def split: if_splits)
  qed
  have keep: "map_of (filter (\<lambda>(k, q). \<not> prefix pre k) (named_parameters m)) n
          = map_of (named_parameters m) n"
    using map_of_filter_keep[of "\<lambda>k. \<not> prefix pre k" n] np by simp
  have "n \<noteq> pre @ [''weight'']" "n \<noteq> pre @ [''bias'']" using np by auto
  then show "frozen m n"
    using assms keep
    by (auto simp: frozen_def set_layer_def map_add_def split: option.splits if_splits)
qed

lemma parameters_under_prefix: "n \<in> set (parameters_under pre m) \<Longrightarrow> prefix pre n"
  by (auto simp: parameters_under_def)

lemma map_of_freeze_under_other:
  "\<not> prefix pre n \<Longrightarrow>
     map_of (map (\<lambda>(k, p). if prefix pre k then (k, p\<lparr>requires_grad := False\<rparr>) else (k, p)) xs) n
       = map_of xs n"
  by (induction xs) auto

lemma map_of_all_requires_grad:
  "list_all (\<lambda>np. requires_grad (snd np)) xs \<Longrightarrow> map_of xs n = Some p \<Longrightarrow> requires_grad p"
  by (induction xs) (auto split: if_splits)

lemma frozen_freeze_under:
  assumes "frozen (freeze_under pre m) n" "list_all (\<lambda>np. requires_grad (snd np)) (named_parameters m)"
  shows "prefix pre n"
proof (rule ccontr)
  assume np: "\<not> prefix pre n"
  have "map_of (named_parameters (freeze_under pre m)) n = map_of (named_parameters m) n"
    unfolding freeze_under_def using map_of_freeze_under_other[OF np] by simp
  with assms(1) obtain p where "map_of (named_parameters m) n = Some p" "\<not> requires_grad p"
    by (auto simp: frozen_def)
  then show False using map_of_all_requires_grad[OF assms(2)] by blast
qed

lemma prefix_features_classifier:
  "prefix [''features''] n \<Longrightarrow> \<not> prefix [''classifier''] n"
  by (cases n) auto

section \<open>What setting a model up leaves behind\<close>

lemma call_lift_rest_Inr:
  "call c (lift_rest f) mk s = (Inr a, s', evs) \<longleftrightarrow>
     (\<exists>r1. f (rest s) = (Inr a, r1) \<and> s' = s\<lparr>rest := r1\<rparr> \<and> evs = [(c, mk a)])"
  by (cases "f (rest s)") (auto simp: call_Inr lift_rest_def)

lemma call_lift_model_Inr:
  "call c (lift_model v f) mk s = (Inr a, s', evs) \<longleftrightarrow>
     (\<exists>m1 r1. f (models s v) (rest s) = (Inr a, m1, r1)
        \<and> s' = s\<lparr>models := (models s)(v := m1), rest := r1\<rparr> \<and> evs = [(c, mk a)])"
  by (cases "f (models s v) (rest s)") (auto simp: call_Inr lift_model_def)

lemma set_model_Inr:
  "set_model v m s = (Inr a, s', evs) \<longleftrightarrow> s' = s\<lparr>models := (models s)(v := m)\<rparr> \<and> evs = []"
  by (auto simp: set_model_def)

lemma get_model_Inr:
  "get_model v s = (Inr m, s', evs) \<longleftrightarrow> m = models s v \<and> s' = s \<and> evs = []"
  by (auto simp: get_model_def)

lemmas nb_Inr = bind_Inr call_lift_rest_Inr call_lift_model_Inr set_model_Inr get_model_Inr



lemma setup_resnet_Inr:
  assumes "setup_resnet T v name cn s0 = (Inr ps, s1, evs)"
  shows "\<exists>m n_in w b ra.
           t_zoo T name True (rest s0) = (Inr m, ra)
         \<and> models s1 v = set_layer [''fc''] n_in (int (length cn)) w b (freeze_all m)
         \<and> ps = parameters_under [''fc''] (models s1 v)
         \<and> evs = map (Pair Top) [EZoo name True, EInFeatures [''fc''] n_in,
                    ELinear n_in (int (length cn)), EAdam ps]
         \<and> (\<forall>v'. v' \<noteq> v \<longrightarrow> models s1 v' = models s0 v')"
  using assms unfolding setup_resnet_def
  by (auto simp: nb_Inr) blast

lemma setup_vgg_Inr:
  assumes "setup_vgg T v cn s0 = (Inr ps, s1, evs)"
  shows "\<exists>m n_in w b ra.
           t_zoo T ''vgg19'' True (rest s0) = (Inr m, ra)
         \<and> models s1 v = set_layer [''classifier'', ''6''] n_in (int (length cn)) w b
                            (freeze_under [''features''] m)
         \<and> ps = parameters_under [''classifier''] (models s1 v)
         \<and> evs = map (Pair Top) [EZoo ''vgg19'' True, EInFeatures [''classifier'', ''6''] n_in,
                    ELinear n_in (int (length cn)), EAdam ps]
         \<and> (\<forall>v'. v' \<noteq> v \<longrightarrow> models s1 v' = models s0 v')"
  using assms unfolding setup_vgg_def
  by (auto simp: nb_Inr) blast

lemma vgg19_setup_Inr:
  assumes "vgg19_setup T cn s0 = (Inr ps, s1, evs)" and k: "keeps_parameters (t_model_to T)"
  shows "\<exists>m n_in w b ra.
           t_zoo T ''vgg19'' True (rest s0) = (Inr m, ra)
         \<and> named_parameters (models s1 Model)
             = named_parameters (set_layer [''classifier'', ''6''] n_in (int (length cn)) w b
                            (freeze_under [''features''] m))
         \<and> ps = parameters_under [''classifier''] (models s1 Model)
         \<and> evs = map (Pair Top) [EZoo ''vgg19'' True, EInFeatures [''classifier'', ''6''] n_in,
                    ELinear n_in (int (length cn)), EModelTo, ECrossEntropyLoss, EAdam ps]"
proof -
  from assms(1) obtain m ra n_in w b m0 m1 r0 r1 where
    z: "t_zoo T ''vgg19'' True (rest s0) = (Inr m, ra)" and
    m0: "m0 = set_layer [''classifier'', ''6''] n_in (int (length cn)) w b
                            (freeze_under [''features''] m)" and
    mt: "t_model_to T m0 r0 = (Inr (), m1, r1)" and
    s1: "models s1 Model = m1" and
    ps: "ps = parameters_under [''classifier''] m1" and
    ev: "evs = map (Pair Top) [EZoo ''vgg19'' True, EInFeatures [''classifier'', ''6''] n_in,
                    ELinear n_in (int (length cn)), EModelTo, ECrossEntropyLoss, EAdam ps]"
    unfolding vgg19_setup_def by (auto simp: nb_Inr)
  have "named_parameters m1 = named_parameters m0"
    using k mt by (auto simp: keeps_parameters_def dest!: spec[of _ m0] spec[of _ r0])
  then show ?thesis using z m0 s1 ps ev by blast
qed

section \<open>The concrete framework keeps the contract\<close>

lemma map_of_demo_step:
  "n \<notin> set ps \<Longrightarrow>
     map_of (map (\<lambda>(k, p). if k \<in> set ps then (k, p\<lparr>pvalue := map (\<lambda>v. v + 1) (pvalue p)\<rparr>)
                            else (k, p)) xs) n = map_of xs n"
  by (induction xs) auto

lemma demo_torch_contract: "torch_contract demo_torch"
  by (simp add: torch_contract_def keeps_parameters_def demo_torch_def demo_step_def
        map_of_demo_step)

lemma demo_zoo_trainable: "zoo_trainable demo_torch"
  by (auto simp: zoo_trainable_def demo_torch_def demo_vgg_def demo_resnet_def split: if_splits)

lemmas nb_defs = setup_resnet_def setup_vgg_def vgg19_setup_def bound_def lift_rest_def
  lift_model_def set_model_def get_model_def demo_torch_def demo_resnet_def demo_vgg_def
  demo_step_def demo_state_def demo_classes_def demo_small_def freeze_all_def
  freeze_under_def set_layer_def parameters_under_def layer_shape_def emit_def return_def
  demo_lib_def on_steps_def

lemma demo_setup_resnet_fst:
  "fst (setup_resnet demo_torch Resnet18 ''resnet18'' demo_classes demo_state)
     = Inr [[''fc'', ''weight''], [''fc'', ''bias'']]"
  by (simp add: nb_defs bind_def call_def)

lemma demo_setup_vgg_fst:
  "fst (setup_vgg demo_torch Vgg19 demo_classes demo_state)
     = Inr [[''classifier'', ''0'', ''weight''], [''classifier'', ''6'', ''weight''],
            [''classifier'', ''6'', ''bias'']]"
  by (simp add: nb_defs bind_def call_def)

lemma demo_vgg19_setup_fst:
  "fst (vgg19_setup demo_torch demo_classes demo_state)
     = Inr [[''classifier'', ''0'', ''weight''], [''classifier'', ''6'', ''weight''],
            [''classifier'', ''6'', ''bias'']]"
  by (simp add: nb_defs bind_def call_def)

lemma demo_resnet_ready_params:
  "named_parameters (models demo_resnet_ready Resnet18) =
     [([''conv1'', ''weight''], \<lparr>pvalue = [1], requires_grad = False\<rparr>),
      ([''fc'', ''weight''], \<lparr>pvalue = [4], requires_grad = True\<rparr>),
      ([''fc'', ''bias''], \<lparr>pvalue = [2], requires_grad = True\<rparr>)]"
  by (simp add: demo_resnet_ready_def nb_defs bind_def call_def)

lemma demo_vgg_ready_params:
  "named_parameters (models demo_vgg_ready Vgg19) =
     [([''features'', ''0'', ''weight''], \<lparr>pvalue = [1], requires_grad = False\<rparr>),
      ([''classifier'', ''0'', ''weight''], \<lparr>pvalue = [2], requires_grad = True\<rparr>),
      ([''classifier'', ''6'', ''weight''], \<lparr>pvalue = [8], requires_grad = True\<rparr>),
      ([''classifier'', ''6'', ''bias''], \<lparr>pvalue = [2], requires_grad = True\<rparr>)]"
  by (simp add: demo_vgg_ready_def nb_defs bind_def call_def)

lemma demo_model_ready_params:
  "named_parameters (models demo_model_ready Model) =
     [([''features'', ''0'', ''weight''], \<lparr>pvalue = [1], requires_grad = False\<rparr>),
      ([''classifier'', ''0'', ''weight''], \<lparr>pvalue = [2], requires_grad = True\<rparr>),
      ([''classifier'', ''6'', ''weight''], \<lparr>pvalue = [8], requires_grad = True\<rparr>),
      ([''classifier'', ''6'', ''bias''], \<lparr>pvalue = [2], requires_grad = True\<rparr>)]"
  by (simp add: demo_model_ready_def nb_defs bind_def call_def)

lemma run_collapse: "f = (fst f, fst (snd f), snd (snd f))"
  by simp

section \<open>The logs of the notebooks\<close>

lemma zoo_calls_simps [simp]:
  "zoo_calls [] = []" "zoo_calls (e # evs) = zoo_of (snd e) @ zoo_calls evs"
  "zoo_calls (xs @ ys) = zoo_calls xs @ zoo_calls ys"
  by (simp_all add: zoo_calls_def)

lemma saved_simps [simp]:
  "saved [] = []" "saved (e # evs) = save_of (snd e) @ saved evs"
  "saved (xs @ ys) = saved xs @ saved ys"
  by (simp_all add: saved_def)

lemma confusion_plots_simps [simp]:
  "confusion_plots [] = []" "confusion_plots (e # evs) = plot_of (snd e) @ confusion_plots evs"
  "confusion_plots (xs @ ys) = confusion_plots xs @ confusion_plots ys"
  by (simp_all add: confusion_plots_def)

lemma quiet_log:
  assumes "list_all quiet evs"
  shows "zoo_calls evs = []" and "saved evs = []" and "confusion_plots evs = []"
  using assms by (induction evs) (auto simp: quiet_def)

lemma emits_quiet_entrenar_modelo: "emits quiet (entrenar_modelo fw trn vld E nombre)"
  unfolding entrenar_modelo_def entrenar_epochs_def epoch_body_def train_pass_def val_pass_def
    train_batch_def val_batch_def
  by (intro emits_bind emits_call emits_emit emits_return emits_raise emits_for_each
        emits_with_no_grad emits_py_fdiv emits_case_prod)
     (auto simp: quiet_def split: option.splits)

lemma emits_quiet_paso5: "emits quiet (paso5 fw trn vld E)"
  unfolding paso5_def vgg_epoch_body_def train_pass_def vgg_val_pass_def
    train_batch_def vgg_val_batch_def
  by (intro emits_bind emits_call emits_emit emits_return emits_raise emits_for_each
        emits_with_no_grad emits_py_fdiv emits_py_truediv emits_case_prod)
     (auto simp: quiet_def split: option.splits)

lemma emits_quiet_paso6: "emits quiet (paso6 T r18 r34 rv)"
  unfolding paso6_def calcular_precision_final_def plot_metric_comparison_def
  by (intro emits_bind emits_call emits_emit emits_return emits_for_each emits_case_prod)
     (auto simp: quiet_def)

lemma quiet_run:
  assumes "emits quiet m" "m s = (r, s', evs)"
  shows "zoo_calls evs = []" and "saved evs = []" and "confusion_plots evs = []"
proof -
  have "list_all quiet evs" using assms by (auto simp: emits_def dest: spec[of _ s])
  then show "zoo_calls evs = []" and "saved evs = []" and "confusion_plots evs = []"
    by (rule quiet_log)+
qed

lemma call_preserves_lift_rest: "call_preserves (\<lambda>s. P (models s)) (lift_rest f)"
  by (simp add: call_preserves_def lift_rest_models)

lemma preserves_models_paso6: "preserves (\<lambda>s. P (models s)) (paso6 T r18 r34 rv)"
  unfolding paso6_def calcular_precision_final_def plot_metric_comparison_def
  by (intro preserves_bind preserves_call preserves_emit preserves_return preserves_for_each
        preserves_case_prod call_preserves_lift_rest)

lemma mostrar_confusion_Inr:
  assumes "mostrar_confusion T cn yt yp modelo s = (Inr u, s', evs)"
  shows "\<exists>cm q1 q2.
            sk_confusion_matrix T yt yp ''true'' (rest s) = (Inr cm, q1)
          \<and> sk_display_plot T cm cn q1 = (Inr (), q2)
          \<and> s' = s\<lparr>rest := q2\<rparr>
          \<and> evs = map (Pair Top) [EConfusionMatrix yt yp ''true'' cm,
                    EConfusionDisplay cm cn, EDisplayPlot cm cn,
                    ETitle (''Normalized Confusion Matrix - '' @ modelo), EShow]"
  using assms unfolding mostrar_confusion_def
  by (auto simp: nb_Inr emit_def)

lemma save_model_Inr:
  assumes "save_model T v path s = (Inr u, s', evs)"
  shows "t_save T (t_state_dict T (models s v)) path (rest s) = (Inr (), rest s')
       \<and> models s' = models s
       \<and> evs = [(Top, ESave (t_state_dict T (models s v)) path)]"
  using assms unfolding save_model_def
  by (auto simp: nb_Inr)

lemma paso7_Inr:
  assumes "paso7 T cn r18 r34 rv s = (Inr u, s', evs)"
  shows "\<exists>cm18 cm34 cmv q1 q2 q3 q4 q5 q6.
           sk_confusion_matrix T (fst (snd (snd (snd r18)))) (snd (snd (snd (snd r18)))) ''true''
             (rest s) = (Inr cm18, q1)
         \<and> sk_display_plot T cm18 cn q1 = (Inr (), q2)
         \<and> sk_confusion_matrix T (fst (snd (snd (snd r34)))) (snd (snd (snd (snd r34)))) ''true''
             q2 = (Inr cm34, q3)
         \<and> sk_display_plot T cm34 cn q3 = (Inr (), q4)
         \<and> sk_confusion_matrix T (fst (snd (snd (snd rv)))) (snd (snd (snd (snd rv)))) ''true''
             q4 = (Inr cmv, q5)
         \<and> sk_display_plot T cmv cn q5 = (Inr (), q6)
         \<and> rest s' = q6 \<and> models s' = models s
         \<and> confusion_plots evs =
             [EConfusionMatrix (fst (snd (snd (snd r18)))) (snd (snd (snd (snd r18)))) ''true'' cm18,
              EConfusionDisplay cm18 cn, EDisplayPlot cm18 cn,
              ETitle ''Normalized Confusion Matrix - ResNet18'',
              EConfusionMatrix (fst (snd (snd (snd r34)))) (snd (snd (snd (snd r34)))) ''true'' cm34,
              EConfusionDisplay cm34 cn, EDisplayPlot cm34 cn,
              ETitle ''Normalized Confusion Matrix - ResNet34'',
              EConfusionMatrix (fst (snd (snd (snd rv)))) (snd (snd (snd (snd rv)))) ''true'' cmv,
              EConfusionDisplay cmv cn, EDisplayPlot cmv cn,
              ETitle ''Normalized Confusion Matrix - VGG19'']
         \<and> zoo_calls evs = [] \<and> saved evs = []"
proof -
  from assms obtain sa sb ea eb ec where
    a: "mostrar_confusion T cn (fst (snd (snd (snd r18)))) (snd (snd (snd (snd r18))))
          ''ResNet18'' s = (Inr (), sa, ea)" and
    b: "mostrar_confusion T cn (fst (snd (snd (snd r34)))) (snd (snd (snd (snd r34))))
          ''ResNet34'' sa = (Inr (), sb, eb)" and
    c: "mostrar_confusion T cn (fst (snd (snd (snd rv)))) (snd (snd (snd (snd rv))))
          ''VGG19'' sb = (Inr u, s', ec)" and
    ev: "evs = ea @ eb @ ec"
    unfolding paso7_def by (auto simp: bind_Inr)
  from mostrar_confusion_Inr[OF a] obtain cm18 q1 q2 where
    a1: "sk_confusion_matrix T (fst (snd (snd (snd r18)))) (snd (snd (snd (snd r18)))) ''true''
           (rest s) = (Inr cm18, q1)" and
    a2: "sk_display_plot T cm18 cn q1 = (Inr (), q2)" and sa: "sa = s\<lparr>rest := q2\<rparr>" and
    ea: "ea = map (Pair Top) [EConfusionMatrix (fst (snd (snd (snd r18))))
                    (snd (snd (snd (snd r18)))) ''true'' cm18,
                    EConfusionDisplay cm18 cn, EDisplayPlot cm18 cn,
                    ETitle (''Normalized Confusion Matrix - '' @ ''ResNet18''), EShow]"
    by (elim exE conjE)
  from mostrar_confusion_Inr[OF b] obtain cm34 q3 q4 where
    b1: "sk_confusion_matrix T (fst (snd (snd (snd r34)))) (snd (snd (snd (snd r34)))) ''true''
           (rest sa) = (Inr cm34, q3)" and
    b2: "sk_display_plot T cm34 cn q3 = (Inr (), q4)" and sb: "sb = sa\<lparr>rest := q4\<rparr>" and
    eb: "eb = map (Pair Top) [EConfusionMatrix (fst (snd (snd (snd r34))))
                    (snd (snd (snd (snd r34)))) ''true'' cm34,
                    EConfusionDisplay cm34 cn, EDisplayPlot cm34 cn,
                    ETitle (''Normalized Confusion Matrix - '' @ ''ResNet34''), EShow]"
    by (elim exE conjE)
  from mostrar_confusion_Inr[OF c] obtain cmv q5 q6 where
    c1: "sk_confusion_matrix T (fst (snd (snd (snd rv)))) (snd (snd (snd (snd rv)))) ''true''
           (rest sb) = (Inr cmv, q5)" and
    c2: "sk_display_plot T cmv cn q5 = (Inr (), q6)" and s': "s' = sb\<lparr>rest := q6\<rparr>" and
    ec: "ec = map (Pair Top) [EConfusionMatrix (fst (snd (snd (snd rv))))
                    (snd (snd (snd (snd rv)))) ''true'' cmv,
                    EConfusionDisplay cmv cn, EDisplayPlot cmv cn,
                    ETitle (''Normalized Confusion Matrix - '' @ ''VGG19''), EShow]"
    by (elim exE conjE)
  have b1': "sk_confusion_matrix T (fst (snd (snd (snd r34)))) (snd (snd (snd (snd r34))))
           ''true'' q2 = (Inr cm34, q3)" using b1 sa by simp
  have c1': "sk_confusion_matrix T (fst (snd (snd (snd rv)))) (snd (snd (snd (snd rv))))
           ''true'' q4 = (Inr cmv, q5)" using c1 sb by simp
  have r: "rest s' = q6" and m: "models s' = models s" using s' sb sa by simp_all
  have C: "confusion_plots evs =
             [EConfusionMatrix (fst (snd (snd (snd r18)))) (snd (snd (snd (snd r18)))) ''true'' cm18,
              EConfusionDisplay cm18 cn, EDisplayPlot cm18 cn,
              ETitle ''Normalized Confusion Matrix - ResNet18'',
              EConfusionMatrix (fst (snd (snd (snd r34)))) (snd (snd (snd (snd r34)))) ''true'' cm34,
              EConfusionDisplay cm34 cn, EDisplayPlot cm34 cn,
              ETitle ''Normalized Confusion Matrix - ResNet34'',
              EConfusionMatrix (fst (snd (snd (snd rv)))) (snd (snd (snd (snd rv)))) ''true'' cmv,
              EConfusionDisplay cmv cn, EDisplayPlot cmv cn,
              ETitle ''Normalized Confusion Matrix - VGG19'']"
    unfolding ev ea eb ec by simp
  have Z: "zoo_calls evs = []" and S: "saved evs = []" unfolding ev ea eb ec by simp_all
  show ?thesis by (intro exI conjI) (rule a1 a2 b1' b2 c1' c2 r m C Z S)+
qed

lemma paso8_Inr:
  assumes "paso8 T s = (Inr u, s', evs)"
  shows "\<exists>qa qb.
           t_save T (t_state_dict T (models s Resnet18)) ''model_resnet18.pth'' (rest s)
             = (Inr (), qa)
         \<and> t_save T (t_state_dict T (models s Resnet34)) ''model_resnet34.pth'' qa = (Inr (), qb)
         \<and> t_save T (t_state_dict T (models s Vgg19)) ''model_vgg19.pth'' qb = (Inr (), rest s')
         \<and> models s' = models s
         \<and> saved evs = [(t_state_dict T (models s Resnet18), ''model_resnet18.pth''),
                        (t_state_dict T (models s Resnet34), ''model_resnet34.pth''),
                        (t_state_dict T (models s Vgg19), ''model_vgg19.pth'')]
         \<and> zoo_calls evs = [] \<and> confusion_plots evs = []"
proof -
  from assms obtain sa sb ea eb ec where
    a: "save_model T Resnet18 ''model_resnet18.pth'' s = (Inr (), sa, ea)" and
    b: "save_model T Resnet34 ''model_resnet34.pth'' sa = (Inr (), sb, eb)" and
    c: "save_model T Vgg19 ''model_vgg19.pth'' sb = (Inr u, s', ec)" and
    ev: "evs = ea @ eb @ ec"
    unfolding paso8_def by (auto simp: bind_Inr)
  note A = save_model_Inr[OF a] and B = save_model_Inr[OF b] and C = save_model_Inr[OF c]
  have 1: "t_save T (t_state_dict T (models s Resnet18)) ''model_resnet18.pth'' (rest s)
             = (Inr (), rest sa)" using A by simp
  have 2: "t_save T (t_state_dict T (models s Resnet34)) ''model_resnet34.pth'' (rest sa)
             = (Inr (), rest sb)" using A B by simp
  have 3: "t_save T (t_state_dict T (models s Vgg19)) ''model_vgg19.pth'' (rest sb)
             = (Inr (), rest s')" using A B C by simp
  have m: "models s' = models s" using A B C by simp
  have S: "saved evs = [(t_state_dict T (models s Resnet18), ''model_resnet18.pth''),
                        (t_state_dict T (models s Resnet34), ''model_resnet34.pth''),
                        (t_state_dict T (models s Vgg19), ''model_vgg19.pth'')]"
    unfolding ev using A B C by simp
  have Z: "zoo_calls evs = []" and P: "confusion_plots evs = []"
    unfolding ev using A B C by simp_all
  show ?thesis by (intro exI conjI) (rule 1 2 3 m S Z P)+
qed

section \<open>Frozen parameters through training\<close>

lemma entry_kept_entrenar:
  assumes c: "torch_contract T" and n: "n \<notin> set ps"
    and run: "entrenar_modelo (bound T v ps) trn vld E nombre s1 = (r, s2, ev)"
  shows "map_of (named_parameters (models s2 v)) n = map_of (named_parameters (models s1 v)) n"
  using preservesD[OF preserves_entrenar_modelo[OF bound_preserves_entry[OF c n]] run]
  by simp

lemma entry_kept_paso5:
  assumes c: "torch_contract T" and n: "n \<notin> set ps"
    and run: "paso5 (bound T v ps) trn vld E s1 = (r, s2, ev)"
  shows "map_of (named_parameters (models s2 v)) n = map_of (named_parameters (models s1 v)) n"
  using preservesD[OF preserves_paso5[OF bound_preserves_entry[OF c n]] run]
  by simp

lemma frozen_cong:
  "named_parameters m = named_parameters m' \<Longrightarrow> frozen m n = frozen m' n"
  by (simp add: frozen_def)

lemma resnet_frozen_not_optimized:
  assumes "setup_resnet T v name cn s0 = (Inr ps, s1, ev1)" "frozen (models s1 v) n"
  shows "\<not> prefix [''fc''] n" and "n \<notin> set ps"
proof -
  from setup_resnet_Inr[OF assms(1)] obtain m n_in w b where
    m: "models s1 v = set_layer [''fc''] n_in (int (length cn)) w b (freeze_all m)"
    and ps: "ps = parameters_under [''fc''] (models s1 v)"
    by (elim exE conjE)
  show "\<not> prefix [''fc''] n" using frozen_set_layer(1) assms(2) m by metis
  then show "n \<notin> set ps" using ps parameters_under_prefix by blast
qed

lemma vgg_frozen_not_optimized_aux:
  assumes z: "zoo_trainable T" "t_zoo T name b0 r0 = (Inr m, ra)"
    and np: "named_parameters m1 = named_parameters
        (set_layer [''classifier'', ''6''] n_in n_out w b (freeze_under [''features''] m))"
    and f: "frozen m1 n"
  shows "prefix [''features''] n" and "n \<notin> set (parameters_under [''classifier''] m1)"
proof -
  have "frozen (set_layer [''classifier'', ''6''] n_in n_out w b (freeze_under [''features''] m)) n"
    using f frozen_cong[OF np] by simp
  then have "frozen (freeze_under [''features''] m) n" by (rule frozen_set_layer(2))
  moreover have "list_all (\<lambda>np. requires_grad (snd np)) (named_parameters m)"
    using z unfolding zoo_trainable_def by blast
  ultimately show p: "prefix [''features''] n" by (rule frozen_freeze_under)
  show "n \<notin> set (parameters_under [''classifier''] m1)"
    using prefix_features_classifier[OF p] parameters_under_prefix by blast
qed

lemma vgg_frozen_not_optimized:
  assumes "zoo_trainable T" "setup_vgg T v cn s0 = (Inr ps, s1, ev1)" "frozen (models s1 v) n"
  shows "prefix [''features''] n" and "n \<notin> set ps"
proof -
  from setup_vgg_Inr[OF assms(2)] obtain m n_in w b ra where
    z: "t_zoo T ''vgg19'' True (rest s0) = (Inr m, ra)" and
    m: "models s1 v = set_layer [''classifier'', ''6''] n_in (int (length cn)) w b
                            (freeze_under [''features''] m)"
    and ps: "ps = parameters_under [''classifier''] (models s1 v)"
    by (elim exE conjE)
  have np: "named_parameters (models s1 v) = named_parameters
        (set_layer [''classifier'', ''6''] n_in (int (length cn)) w b (freeze_under [''features''] m))"
    using m by simp
  show "prefix [''features''] n"
    using vgg_frozen_not_optimized_aux(1)[OF assms(1) z np assms(3)] .
  show "n \<notin> set ps"
    unfolding ps using vgg_frozen_not_optimized_aux(2)[OF assms(1) z np assms(3)] .
qed

lemma vgg19_frozen_not_optimized:
  assumes "torch_contract T" "zoo_trainable T" "vgg19_setup T cn s0 = (Inr ps, s1, ev1)"
    "frozen (models s1 Model) n"
  shows "prefix [''features''] n" and "n \<notin> set ps"
proof -
  have k: "keeps_parameters (t_model_to T)" using assms(1) by (simp add: torch_contract_def)
  from vgg19_setup_Inr[OF assms(3) k] obtain m n_in w b ra where
    z: "t_zoo T ''vgg19'' True (rest s0) = (Inr m, ra)" and
    np: "named_parameters (models s1 Model) = named_parameters
        (set_layer [''classifier'', ''6''] n_in (int (length cn)) w b (freeze_under [''features''] m))"
    and ps: "ps = parameters_under [''classifier''] (models s1 Model)"
    by (elim exE conjE)
  show "prefix [''features''] n"
    using vgg_frozen_not_optimized_aux(1)[OF assms(2) z np assms(4)] .
  show "n \<notin> set ps"
    unfolding ps using vgg_frozen_not_optimized_aux(2)[OF assms(2) z np assms(4)] .
qed

lemma entry_same:
  assumes "map_of (named_parameters m2) n = map_of (named_parameters m1) n"
  shows "param_value m2 n = param_value m1 n" and "frozen m2 n = frozen m1 n"
  using assms by (simp_all add: param_value_def frozen_def)

section \<open>What the set-up freezes\<close>

lemma map_of_map_value:
  "map_of (map (\<lambda>(k, p). (k, f p)) xs) n = map_option f (map_of xs n)"
  by (induction xs) auto

lemma map_of_freeze_all:
  "map_of (named_parameters (freeze_all m)) n
     = map_option (\<lambda>p. p\<lparr>requires_grad := False\<rparr>) (map_of (named_parameters m) n)"
  by (simp add: freeze_all_def map_of_map_value)

lemma map_of_freeze_under_pre:
  "prefix pre n \<Longrightarrow>
     map_of (map (\<lambda>(k, p). if prefix pre k then (k, p\<lparr>requires_grad := False\<rparr>) else (k, p)) xs) n
       = map_option (\<lambda>p. p\<lparr>requires_grad := False\<rparr>) (map_of xs n)"
  by (induction xs) auto

lemma map_of_set_layer_other:
  assumes "\<not> prefix pre n"
  shows "map_of (named_parameters (set_layer pre n_in n_out w b m)) n
           = map_of (named_parameters m) n"
proof -
  have k: "map_of (filter (\<lambda>(k, q). \<not> prefix pre k) (named_parameters m)) n
          = map_of (named_parameters m) n"
    using map_of_filter_keep[of "\<lambda>k. \<not> prefix pre k" n] assms by simp
  have "n \<noteq> pre @ [''weight'']" "n \<noteq> pre @ [''bias'']" using assms by auto
  then show ?thesis by (auto simp: set_layer_def map_add_def k split: option.splits)
qed

lemma frozen_entry:
  assumes e: "map_of (named_parameters m1) n
                = map_option (\<lambda>p. p\<lparr>requires_grad := False\<rparr>) (map_of (named_parameters m) n)"
    and ex: "param_value m1 n \<noteq> None"
  shows "frozen m1 n" and "param_value m1 n = param_value m n"
proof -
  from ex e obtain p where p: "map_of (named_parameters m) n = Some p"
    by (cases "map_of (named_parameters m) n") (auto simp: param_value_def)
  show "frozen m1 n" using e p by (simp add: frozen_def)
  show "param_value m1 n = param_value m n" using e p by (simp add: param_value_def)
qed

lemma setup_resnet_frozen:
  assumes su: "setup_resnet T v name cn st = (Inr ps, sa, eva)"
    and np: "\<not> prefix [''fc''] n" and ex: "param_value (models sa v) n \<noteq> None"
  shows "frozen (models sa v) n"
    and "\<exists>m ra. t_zoo T name True (rest st) = (Inr m, ra)
           \<and> param_value (models sa v) n = param_value m n"
proof -
  from setup_resnet_Inr[OF su] obtain m n_in w b ra where
    z: "t_zoo T name True (rest st) = (Inr m, ra)" and
    ms: "models sa v = set_layer [''fc''] n_in (int (length cn)) w b (freeze_all m)"
    by (elim exE conjE)
  have e: "map_of (named_parameters (models sa v)) n
             = map_option (\<lambda>p. p\<lparr>requires_grad := False\<rparr>) (map_of (named_parameters m) n)"
    unfolding ms using map_of_set_layer_other[OF np] map_of_freeze_all by metis
  show "frozen (models sa v) n" by (rule frozen_entry(1)[OF e ex])
  show "\<exists>m ra. t_zoo T name True (rest st) = (Inr m, ra)
           \<and> param_value (models sa v) n = param_value m n"
    using z frozen_entry(2)[OF e ex] by blast
qed

lemma vgg_frozen_aux:
  assumes np: "named_parameters m1 = named_parameters
        (set_layer [''classifier'', ''6''] n_in n_out w b (freeze_under [''features''] m))"
    and p: "prefix [''features''] n" and ex: "param_value m1 n \<noteq> None"
  shows "frozen m1 n" and "param_value m1 n = param_value m n"
proof -
  have q: "\<not> prefix [''classifier'', ''6''] n" using p by (cases n) auto
  have e: "map_of (named_parameters m1) n
             = map_option (\<lambda>p. p\<lparr>requires_grad := False\<rparr>) (map_of (named_parameters m) n)"
    unfolding np map_of_set_layer_other[OF q]
    by (simp add: freeze_under_def map_of_freeze_under_pre[OF p])
  show "frozen m1 n" by (rule frozen_entry(1)[OF e ex])
  show "param_value m1 n = param_value m n" by (rule frozen_entry(2)[OF e ex])
qed

lemma setup_vgg_frozen:
  assumes su: "setup_vgg T v cn st = (Inr ps, sa, eva)"
    and p: "prefix [''features''] n" and ex: "param_value (models sa v) n \<noteq> None"
  shows "frozen (models sa v) n"
    and "\<exists>m ra. t_zoo T ''vgg19'' True (rest st) = (Inr m, ra)
           \<and> param_value (models sa v) n = param_value m n"
proof -
  from setup_vgg_Inr[OF su] obtain m n_in w b ra where
    z: "t_zoo T ''vgg19'' True (rest st) = (Inr m, ra)" and
    ms: "models sa v = set_layer [''classifier'', ''6''] n_in (int (length cn)) w b
                            (freeze_under [''features''] m)"
    by (elim exE conjE)
  have np: "named_parameters (models sa v) = named_parameters
        (set_layer [''classifier'', ''6''] n_in (int (length cn)) w b
           (freeze_under [''features''] m))" using ms by simp
  show "frozen (models sa v) n" by (rule vgg_frozen_aux(1)[OF np p ex])
  show "\<exists>m ra. t_zoo T ''vgg19'' True (rest st) = (Inr m, ra)
           \<and> param_value (models sa v) n = param_value m n"
    using z vgg_frozen_aux(2)[OF np p ex] by blast
qed

lemma vgg19_setup_frozen:
  assumes c: "torch_contract T" and su: "vgg19_setup T cn st = (Inr ps, sa, eva)"
    and p: "prefix [''features''] n" and ex: "param_value (models sa Model) n \<noteq> None"
  shows "frozen (models sa Model) n"
    and "\<exists>m ra. t_zoo T ''vgg19'' True (rest st) = (Inr m, ra)
           \<and> param_value (models sa Model) n = param_value m n"
proof -
  have k: "keeps_parameters (t_model_to T)" using c by (simp add: torch_contract_def)
  from vgg19_setup_Inr[OF su k] obtain m n_in w b ra where
    z: "t_zoo T ''vgg19'' True (rest st) = (Inr m, ra)" and
    np: "named_parameters (models sa Model) = named_parameters
        (set_layer [''classifier'', ''6''] n_in (int (length cn)) w b
           (freeze_under [''features''] m))"
    by (elim exE conjE)
  show "frozen (models sa Model) n" by (rule vgg_frozen_aux(1)[OF np p ex])
  show "\<exists>m ra. t_zoo T ''vgg19'' True (rest st) = (Inr m, ra)
           \<and> param_value (models sa Model) n = param_value m n"
    using z vgg_frozen_aux(2)[OF np p ex] by blast
qed

section \<open>The cells of the notebooks, run in order\<close>

lemma layer_shape_set_layer [simp]:
  "layer_shape (set_layer pre n_in n_out w b m) pre = Some (n_in, n_out)"
  by (simp add: layer_shape_def set_layer_def)

lemma entrenar_modelo_other:
  assumes "entrenar_modelo (bound T v ps) trn vld E nombre s = (r, s', evs)" "v' \<noteq> v"
  shows "models s' v' = models s v'"
  using preservesD[OF preserves_entrenar_modelo[OF bound_preserves_other[OF assms(2)]] assms(1)]
  by simp

lemma setup_resnet_log:
  assumes "setup_resnet T v name cn s0 = (Inr ps, s1, evs)"
  shows "zoo_calls evs = [(name, True)]" and "saved evs = []" and "confusion_plots evs = []"
    and "v' \<noteq> v \<Longrightarrow> models s1 v' = models s0 v'"
    and "\<exists>n_in. layer_shape (models s1 v) [''fc''] = Some (n_in, int (length cn))"
proof -
  from setup_resnet_Inr[OF assms] obtain m n_in w b where
    m: "models s1 v = set_layer [''fc''] n_in (int (length cn)) w b (freeze_all m)" and
    ev: "evs = map (Pair Top) [EZoo name True, EInFeatures [''fc''] n_in,
                    ELinear n_in (int (length cn)), EAdam ps]" and
    o: "\<forall>v'. v' \<noteq> v \<longrightarrow> models s1 v' = models s0 v'"
    by (elim exE conjE)
  show "zoo_calls evs = [(name, True)]" and "saved evs = []" and "confusion_plots evs = []"
    unfolding ev by simp_all
  show "v' \<noteq> v \<Longrightarrow> models s1 v' = models s0 v'" using o by simp
  show "\<exists>n_in. layer_shape (models s1 v) [''fc''] = Some (n_in, int (length cn))"
    unfolding m by (rule exI, rule layer_shape_set_layer)
qed

lemma setup_vgg_log:
  assumes "setup_vgg T v cn s0 = (Inr ps, s1, evs)"
  shows "zoo_calls evs = [(''vgg19'', True)]" and "saved evs = []" and "confusion_plots evs = []"
    and "v' \<noteq> v \<Longrightarrow> models s1 v' = models s0 v'"
    and "\<exists>n_in. layer_shape (models s1 v) [''classifier'', ''6''] = Some (n_in, int (length cn))"
proof -
  from setup_vgg_Inr[OF assms] obtain m n_in w b where
    m: "models s1 v = set_layer [''classifier'', ''6''] n_in (int (length cn)) w b
                            (freeze_under [''features''] m)" and
    ev: "evs = map (Pair Top) [EZoo ''vgg19'' True, EInFeatures [''classifier'', ''6''] n_in,
                    ELinear n_in (int (length cn)), EAdam ps]" and
    o: "\<forall>v'. v' \<noteq> v \<longrightarrow> models s1 v' = models s0 v'"
    by (elim exE conjE)
  show "zoo_calls evs = [(''vgg19'', True)]" and "saved evs = []" and "confusion_plots evs = []"
    unfolding ev by simp_all
  show "v' \<noteq> v \<Longrightarrow> models s1 v' = models s0 v'" using o by simp
  show "\<exists>n_in. layer_shape (models s1 v) [''classifier'', ''6''] = Some (n_in, int (length cn))"
    unfolding m by (rule exI, rule layer_shape_set_layer)
qed

lemma vgg19_setup_log:
  assumes "vgg19_setup T cn s0 = (Inr ps, s1, evs)"
  shows "\<exists>m0 n_in r0 r1.
           layer_shape m0 [''classifier'', ''6''] = Some (n_in, int (length cn))
         \<and> t_model_to T m0 r0 = (Inr (), models s1 Model, r1)
         \<and> evs = map (Pair Top) [EZoo ''vgg19'' True, EInFeatures [''classifier'', ''6''] n_in,
                    ELinear n_in (int (length cn)), EModelTo, ECrossEntropyLoss, EAdam ps]"
  using assms unfolding vgg19_setup_def
  by (auto simp: nb_Inr emit_def return_def) (metis layer_shape_set_layer)

lemma paso5_modelos_Inr:
  assumes "paso5_modelos T cn trn vld E s0 = (Inr rs, s', evs)"
  shows "\<exists>ps18 sa eva r18 sb evb ps34 sc evc r34 sd evd psv se eve rv evf.
     setup_resnet T Resnet18 ''resnet18'' cn s0 = (Inr ps18, sa, eva)
   \<and> entrenar_modelo (bound T Resnet18 ps18) trn vld E ''ResNet18'' sa = (Inr r18, sb, evb)
   \<and> setup_resnet T Resnet34 ''resnet34'' cn sb = (Inr ps34, sc, evc)
   \<and> entrenar_modelo (bound T Resnet34 ps34) trn vld E ''ResNet34'' sc = (Inr r34, sd, evd)
   \<and> setup_vgg T Vgg19 cn sd = (Inr psv, se, eve)
   \<and> entrenar_modelo (bound T Vgg19 psv) trn vld E ''VGG19'' se = (Inr rv, s', evf)
   \<and> rs = (r18, r34, rv)
   \<and> evs = eva @ (Top, ECrossEntropyLoss) # evb @ evc @ evd @ eve @ evf"
proof -
  from assms obtain ps18 sa eva e1 where
    a: "setup_resnet T Resnet18 ''resnet18'' cn s0 = (Inr ps18, sa, eva)" and
    r1: "bind (emit Top ECrossEntropyLoss) (\<lambda>_.
     bind (entrenar_modelo (bound T Resnet18 ps18) trn vld E ''ResNet18'') (\<lambda>r18.
     bind (setup_resnet T Resnet34 ''resnet34'' cn) (\<lambda>ps34.
     bind (entrenar_modelo (bound T Resnet34 ps34) trn vld E ''ResNet34'') (\<lambda>r34.
     bind (setup_vgg T Vgg19 cn) (\<lambda>psv.
     bind (entrenar_modelo (bound T Vgg19 psv) trn vld E ''VGG19'') (\<lambda>rv.
     return (r18, r34, rv))))))) sa = (Inr rs, s', e1)" and
    ev0: "evs = eva @ e1"
    unfolding paso5_modelos_def bind_Inr[of "setup_resnet T Resnet18 ''resnet18'' cn"] by blast
  from r1 obtain r18 sb evb e2 where
    b: "entrenar_modelo (bound T Resnet18 ps18) trn vld E ''ResNet18'' sa = (Inr r18, sb, evb)" and
    r2: "bind (setup_resnet T Resnet34 ''resnet34'' cn) (\<lambda>ps34.
     bind (entrenar_modelo (bound T Resnet34 ps34) trn vld E ''ResNet34'') (\<lambda>r34.
     bind (setup_vgg T Vgg19 cn) (\<lambda>psv.
     bind (entrenar_modelo (bound T Vgg19 psv) trn vld E ''VGG19'') (\<lambda>rv.
     return (r18, r34, rv))))) sb = (Inr rs, s', e2)" and
    ev1: "e1 = (Top, ECrossEntropyLoss) # evb @ e2"
    by (auto simp: bind_Inr[of "emit Top ECrossEntropyLoss"]
          bind_Inr[of "entrenar_modelo (bound T Resnet18 ps18) trn vld E ''ResNet18''"])
  from r2 obtain ps34 sc evc e3 where
    c: "setup_resnet T Resnet34 ''resnet34'' cn sb = (Inr ps34, sc, evc)" and
    r3: "bind (entrenar_modelo (bound T Resnet34 ps34) trn vld E ''ResNet34'') (\<lambda>r34.
     bind (setup_vgg T Vgg19 cn) (\<lambda>psv.
     bind (entrenar_modelo (bound T Vgg19 psv) trn vld E ''VGG19'') (\<lambda>rv.
     return (r18, r34, rv)))) sc = (Inr rs, s', e3)" and
    ev2: "e2 = evc @ e3"
    unfolding bind_Inr[of "setup_resnet T Resnet34 ''resnet34'' cn"] by blast
  from r3 obtain r34 sd evd e4 where
    d: "entrenar_modelo (bound T Resnet34 ps34) trn vld E ''ResNet34'' sc = (Inr r34, sd, evd)" and
    r4: "bind (setup_vgg T Vgg19 cn) (\<lambda>psv.
     bind (entrenar_modelo (bound T Vgg19 psv) trn vld E ''VGG19'') (\<lambda>rv.
     return (r18, r34, rv))) sd = (Inr rs, s', e4)" and
    ev3: "e3 = evd @ e4"
    unfolding bind_Inr[of "entrenar_modelo (bound T Resnet34 ps34) trn vld E ''ResNet34''"]
    by blast
  from r4 obtain psv se eve e5 where
    e: "setup_vgg T Vgg19 cn sd = (Inr psv, se, eve)" and
    r5: "bind (entrenar_modelo (bound T Vgg19 psv) trn vld E ''VGG19'') (\<lambda>rv.
     return (r18, r34, rv)) se = (Inr rs, s', e5)" and
    ev4: "e4 = eve @ e5"
    unfolding bind_Inr[of "setup_vgg T Vgg19 cn"] by blast
  from r5 obtain rv evf where
    f: "entrenar_modelo (bound T Vgg19 psv) trn vld E ''VGG19'' se = (Inr rv, s', evf)" and
    rs: "rs = (r18, r34, rv)" and ev5: "e5 = evf"
    by (auto simp: bind_Inr return_def)
  have "evs = eva @ (Top, ECrossEntropyLoss) # evb @ evc @ evd @ eve @ evf"
    using ev0 ev1 ev2 ev3 ev4 ev5 by simp
  with a b c d e f rs show ?thesis by blast
qed

lemma entrenar_modelo_last:
  assumes run: "entrenar_modelo fw trn vld E nombre s = (Inr (tls, vls, accs, yt, yp), s', evs)"
  shows "last_epoch_labels vld E evs yt yp"
proof -
  from entrenar_modelo_Inr[OF run] obtain s3 l evl where
    loop: "entrenar_epochs fw trn vld E s3 = (Inr l, s', evl)" and
    ev: "evs = (Top, EModelTo) # evl" and y: "y_true l = Some yt" "y_pred l = Some yp"
    by (elim exE conjE)
  have at: "events_at (ValLoop (nat E - 1)) evs = events_at (ValLoop (nat E - 1)) evl"
    using ev by simp
  from entrenar_epochs_last(1)[OF loop y] have "1 \<le> E" by simp
  moreover from entrenar_epochs_last(2)[OF loop y] obtain lys lps where
    "val_trace (loader_batches vld (nat E - 1)) (events_at (ValLoop (nat E - 1)) evl) lys lps"
    "yt = concat lys" "yp = concat lps"
    by (elim exE conjE)
  ultimately show ?thesis unfolding last_epoch_labels_def at by blast
qed

lemma combinados_cells_Inr:
  assumes "combinados_cells T cn trn vld E s0 = (Inr u, s', evs)"
  shows "\<exists>ps18 sa eva r18 sb evb ps34 sc evc r34 sd evd psv se eve rv sf evf sg evg sh evh evi.
     setup_resnet T Resnet18 ''resnet18'' cn s0 = (Inr ps18, sa, eva)
   \<and> entrenar_modelo (bound T Resnet18 ps18) trn vld E ''ResNet18'' sa = (Inr r18, sb, evb)
   \<and> setup_resnet T Resnet34 ''resnet34'' cn sb = (Inr ps34, sc, evc)
   \<and> entrenar_modelo (bound T Resnet34 ps34) trn vld E ''ResNet34'' sc = (Inr r34, sd, evd)
   \<and> setup_vgg T Vgg19 cn sd = (Inr psv, se, eve)
   \<and> entrenar_modelo (bound T Vgg19 psv) trn vld E ''VGG19'' se = (Inr rv, sf, evf)
   \<and> paso6 T r18 r34 rv sf = (Inr (), sg, evg)
   \<and> paso7 T cn r18 r34 rv sg = (Inr (), sh, evh)
   \<and> paso8 T sh = (Inr u, s', evi)
   \<and> models sh Resnet18 = models sb Resnet18
   \<and> models sh Resnet34 = models sd Resnet34
   \<and> models sh Vgg19 = models sf Vgg19
   \<and> zoo_calls evs = [(''resnet18'', True), (''resnet34'', True), (''vgg19'', True)]
   \<and> saved evs = saved evi
   \<and> confusion_plots evs = confusion_plots evh"
proof -
  from assms obtain rs sf ev5 sg evg sh evh evi where
    p5: "paso5_modelos T cn trn vld E s0 = (Inr rs, sf, ev5)" and
    p6: "paso6 T (fst rs) (fst (snd rs)) (snd (snd rs)) sf = (Inr (), sg, evg)" and
    p7: "paso7 T cn (fst rs) (fst (snd rs)) (snd (snd rs)) sg = (Inr (), sh, evh)" and
    p8: "paso8 T sh = (Inr u, s', evi)" and
    ev: "evs = ev5 @ evg @ evh @ evi"
    unfolding combinados_cells_def by (auto simp: bind_Inr)
  from paso5_modelos_Inr[OF p5] obtain ps18 sa eva r18 sb evb ps34 sc evc r34 sd evd psv se eve
      rv evf where
    a: "setup_resnet T Resnet18 ''resnet18'' cn s0 = (Inr ps18, sa, eva)" and
    b: "entrenar_modelo (bound T Resnet18 ps18) trn vld E ''ResNet18'' sa = (Inr r18, sb, evb)" and
    c: "setup_resnet T Resnet34 ''resnet34'' cn sb = (Inr ps34, sc, evc)" and
    d: "entrenar_modelo (bound T Resnet34 ps34) trn vld E ''ResNet34'' sc = (Inr r34, sd, evd)" and
    e: "setup_vgg T Vgg19 cn sd = (Inr psv, se, eve)" and
    f: "entrenar_modelo (bound T Vgg19 psv) trn vld E ''VGG19'' se = (Inr rv, sf, evf)" and
    rs: "rs = (r18, r34, rv)" and
    e5: "ev5 = eva @ (Top, ECrossEntropyLoss) # evb @ evc @ evd @ eve @ evf"
    by (elim exE conjE)
  have p6': "paso6 T r18 r34 rv sf = (Inr (), sg, evg)" using p6 rs by simp
  have p7': "paso7 T cn r18 r34 rv sg = (Inr (), sh, evh)" using p7 rs by simp
  note qb = quiet_run[OF emits_quiet_entrenar_modelo b]
  note qd = quiet_run[OF emits_quiet_entrenar_modelo d]
  note qf = quiet_run[OF emits_quiet_entrenar_modelo f]
  note q6 = quiet_run[OF emits_quiet_paso6 p6']
  note la = setup_resnet_log(1-3)[OF a]
  note lc = setup_resnet_log(1-3)[OF c]
  note le = setup_vgg_log(1-3)[OF e]
  from paso7_Inr[OF p7'] have
    z7: "zoo_calls evh = []" and s7: "saved evh = []" and m7: "models sh = models sg"
    by (elim exE conjE, simp)+
  from paso8_Inr[OF p8] have
    z8: "zoo_calls evi = []" and c8: "confusion_plots evi = []"
    by (elim exE conjE, simp)+
  have m6: "models sg = models sf"
    using preservesD[OF preserves_models_paso6[of "\<lambda>M. M = models sf"] p6'] by simp
  have m18: "models sh Resnet18 = models sb Resnet18"
    using m7 m6 entrenar_modelo_other[OF f, of Resnet18] setup_vgg_log(4)[OF e, of Resnet18]
      entrenar_modelo_other[OF d, of Resnet18] setup_resnet_log(4)[OF c, of Resnet18]
    by simp
  have m34: "models sh Resnet34 = models sd Resnet34"
    using m7 m6 entrenar_modelo_other[OF f, of Resnet34] setup_vgg_log(4)[OF e, of Resnet34]
    by simp
  have mv: "models sh Vgg19 = models sf Vgg19" using m7 m6 by simp
  have Z: "zoo_calls evs = [(''resnet18'', True), (''resnet34'', True), (''vgg19'', True)]"
    unfolding ev e5 using la lc le qb qd qf q6 z7 z8 by simp
  have S: "saved evs = saved evi"
    unfolding ev e5 using la lc le qb qd qf q6 s7 by simp
  have C: "confusion_plots evs = confusion_plots evh"
    unfolding ev e5 using la lc le qb qd qf q6 c8 by simp
  show ?thesis by (intro exI conjI) (rule a b c d e f p6' p7' p8 m18 m34 mv Z S C)+
qed

lemma vgg19_cells_Inr:
  assumes "vgg19_cells T cn trn vld E s0 = (Inr u, s', evs)"
  shows "\<exists>ps sa eva losses sb evb.
     vgg19_setup T cn s0 = (Inr ps, sa, eva)
   \<and> paso5 (bound T Model ps) trn vld E sa = (Inr losses, sb, evb)
   \<and> t_save T (t_state_dict T (models sb Model)) ''fruitscan_model.pth'' (rest sb)
       = (Inr (), rest s')
   \<and> models s' = models sb
   \<and> zoo_calls evs = [(''vgg19'', True)]
   \<and> saved evs = [(t_state_dict T (models sb Model), ''fruitscan_model.pth'')]"
proof -
  from assms obtain ps sa eva losses sb evb ev8 where
    a: "vgg19_setup T cn s0 = (Inr ps, sa, eva)" and
    b: "paso5 (bound T Model ps) trn vld E sa = (Inr losses, sb, evb)" and
    c: "save_model T Model ''fruitscan_model.pth'' sb = (Inr u, s', ev8)" and
    ev: "evs = eva @ evb @ (Top, EPlot ''Entrenamiento'' (fst losses))
             # (Top, EPlot ''Validacion'' (snd losses))
             # (Top, EFigure ''Curva de Perdida'' ''Perdida'') # ev8"
    unfolding vgg19_cells_def by (auto simp: bind_Inr)
  from vgg19_setup_log[OF a] have za: "zoo_calls eva = [(''vgg19'', True)]" "saved eva = []"
    by auto
  note qb = quiet_run[OF emits_quiet_paso5 b]
  note C = save_model_Inr[OF c]
  have t: "t_save T (t_state_dict T (models sb Model)) ''fruitscan_model.pth'' (rest sb)
       = (Inr (), rest s')" and m: "models s' = models sb" using C by simp_all
  have Z: "zoo_calls evs = [(''vgg19'', True)]" unfolding ev using za qb C by simp
  have S: "saved evs = [(t_state_dict T (models sb Model), ''fruitscan_model.pth'')]"
    unfolding ev using za qb C by simp
  show ?thesis by (intro exI conjI) (rule a b t m Z S)+
qed

section \<open>The zoo in the VGG19 notebook\<close>

lemma zoo_calls_none:
  "list_all (\<lambda>e. zoo_of (snd e) = []) xs \<Longrightarrow> zoo_calls xs = []"
  by (induction xs) simp_all

lemma zoo_calls_bind_quiet:
  assumes "\<And>a. emits (\<lambda>e. zoo_of (snd e) = []) (f a)"
  shows "zoo_calls (snd (snd (bind m f s))) = zoo_calls (snd (snd (m s)))"
proof -
  have q: "zoo_calls (snd (snd (f a s1))) = []" for a s1
    using assms[of a] by (intro zoo_calls_none) (simp add: emits_def)
  show ?thesis
    using q by (auto simp: bind_def split: prod.splits sum.splits) (metis snd_conv)
qed

lemma emits_mono: "emits Q m \<Longrightarrow> (\<And>e. Q e \<Longrightarrow> Q' e) \<Longrightarrow> emits Q' m"
  by (auto simp: emits_def list_all_iff)

lemma emits_get_model: "emits Q (get_model v)"
  by (simp add: emits_def get_model_def)

lemma emits_set_model: "emits Q (set_model v m)"
  by (simp add: emits_def set_model_def)

lemma emits_zoo_paso5: "emits (\<lambda>e. zoo_of (snd e) = []) (paso5 fw trn vld E)"
  by (rule emits_mono[OF emits_quiet_paso5]) (simp add: quiet_def)

lemma vgg19_cells_zoo:
  fixes T :: "('t, 'f, 'e, 'x, 'r) torch"
  shows "zoo_calls (snd (snd (vgg19_cells T cn trn vld E s)))
     = (case fst (t_zoo T ''vgg19'' True (rest s)) of Inl e \<Rightarrow> [] | Inr m \<Rightarrow> [(''vgg19'', True)])"
proof -
  have "zoo_calls (snd (snd (vgg19_cells T cn trn vld E s)))
      = zoo_calls (snd (snd (vgg19_setup T cn s)))"
    unfolding vgg19_cells_def save_model_def
    by (rule zoo_calls_bind_quiet)
       (intro emits_bind emits_call emits_emit emits_get_model emits_zoo_paso5; simp)
  also have "\<dots> = zoo_calls (snd (snd (call Top (lift_rest (t_zoo T ''vgg19'' True))
                              (\<lambda>m. EZoo ''vgg19'' True :: ('t, 'f, 'e) event) s)))"
    unfolding vgg19_setup_def
    by (rule zoo_calls_bind_quiet)
       (intro emits_bind emits_call emits_emit emits_return emits_get_model emits_set_model; simp)
  also have "\<dots> = (case fst (t_zoo T ''vgg19'' True (rest s)) of Inl e \<Rightarrow> []
                       | Inr m \<Rightarrow> [(''vgg19'', True)])"
    by (simp add: call_def lift_rest_def split: prod.splits sum.splits)
  finally show ?thesis .
qed

lemma vgg19_cells_zoo_prefix:
  "prefix (zoo_calls (snd (snd (vgg19_cells T cn trn vld E s)))) [(''vgg19'', True)]"
  unfolding vgg19_cells_zoo
  by (simp split: sum.splits)

section \<open>The concrete notebooks\<close>

lemmas cell_defs = combinados_cells_def paso5_modelos_def paso6_def paso7_def paso8_def
  mostrar_confusion_def save_model_def calcular_precision_final_def
  plot_metric_comparison_def vgg19_cells_def fruitscan_vgg19_def

lemma demo_vgg19_cells_fst:
  "fst (vgg19_cells demo_torch demo_classes demo_small demo_small 1 demo_state) = Inr ()"
  by (simp add: cell_defs nb_defs run_defs)

lemma demo_vgg19_cells_saved:
  "saved (snd (snd (vgg19_cells demo_torch demo_classes demo_small demo_small 1 demo_state)))
     = [([(''features0weight'', [1]), (''classifier0weight'', [3]), (''classifier6weight'', [9]),
          (''classifier6bias'', [3])], ''fruitscan_model.pth'')]"
  by (simp add: cell_defs nb_defs run_defs)

lemma demo_combinados_fst:
  "fst (combinados_cells demo_torch demo_classes demo_small demo_small 1 demo_state) = Inr ()"
  by (simp add: cell_defs nb_defs run_defs)

lemma demo_combinados_saved:
  "saved (snd (snd (combinados_cells demo_torch demo_classes demo_small demo_small 1 demo_state)))
     = [([(''conv1weight'', [1]), (''fcweight'', [5]), (''fcbias'', [3])], ''model_resnet18.pth''),
        ([(''conv1weight'', [1]), (''fcweight'', [5]), (''fcbias'', [3])], ''model_resnet34.pth''),
        ([(''features0weight'', [1]), (''classifier0weight'', [3]), (''classifier6weight'', [9]),
          (''classifier6bias'', [3])], ''model_vgg19.pth'')]"
  by (simp add: cell_defs nb_defs run_defs)

lemma demo_combinados_plots:
  "confusion_plots
     (snd (snd (combinados_cells demo_torch demo_classes demo_small demo_small 1 demo_state)))
     = [EConfusionMatrix [4, 7] [11, 16] ''true'' [[11, 0], [0, 27]],
        EConfusionDisplay [[11, 0], [0, 27]] [''freshapples'', ''rottenapples''],
        EDisplayPlot [[11, 0], [0, 27]] [''freshapples'', ''rottenapples''],
        ETitle ''Normalized Confusion Matrix - ResNet18'',
        EConfusionMatrix [4, 7] [11, 16] ''true'' [[11, 0], [0, 27]],
        EConfusionDisplay [[11, 0], [0, 27]] [''freshapples'', ''rottenapples''],
        EDisplayPlot [[11, 0], [0, 27]] [''freshapples'', ''rottenapples''],
        ETitle ''Normalized Confusion Matrix - ResNet34'',
        EConfusionMatrix [4, 7] [18, 23] ''true'' [[11, 0], [0, 41]],
        EConfusionDisplay [[11, 0], [0, 41]] [''freshapples'', ''rottenapples''],
        EDisplayPlot [[11, 0], [0, 41]] [''freshapples'', ''rottenapples''],
        ETitle ''Normalized Confusion Matrix - VGG19'']"
  by (simp add: cell_defs nb_defs run_defs)

lemma demo_combinados_zoo:
  "zoo_calls
     (snd (snd (combinados_cells demo_torch demo_classes demo_small demo_small 1 demo_state)))
     = [(''resnet18'', True), (''resnet34'', True), (''vgg19'', True)]"
  by (simp add: cell_defs nb_defs run_defs)

lemma demo_vgg19_cells_zoo:
  "zoo_calls
     (snd (snd (vgg19_cells demo_torch demo_classes demo_small demo_small 1 demo_state)))
     = [(''vgg19'', True)]"
  by (simp add: cell_defs nb_defs run_defs)

lemma demo_combinados_files:
  "snd (rest (fst (snd (combinados_cells demo_torch demo_classes demo_small demo_small 1
                          demo_state))))
     = [(''model_resnet18.pth'', [(''conv1weight'', [1]), (''fcweight'', [5]), (''fcbias'', [3])]),
        (''model_resnet34.pth'', [(''conv1weight'', [1]), (''fcweight'', [5]), (''fcbias'', [3])]),
        (''model_vgg19.pth'', [(''features0weight'', [1]), (''classifier0weight'', [3]),
            (''classifier6weight'', [9]), (''classifier6bias'', [3])])]"
  by (simp add: cell_defs nb_defs run_defs)

lemma demo_vgg19_cells_files:
  "snd (rest (fst (snd (vgg19_cells demo_torch demo_classes demo_small demo_small 1 demo_state))))
     = [(''fruitscan_model.pth'', [(''features0weight'', [1]), (''classifier0weight'', [3]),
            (''classifier6weight'', [9]), (''classifier6bias'', [3])])]"
  by (simp add: cell_defs nb_defs run_defs)

lemmas demo_run_defs = demo_run18_def demo_ready34_def demo_run34_def demo_ready19_def
  demo_run19_def demo_resnet_ready_def

lemma demo_setup34_fst:
  "fst (setup_resnet demo_torch Resnet34 ''resnet34'' demo_classes (fst (snd demo_run18)))
     = Inr [[''fc'', ''weight''], [''fc'', ''bias'']]"
  by (simp add: demo_run_defs nb_defs run_defs)

lemma demo_setup19_fst:
  "fst (setup_vgg demo_torch Vgg19 demo_classes (fst (snd demo_run34)))
     = Inr [[''classifier'', ''0'', ''weight''], [''classifier'', ''6'', ''weight''],
            [''classifier'', ''6'', ''bias'']]"
  by (simp add: demo_run_defs nb_defs run_defs)

lemma demo_run18_val:
  "events_at (ValLoop 0) (snd (snd demo_run18))
     = [ETensorTo [2, 7] [2, 7], ETensorTo [4, 7] [4, 7], EForward [2, 7] [11, 16],
        ECriterion [11, 16] [4, 7] [16], EItem [16] 16, EMax [11, 16] [11, 16],
        ENumpy [4, 7] [4, 7], ENumpy [11, 16] [11, 16]]"
  by (simp add: demo_run_defs nb_defs run_defs events_at_def)

text \<open>
  When \<open>disp.plot\<close> raises, as it does when the matrix has not as many rows as there are
  class names, \<open>mostrar_confusion\<close> ends with that exception: no title is set, the
  notebook stops there and saves no model.
\<close>

lemma mostrar_confusion_plot_raises:
  assumes "sk_confusion_matrix T yt yp ''true'' (rest s) = (Inr cm, qa)"
    and "sk_display_plot T cm cn qa = (Inl e, qb)"
  shows "mostrar_confusion T cn yt yp modelo s
           = (Inl (Raised e), s\<lparr>rest := qb\<rparr>,
              map (Pair Top) [EConfusionMatrix yt yp ''true'' cm, EConfusionDisplay cm cn,
                              ERaise e])"
  using assms unfolding mostrar_confusion_def
  by (simp add: bind_def call_def lift_rest_def emit_def)

lemma demo_combinados_plot_raises:
  "fst (combinados_cells demo_torch [''fresh'', ''rotten'', ''other''] demo_small demo_small 1
          demo_state) = Inl (Raised ''ValueError'')
   \<and> saved (snd (snd (combinados_cells demo_torch [''fresh'', ''rotten'', ''other''] demo_small
                         demo_small 1 demo_state))) = []
   \<and> confusion_plots (snd (snd (combinados_cells demo_torch [''fresh'', ''rotten'', ''other'']
                         demo_small demo_small 1 demo_state)))
       = [EConfusionMatrix [4, 7] [12, 17] ''true'' [[11, 0], [0, 29]],
          EConfusionDisplay [[11, 0], [0, 29]] [''fresh'', ''rotten'', ''other'']]"
  by (simp add: cell_defs nb_defs run_defs)

section \<open>The claims\<close>

text \<open>
  C1. One pass of the body of the training loop that returns has made exactly these
  calls of the framework, in this order, each on the framework state that the call
  before it left: the two transfers to the device, \<open>optimizer.zero_grad()\<close>, the
  forward pass \<open>model(images)\<close> on the transferred images, the criterion on its output
  and the transferred labels, \<open>loss.backward()\<close> on that loss, \<open>optimizer.step()\<close>,
  and \<open>loss.item()\<close> on that loss; all of them returned, the log shows them with what
  they returned, the pass ends in the state that \<open>loss.item()\<close> left, and the float it
  returned has been added to the running loss. When \<open>entrenar_modelo\<close> (or Paso 5 of
  the VGG19 notebook) returns, then in every epoch the training loop has made this
  sequence of calls for the batches of the loader, in the order the loader yielded
  them, starting from the running loss \<open>0.0\<close>, each batch from the state and the
  running loss that the batch before it left, and these are all the calls that the log
  shows for the training loop of that epoch.
\<close>

theorem C1_training_step_sequence:
  "(train_batch fw k b rl s = (Inr rl', s', evs) \<longrightarrow>
      (\<exists>x y out loss v sa sb sc sd se sf sg.
          tensor_to fw (fst b) s = (Inr x, sa) \<and> tensor_to fw (snd b) sa = (Inr y, sb)
        \<and> zero_grad fw sb = (Inr (), sc) \<and> forward fw x sc = (Inr out, sd)
        \<and> criterion fw out y sd = (Inr loss, se) \<and> backward fw loss se = (Inr (), sf)
        \<and> opt_step fw sf = (Inr (), sg) \<and> item fw loss sg = (Inr v, s')
        \<and> evs = map (Pair (TrainLoop k))
                  [ETensorTo (fst b) x, ETensorTo (snd b) y, EZeroGrad, EForward x out,
                   ECriterion out y loss, EBackward loss, EStep, EItem loss v]
        \<and> rl' = fadd fw rl v))
   \<and> (entrenar_modelo fw trn vld epochs nombre st = (Inr res, ta, eva) \<longrightarrow>
        (\<forall>j<nat epochs.
            train_trace (loader_batches trn j) (events_at (TrainLoop j) eva)
          \<and> (\<exists>u u' rn. train_steps fw (loader_batches trn j) (fzero fw) u rn u'
                          (events_at (TrainLoop j) eva))))
   \<and> (paso5 fw trn vld epochs st = (Inr p, tb, evb) \<longrightarrow>
        (\<forall>j<nat epochs.
            train_trace (loader_batches trn j) (events_at (TrainLoop j) evb)
          \<and> (\<exists>u u' rn. train_steps fw (loader_batches trn j) (fzero fw) u rn u'
                          (events_at (TrainLoop j) evb))))"
proof (intro conjI impI allI)
  assume "train_batch fw k b rl s = (Inr rl', s', evs)"
  then show "\<exists>x y out loss v sa sb sc sd se sf sg.
          tensor_to fw (fst b) s = (Inr x, sa) \<and> tensor_to fw (snd b) sa = (Inr y, sb)
        \<and> zero_grad fw sb = (Inr (), sc) \<and> forward fw x sc = (Inr out, sd)
        \<and> criterion fw out y sd = (Inr loss, se) \<and> backward fw loss se = (Inr (), sf)
        \<and> opt_step fw sf = (Inr (), sg) \<and> item fw loss sg = (Inr v, s')
        \<and> evs = map (Pair (TrainLoop k))
                  [ETensorTo (fst b) x, ETensorTo (snd b) y, EZeroGrad, EForward x out,
                   ECriterion out y loss, EBackward loss, EStep, EItem loss v]
        \<and> rl' = fadd fw rl v"
    by (rule train_batch_steps)
next
  fix j assume run: "entrenar_modelo fw trn vld epochs nombre st = (Inr res, ta, eva)"
    and j: "j < nat epochs"
  obtain tls vls accs yt yp where res: "res = (tls, vls, accs, yt, yp)" by (cases res) auto
  from entrenar_modelo_Inr[OF run[unfolded res]] obtain s3 l evl where
    loop: "entrenar_epochs fw trn vld epochs s3 = (Inr l, ta, evl)" and
    ev: "eva = (Top, EModelTo) # evl"
    by (elim exE conjE)
  have at: "events_at (TrainLoop j) eva = events_at (TrainLoop j) evl" using ev by simp
  show "train_trace (loader_batches trn j) (events_at (TrainLoop j) eva)"
    unfolding at using entrenar_epochs_traces(1)[OF loop j] .
  show "\<exists>u u' rn. train_steps fw (loader_batches trn j) (fzero fw) u rn u'
                          (events_at (TrainLoop j) eva)"
    unfolding at using epochs_loop_steps[OF loop[unfolded entrenar_epochs_def] j] .
next
  fix j assume run: "paso5 fw trn vld epochs st = (Inr p, tb, evb)" and j: "j < nat epochs"
  show "train_trace (loader_batches trn j) (events_at (TrainLoop j) evb)"
    using paso5_traces(1)[OF run j] .
  show "\<exists>u u' rn. train_steps fw (loader_batches trn j) (fzero fw) u rn u'
                          (events_at (TrainLoop j) evb)"
    using paso5_loop_steps[OF run[unfolded paso5_def] j] .
qed

theorem C1_witness:
  "train_batch demo_fw 0 ([1, 2], [1, 3]) 0 0
     = (Inr 1, 1, map (Pair (TrainLoop 0))
         [ETensorTo [1, 2] [1, 2], ETensorTo [1, 3] [1, 3], EZeroGrad, EForward [1, 2] [1, 2],
          ECriterion [1, 2] [1, 3] [1], EBackward [1], EStep, EItem [1] 1])
   \<and> (\<exists>x y out loss v sa sb sc sd se sf sg.
          tensor_to demo_fw [1, 2] 0 = (Inr x, sa) \<and> tensor_to demo_fw [1, 3] sa = (Inr y, sb)
        \<and> zero_grad demo_fw sb = (Inr (), sc) \<and> forward demo_fw x sc = (Inr out, sd)
        \<and> criterion demo_fw out y sd = (Inr loss, se)
        \<and> backward demo_fw loss se = (Inr (), sf)
        \<and> opt_step demo_fw sf = (Inr (), sg) \<and> item demo_fw loss sg = (Inr v, 1)
        \<and> (1 :: real) = fadd demo_fw 0 v)
   \<and> opt_step demo_fw 0 = (Inr (), 1)
   \<and> entrenar_modelo demo_fw demo_train demo_val 1 ''demo'' 0
       = (Inr ([3 / 2], [2], [1 / 2], [4, 7], [4, 9]), 2, (Top, EModelTo) # demo_log)
   \<and> (\<exists>u u' rn. train_steps demo_fw (loader_batches demo_train 0) (fzero demo_fw) u rn u'
                    (events_at (TrainLoop 0) ((Top, EModelTo) # demo_log)))
   \<and> paso5 demo_fw demo_train demo_val 1 0 = (Inr ([3 / 2], [2]), 2, demo_vgg_log)
   \<and> (\<exists>u u' rn. train_steps demo_fw (loader_batches demo_train 0) (fzero demo_fw) u rn u'
                    (events_at (TrainLoop 0) demo_vgg_log))"
proof -
  note t = C1_training_step_sequence[where fw = demo_fw and k = 0 and b = "([1, 2], [1, 3])"
      and rl = 0 and s = 0 and rl' = 1 and s' = 1
      and evs = "map (Pair (TrainLoop 0))
        [ETensorTo [1, 2] [1, 2], ETensorTo [1, 3] [1, 3], EZeroGrad, EForward [1, 2] [1, 2],
         ECriterion [1, 2] [1, 3] [1], EBackward [1], EStep, EItem [1] 1]"
      and trn = demo_train and vld = demo_val and epochs = 1 and nombre = "''demo''"
      and st = 0 and res = "([3 / 2], [2], [1 / 2], [4, 7], [4, 9])" and ta = 2
      and eva = "(Top, EModelTo) # demo_log" and p = "([3 / 2], [2])" and tb = 2
      and evb = demo_vgg_log]
  have z: "(0 :: nat) < nat 1" by simp
  note a = t[THEN conjunct1, rule_format, OF demo_train_batch]
  note b = t[THEN conjunct2, THEN conjunct1, rule_format, OF demo_entrenar_modelo z,
      THEN conjunct2]
  note c = t[THEN conjunct2, THEN conjunct2, rule_format, OF demo_paso5 z, THEN conjunct2]
  have o: "opt_step demo_fw 0 = (Inr (), 1)" by (simp add: demo_fw_def)
  from a[unfolded fst_conv snd_conv] obtain x y out loss v sa sb sc sd se sf sg where
    f: "tensor_to demo_fw [1, 2] 0 = (Inr x, sa)" "tensor_to demo_fw [1, 3] sa = (Inr y, sb)"
       "zero_grad demo_fw sb = (Inr (), sc)" "forward demo_fw x sc = (Inr out, sd)"
       "criterion demo_fw out y sd = (Inr loss, se)" "backward demo_fw loss se = (Inr (), sf)"
       "opt_step demo_fw sf = (Inr (), sg)" "item demo_fw loss sg = (Inr v, 1)"
       "(1 :: real) = fadd demo_fw 0 v"
    by (elim exE conjE)
  have a': "\<exists>x y out loss v sa sb sc sd se sf sg.
          tensor_to demo_fw [1, 2] 0 = (Inr x, sa) \<and> tensor_to demo_fw [1, 3] sa = (Inr y, sb)
        \<and> zero_grad demo_fw sb = (Inr (), sc) \<and> forward demo_fw x sc = (Inr out, sd)
        \<and> criterion demo_fw out y sd = (Inr loss, se)
        \<and> backward demo_fw loss se = (Inr (), sf)
        \<and> opt_step demo_fw sf = (Inr (), sg) \<and> item demo_fw loss sg = (Inr v, 1)
        \<and> (1 :: real) = fadd demo_fw 0 v"
    by (intro exI conjI) (rule f)+
  show ?thesis
    using demo_train_batch a' o demo_entrenar_modelo b demo_paso5 c by (intro conjI)
qed

text \<open>
  C2. Under the contract of the framework (only a step of the optimizer changes
  entries of the table of parameters, and only those of the parameters the optimizer
  was built over; the zoo hands out parameters that require a gradient): when the
  set-up of a model has returned, every parameter of the model outside the replaced
  \<open>fc\<close> layer (ResNet18 and ResNet34), and every parameter in \<open>features\<close> (VGG19), is
  frozen and has the value that the zoo gave it; every frozen parameter lies outside
  \<open>fc\<close>, or in \<open>features\<close>; a frozen parameter is none of the parameters the
  optimizer was built over, and after \<open>entrenar_modelo\<close> (after the Paso 5 loop in the
  VGG19 notebook) it has the value it had before and is still frozen, however the
  training ends.
\<close>

theorem C2_frozen_parameters_unchanged:
  "(torch_contract T \<and> setup_resnet T v name cn st = (Inr ps, sa, eva)
      \<and> entrenar_modelo (bound T v ps) trn vld epochs nombre sa = (r, sb, evb)
      \<and> frozen (models sa v) n \<longrightarrow>
        \<not> prefix [''fc''] n \<and> n \<notin> set ps
      \<and> param_value (models sb v) n = param_value (models sa v) n \<and> frozen (models sb v) n)
   \<and> (torch_contract T \<and> zoo_trainable T \<and> setup_vgg T v cn st = (Inr ps, sa, eva)
      \<and> entrenar_modelo (bound T v ps) trn vld epochs nombre sa = (r, sb, evb)
      \<and> frozen (models sa v) n \<longrightarrow>
        prefix [''features''] n \<and> n \<notin> set ps
      \<and> param_value (models sb v) n = param_value (models sa v) n \<and> frozen (models sb v) n)
   \<and> (torch_contract T \<and> zoo_trainable T \<and> vgg19_setup T cn st = (Inr ps, sa, eva)
      \<and> paso5 (bound T Model ps) trn vld epochs sa = (rb, sb, evb)
      \<and> frozen (models sa Model) n \<longrightarrow>
        prefix [''features''] n \<and> n \<notin> set ps
      \<and> param_value (models sb Model) n = param_value (models sa Model) n
      \<and> frozen (models sb Model) n)
   \<and> (torch_contract T \<and> setup_resnet T v name cn st = (Inr ps, sa, eva)
      \<and> entrenar_modelo (bound T v ps) trn vld epochs nombre sa = (r, sb, evb)
      \<and> param_value (models sa v) n \<noteq> None \<and> \<not> prefix [''fc''] n \<longrightarrow>
        frozen (models sa v) n \<and> n \<notin> set ps
      \<and> (\<exists>m ra. t_zoo T name True (rest st) = (Inr m, ra)
            \<and> param_value (models sa v) n = param_value m n)
      \<and> param_value (models sb v) n = param_value (models sa v) n \<and> frozen (models sb v) n)
   \<and> (torch_contract T \<and> setup_vgg T v cn st = (Inr ps, sa, eva)
      \<and> entrenar_modelo (bound T v ps) trn vld epochs nombre sa = (r, sb, evb)
      \<and> param_value (models sa v) n \<noteq> None \<and> prefix [''features''] n \<longrightarrow>
        frozen (models sa v) n \<and> n \<notin> set ps
      \<and> (\<exists>m ra. t_zoo T ''vgg19'' True (rest st) = (Inr m, ra)
            \<and> param_value (models sa v) n = param_value m n)
      \<and> param_value (models sb v) n = param_value (models sa v) n \<and> frozen (models sb v) n)
   \<and> (torch_contract T \<and> vgg19_setup T cn st = (Inr ps, sa, eva)
      \<and> paso5 (bound T Model ps) trn vld epochs sa = (rb, sb, evb)
      \<and> param_value (models sa Model) n \<noteq> None \<and> prefix [''features''] n \<longrightarrow>
        frozen (models sa Model) n \<and> n \<notin> set ps
      \<and> (\<exists>m ra. t_zoo T ''vgg19'' True (rest st) = (Inr m, ra)
            \<and> param_value (models sa Model) n = param_value m n)
      \<and> param_value (models sb Model) n = param_value (models sa Model) n
      \<and> frozen (models sb Model) n)"
proof (intro conjI impI)
  assume h: "torch_contract T \<and> setup_resnet T v name cn st = (Inr ps, sa, eva)
      \<and> entrenar_modelo (bound T v ps) trn vld epochs nombre sa = (r, sb, evb)
      \<and> frozen (models sa v) n"
  then have c: "torch_contract T" and su: "setup_resnet T v name cn st = (Inr ps, sa, eva)"
    and run: "entrenar_modelo (bound T v ps) trn vld epochs nombre sa = (r, sb, evb)"
    and f: "frozen (models sa v) n" by simp_all
  show "\<not> prefix [''fc''] n" using resnet_frozen_not_optimized(1)[OF su f] .
  show n: "n \<notin> set ps" using resnet_frozen_not_optimized(2)[OF su f] .
  note e = entry_same[OF entry_kept_entrenar[OF c n run]]
  show "param_value (models sb v) n = param_value (models sa v) n" using e(1) .
  show "frozen (models sb v) n" using e(2) f by simp
next
  assume h: "torch_contract T \<and> zoo_trainable T \<and> setup_vgg T v cn st = (Inr ps, sa, eva)
      \<and> entrenar_modelo (bound T v ps) trn vld epochs nombre sa = (r, sb, evb)
      \<and> frozen (models sa v) n"
  then have c: "torch_contract T" and z: "zoo_trainable T"
    and su: "setup_vgg T v cn st = (Inr ps, sa, eva)"
    and run: "entrenar_modelo (bound T v ps) trn vld epochs nombre sa = (r, sb, evb)"
    and f: "frozen (models sa v) n" by simp_all
  show "prefix [''features''] n" using vgg_frozen_not_optimized(1)[OF z su f] .
  show n: "n \<notin> set ps" using vgg_frozen_not_optimized(2)[OF z su f] .
  note e = entry_same[OF entry_kept_entrenar[OF c n run]]
  show "param_value (models sb v) n = param_value (models sa v) n" using e(1) .
  show "frozen (models sb v) n" using e(2) f by simp
next
  assume h: "torch_contract T \<and> zoo_trainable T \<and> vgg19_setup T cn st = (Inr ps, sa, eva)
      \<and> paso5 (bound T Model ps) trn vld epochs sa = (rb, sb, evb)
      \<and> frozen (models sa Model) n"
  then have c: "torch_contract T" and z: "zoo_trainable T"
    and su: "vgg19_setup T cn st = (Inr ps, sa, eva)"
    and run: "paso5 (bound T Model ps) trn vld epochs sa = (rb, sb, evb)"
    and f: "frozen (models sa Model) n" by simp_all
  show "prefix [''features''] n" using vgg19_frozen_not_optimized(1)[OF c z su f] .
  show n: "n \<notin> set ps" using vgg19_frozen_not_optimized(2)[OF c z su f] .
  note e = entry_same[OF entry_kept_paso5[OF c n run]]
  show "param_value (models sb Model) n = param_value (models sa Model) n" using e(1) .
  show "frozen (models sb Model) n" using e(2) f by simp
next
  assume h: "torch_contract T \<and> setup_resnet T v name cn st = (Inr ps, sa, eva)
      \<and> entrenar_modelo (bound T v ps) trn vld epochs nombre sa = (r, sb, evb)
      \<and> param_value (models sa v) n \<noteq> None \<and> \<not> prefix [''fc''] n"
  then have c: "torch_contract T" and su: "setup_resnet T v name cn st = (Inr ps, sa, eva)"
    and run: "entrenar_modelo (bound T v ps) trn vld epochs nombre sa = (r, sb, evb)"
    and ex: "param_value (models sa v) n \<noteq> None" and np: "\<not> prefix [''fc''] n" by simp_all
  show f: "frozen (models sa v) n" by (rule setup_resnet_frozen(1)[OF su np ex])
  show n: "n \<notin> set ps" using resnet_frozen_not_optimized(2)[OF su f] .
  show "\<exists>m ra. t_zoo T name True (rest st) = (Inr m, ra)
            \<and> param_value (models sa v) n = param_value m n"
    by (rule setup_resnet_frozen(2)[OF su np ex])
  note e = entry_same[OF entry_kept_entrenar[OF c n run]]
  show "param_value (models sb v) n = param_value (models sa v) n" using e(1) .
  show "frozen (models sb v) n" using e(2) f by simp
next
  assume h: "torch_contract T \<and> setup_vgg T v cn st = (Inr ps, sa, eva)
      \<and> entrenar_modelo (bound T v ps) trn vld epochs nombre sa = (r, sb, evb)
      \<and> param_value (models sa v) n \<noteq> None \<and> prefix [''features''] n"
  then have c: "torch_contract T" and su: "setup_vgg T v cn st = (Inr ps, sa, eva)"
    and run: "entrenar_modelo (bound T v ps) trn vld epochs nombre sa = (r, sb, evb)"
    and ex: "param_value (models sa v) n \<noteq> None" and p: "prefix [''features''] n"
    by simp_all
  show f: "frozen (models sa v) n" by (rule setup_vgg_frozen(1)[OF su p ex])
  from setup_vgg_Inr[OF su] have "ps = parameters_under [''classifier''] (models sa v)"
    by (elim exE conjE)
  then show n: "n \<notin> set ps"
    using prefix_features_classifier[OF p] parameters_under_prefix by blast
  show "\<exists>m ra. t_zoo T ''vgg19'' True (rest st) = (Inr m, ra)
            \<and> param_value (models sa v) n = param_value m n"
    by (rule setup_vgg_frozen(2)[OF su p ex])
  note e = entry_same[OF entry_kept_entrenar[OF c n run]]
  show "param_value (models sb v) n = param_value (models sa v) n" using e(1) .
  show "frozen (models sb v) n" using e(2) f by simp
next
  assume h: "torch_contract T \<and> vgg19_setup T cn st = (Inr ps, sa, eva)
      \<and> paso5 (bound T Model ps) trn vld epochs sa = (rb, sb, evb)
      \<and> param_value (models sa Model) n \<noteq> None \<and> prefix [''features''] n"
  then have c: "torch_contract T" and su: "vgg19_setup T cn st = (Inr ps, sa, eva)"
    and run: "paso5 (bound T Model ps) trn vld epochs sa = (rb, sb, evb)"
    and ex: "param_value (models sa Model) n \<noteq> None" and p: "prefix [''features''] n"
    by simp_all
  have k: "keeps_parameters (t_model_to T)" using c by (simp add: torch_contract_def)
  show f: "frozen (models sa Model) n" by (rule vgg19_setup_frozen(1)[OF c su p ex])
  from vgg19_setup_Inr[OF su k] have "ps = parameters_under [''classifier''] (models sa Model)"
    by (elim exE conjE)
  then show n: "n \<notin> set ps"
    using prefix_features_classifier[OF p] parameters_under_prefix by blast
  show "\<exists>m ra. t_zoo T ''vgg19'' True (rest st) = (Inr m, ra)
            \<and> param_value (models sa Model) n = param_value m n"
    by (rule vgg19_setup_frozen(2)[OF c su p ex])
  note e = entry_same[OF entry_kept_paso5[OF c n run]]
  show "param_value (models sb Model) n = param_value (models sa Model) n" using e(1) .
  show "frozen (models sb Model) n" using e(2) f by simp
qed

theorem C2_witness:
  "torch_contract demo_torch \<and> zoo_trainable demo_torch
   \<and> param_value demo_resnet [''conv1'', ''weight''] = Some [1]
   \<and> param_value demo_vgg [''features'', ''0'', ''weight''] = Some [1]
   \<and> frozen (models demo_resnet_ready Resnet18) [''conv1'', ''weight'']
   \<and> frozen (models demo_vgg_ready Vgg19) [''features'', ''0'', ''weight'']
   \<and> frozen (models demo_model_ready Model) [''features'', ''0'', ''weight'']
   \<and> param_value (models (fst (snd (entrenar_modelo
         (bound demo_torch Resnet18 [[''fc'', ''weight''], [''fc'', ''bias'']])
         demo_small demo_small 1 ''ResNet18'' demo_resnet_ready))) Resnet18)
       [''conv1'', ''weight''] = Some [1]
   \<and> param_value (models (fst (snd (entrenar_modelo
         (bound demo_torch Vgg19 [[''classifier'', ''0'', ''weight''],
            [''classifier'', ''6'', ''weight''], [''classifier'', ''6'', ''bias'']])
         demo_small demo_small 1 ''VGG19'' demo_vgg_ready))) Vgg19)
       [''features'', ''0'', ''weight''] = Some [1]
   \<and> param_value (models (fst (snd (paso5
         (bound demo_torch Model [[''classifier'', ''0'', ''weight''],
            [''classifier'', ''6'', ''weight''], [''classifier'', ''6'', ''bias'']])
         demo_small demo_small 1 demo_model_ready))) Model)
       [''features'', ''0'', ''weight''] = Some [1]"
proof -
  let ?fc = "[[''fc'', ''weight''], [''fc'', ''bias'']]"
  let ?cl = "[[''classifier'', ''0'', ''weight''], [''classifier'', ''6'', ''weight''],
              [''classifier'', ''6'', ''bias'']]"
  have c: "torch_contract demo_torch" by (rule demo_torch_contract)
  have z: "zoo_trainable demo_torch" by (rule demo_zoo_trainable)
  have f1: "frozen (models demo_resnet_ready Resnet18) [''conv1'', ''weight'']"
    by (simp add: frozen_def demo_resnet_ready_params)
  have f2: "frozen (models demo_vgg_ready Vgg19) [''features'', ''0'', ''weight'']"
    by (simp add: frozen_def demo_vgg_ready_params)
  have f3: "frozen (models demo_model_ready Model) [''features'', ''0'', ''weight'']"
    by (simp add: frozen_def demo_model_ready_params)
  have v1: "param_value (models demo_resnet_ready Resnet18) [''conv1'', ''weight''] = Some [1]"
    by (simp add: param_value_def demo_resnet_ready_params)
  have v2: "param_value (models demo_vgg_ready Vgg19) [''features'', ''0'', ''weight''] = Some [1]"
    by (simp add: param_value_def demo_vgg_ready_params)
  have v3: "param_value (models demo_model_ready Model) [''features'', ''0'', ''weight''] = Some [1]"
    by (simp add: param_value_def demo_model_ready_params)
  have x1: "param_value (models demo_resnet_ready Resnet18) [''conv1'', ''weight''] \<noteq> None
      \<and> \<not> prefix [''fc''] [''conv1'', ''weight'']" using v1 by simp
  have x2: "param_value (models demo_vgg_ready Vgg19) [''features'', ''0'', ''weight''] \<noteq> None
      \<and> prefix [''features''] [''features'', ''0'', ''weight'']" using v2 by simp
  have x3: "param_value (models demo_model_ready Model) [''features'', ''0'', ''weight''] \<noteq> None
      \<and> prefix [''features''] [''features'', ''0'', ''weight'']" using v3 by simp
  have w1: "param_value demo_resnet [''conv1'', ''weight''] = Some [1]"
    by (simp add: param_value_def demo_resnet_def)
  have w2: "param_value demo_vgg [''features'', ''0'', ''weight''] = Some [1]"
    by (simp add: param_value_def demo_vgg_def)
  have s1: "setup_resnet demo_torch Resnet18 ''resnet18'' demo_classes demo_state
      = (Inr ?fc, demo_resnet_ready,
         snd (snd (setup_resnet demo_torch Resnet18 ''resnet18'' demo_classes demo_state)))"
    using demo_setup_resnet_fst by (simp add: prod_eq_iff demo_resnet_ready_def)
  have s2: "setup_vgg demo_torch Vgg19 demo_classes demo_state
      = (Inr ?cl, demo_vgg_ready, snd (snd (setup_vgg demo_torch Vgg19 demo_classes demo_state)))"
    using demo_setup_vgg_fst by (simp add: prod_eq_iff demo_vgg_ready_def)
  have s3: "vgg19_setup demo_torch demo_classes demo_state
      = (Inr ?cl, demo_model_ready, snd (snd (vgg19_setup demo_torch demo_classes demo_state)))"
    using demo_vgg19_setup_fst by (simp add: prod_eq_iff demo_model_ready_def)
  note a = C2_frozen_parameters_unchanged[where T = demo_torch and v = Resnet18
      and sa = demo_resnet_ready and ps = ?fc and n = "[''conv1'', ''weight'']"
      and trn = demo_small and vld = demo_small and epochs = 1 and nombre = "''ResNet18''",
      THEN conjunct1, rule_format, OF conjI[OF c conjI[OF s1 conjI[OF run_collapse f1]]]]
  note b = C2_frozen_parameters_unchanged[where T = demo_torch and v = Vgg19
      and sa = demo_vgg_ready and ps = ?cl and n = "[''features'', ''0'', ''weight'']"
      and trn = demo_small and vld = demo_small and epochs = 1 and nombre = "''VGG19''",
      THEN conjunct2, THEN conjunct1, rule_format,
      OF conjI[OF c conjI[OF z conjI[OF s2 conjI[OF run_collapse f2]]]]]
  note d = C2_frozen_parameters_unchanged[where T = demo_torch
      and sa = demo_model_ready and ps = ?cl and n = "[''features'', ''0'', ''weight'']"
      and trn = demo_small and vld = demo_small and epochs = 1,
      THEN conjunct2, THEN conjunct2, THEN conjunct1, rule_format,
      OF conjI[OF c conjI[OF z conjI[OF s3 conjI[OF run_collapse f3]]]]]
  note a2 = C2_frozen_parameters_unchanged[where T = demo_torch and v = Resnet18
      and sa = demo_resnet_ready and ps = ?fc and n = "[''conv1'', ''weight'']"
      and trn = demo_small and vld = demo_small and epochs = 1 and nombre = "''ResNet18''",
      THEN conjunct2, THEN conjunct2, THEN conjunct2, THEN conjunct1, rule_format,
      OF conjI[OF c conjI[OF s1 conjI[OF run_collapse x1]]]]
  note b2 = C2_frozen_parameters_unchanged[where T = demo_torch and v = Vgg19
      and sa = demo_vgg_ready and ps = ?cl and n = "[''features'', ''0'', ''weight'']"
      and trn = demo_small and vld = demo_small and epochs = 1 and nombre = "''VGG19''",
      THEN conjunct2, THEN conjunct2, THEN conjunct2, THEN conjunct2, THEN conjunct1,
      rule_format, OF conjI[OF c conjI[OF s2 conjI[OF run_collapse x2]]]]
  note d2 = C2_frozen_parameters_unchanged[where T = demo_torch
      and sa = demo_model_ready and ps = ?cl and n = "[''features'', ''0'', ''weight'']"
      and trn = demo_small and vld = demo_small and epochs = 1,
      THEN conjunct2, THEN conjunct2, THEN conjunct2, THEN conjunct2, THEN conjunct2,
      rule_format, OF conjI[OF c conjI[OF s3 conjI[OF run_collapse x3]]]]
  show ?thesis
    using c z w1 w2 a2[THEN conjunct1] b2[THEN conjunct1] d2[THEN conjunct1] v1 v2 v3 a b d
    by simp
qed

text \<open>
  C3 (amended). When the cells of the comparison notebook have all returned, the zoo was called
  three times, for \<open>resnet18\<close>, \<open>resnet34\<close> and \<open>vgg19\<close>, each with \<open>pretrained=True\<close>;
  each model was set up by its block, after which its last layer (\<open>fc\<close>, or
  \<open>classifier[6]\<close> for VGG19) is a linear layer with as many outputs as the dataset has
  classes, and \<open>entrenar_modelo\<close> was then run on it with the two loaders. When the cells
  of the VGG19 notebook have all returned, the zoo was called once, for \<open>vgg19\<close> with
  \<open>pretrained=True\<close>; the module moved to the device has as \<open>classifier[6]\<close> a linear
  layer with as many outputs as the dataset has classes, and the Paso 5 loop was run on
  it. Whatever its outcome, the VGG19 notebook calls the zoo for no other model than
  \<open>vgg19\<close>.
\<close>

theorem C3_pretrained_models_fine_tuned:
  "(combinados_cells T cn trn vld epochs st = (Inr u, st', evs) \<longrightarrow>
      zoo_calls evs = [(''resnet18'', True), (''resnet34'', True), (''vgg19'', True)]
    \<and> (\<exists>ps18 sa eva n18 r18 sb evb ps34 sc evc n34 r34 sd evd psv se eve nv rv sf evf.
          setup_resnet T Resnet18 ''resnet18'' cn st = (Inr ps18, sa, eva)
        \<and> layer_shape (models sa Resnet18) [''fc''] = Some (n18, int (length cn))
        \<and> entrenar_modelo (bound T Resnet18 ps18) trn vld epochs ''ResNet18'' sa
            = (Inr r18, sb, evb)
        \<and> setup_resnet T Resnet34 ''resnet34'' cn sb = (Inr ps34, sc, evc)
        \<and> layer_shape (models sc Resnet34) [''fc''] = Some (n34, int (length cn))
        \<and> entrenar_modelo (bound T Resnet34 ps34) trn vld epochs ''ResNet34'' sc
            = (Inr r34, sd, evd)
        \<and> setup_vgg T Vgg19 cn sd = (Inr psv, se, eve)
        \<and> layer_shape (models se Vgg19) [''classifier'', ''6''] = Some (nv, int (length cn))
        \<and> entrenar_modelo (bound T Vgg19 psv) trn vld epochs ''VGG19'' se
            = (Inr rv, sf, evf)))
   \<and> (vgg19_cells T cn trn vld epochs st = (Inr u, st', evs) \<longrightarrow>
      zoo_calls evs = [(''vgg19'', True)]
    \<and> (\<exists>ps sa eva m0 nv r0 r1 losses sb evb.
          vgg19_setup T cn st = (Inr ps, sa, eva)
        \<and> layer_shape m0 [''classifier'', ''6''] = Some (nv, int (length cn))
        \<and> t_model_to T m0 r0 = (Inr (), models sa Model, r1)
        \<and> paso5 (bound T Model ps) trn vld epochs sa = (Inr losses, sb, evb)))
   \<and> prefix (zoo_calls (snd (snd (vgg19_cells T cn trn vld epochs st)))) [(''vgg19'', True)]"
proof (intro conjI impI)
  assume "combinados_cells T cn trn vld epochs st = (Inr u, st', evs)"
  from combinados_cells_Inr[OF this] obtain ps18 sa eva r18 sb evb ps34 sc evc r34 sd evd psv se
      eve rv sf evf where
    a: "setup_resnet T Resnet18 ''resnet18'' cn st = (Inr ps18, sa, eva)" and
    b: "entrenar_modelo (bound T Resnet18 ps18) trn vld epochs ''ResNet18'' sa
          = (Inr r18, sb, evb)" and
    c: "setup_resnet T Resnet34 ''resnet34'' cn sb = (Inr ps34, sc, evc)" and
    d: "entrenar_modelo (bound T Resnet34 ps34) trn vld epochs ''ResNet34'' sc
          = (Inr r34, sd, evd)" and
    e: "setup_vgg T Vgg19 cn sd = (Inr psv, se, eve)" and
    f: "entrenar_modelo (bound T Vgg19 psv) trn vld epochs ''VGG19'' se = (Inr rv, sf, evf)" and
    Z: "zoo_calls evs = [(''resnet18'', True), (''resnet34'', True), (''vgg19'', True)]"
    by (elim exE conjE)
  show "zoo_calls evs = [(''resnet18'', True), (''resnet34'', True), (''vgg19'', True)]"
    by (rule Z)
  from setup_resnet_log(5)[OF a] obtain n18 where
    la: "layer_shape (models sa Resnet18) [''fc''] = Some (n18, int (length cn))" by blast
  from setup_resnet_log(5)[OF c] obtain n34 where
    lc: "layer_shape (models sc Resnet34) [''fc''] = Some (n34, int (length cn))" by blast
  from setup_vgg_log(5)[OF e] obtain nv where
    le: "layer_shape (models se Vgg19) [''classifier'', ''6''] = Some (nv, int (length cn))"
    by blast
  show "\<exists>ps18 sa eva n18 r18 sb evb ps34 sc evc n34 r34 sd evd psv se eve nv rv sf evf.
          setup_resnet T Resnet18 ''resnet18'' cn st = (Inr ps18, sa, eva)
        \<and> layer_shape (models sa Resnet18) [''fc''] = Some (n18, int (length cn))
        \<and> entrenar_modelo (bound T Resnet18 ps18) trn vld epochs ''ResNet18'' sa
            = (Inr r18, sb, evb)
        \<and> setup_resnet T Resnet34 ''resnet34'' cn sb = (Inr ps34, sc, evc)
        \<and> layer_shape (models sc Resnet34) [''fc''] = Some (n34, int (length cn))
        \<and> entrenar_modelo (bound T Resnet34 ps34) trn vld epochs ''ResNet34'' sc
            = (Inr r34, sd, evd)
        \<and> setup_vgg T Vgg19 cn sd = (Inr psv, se, eve)
        \<and> layer_shape (models se Vgg19) [''classifier'', ''6''] = Some (nv, int (length cn))
        \<and> entrenar_modelo (bound T Vgg19 psv) trn vld epochs ''VGG19'' se
            = (Inr rv, sf, evf)"
    by (intro exI conjI) (rule a la b c lc d e le f)+
next
  assume "vgg19_cells T cn trn vld epochs st = (Inr u, st', evs)"
  from vgg19_cells_Inr[OF this] obtain ps sa eva losses sb evb where
    a: "vgg19_setup T cn st = (Inr ps, sa, eva)" and
    b: "paso5 (bound T Model ps) trn vld epochs sa = (Inr losses, sb, evb)" and
    Z: "zoo_calls evs = [(''vgg19'', True)]"
    by (elim exE conjE)
  show "zoo_calls evs = [(''vgg19'', True)]" by (rule Z)
  from vgg19_setup_log[OF a] obtain m0 nv r0 r1 where
    l: "layer_shape m0 [''classifier'', ''6''] = Some (nv, int (length cn))" and
    t: "t_model_to T m0 r0 = (Inr (), models sa Model, r1)"
    by (elim exE conjE)
  show "\<exists>ps sa eva m0 nv r0 r1 losses sb evb.
          vgg19_setup T cn st = (Inr ps, sa, eva)
        \<and> layer_shape m0 [''classifier'', ''6''] = Some (nv, int (length cn))
        \<and> t_model_to T m0 r0 = (Inr (), models sa Model, r1)
        \<and> paso5 (bound T Model ps) trn vld epochs sa = (Inr losses, sb, evb)"
    by (intro exI conjI) (rule a l t b)+
next
  show "prefix (zoo_calls (snd (snd (vgg19_cells T cn trn vld epochs st)))) [(''vgg19'', True)]"
    by (rule vgg19_cells_zoo_prefix)
qed

theorem C3_witness:
  "fst (combinados_cells demo_torch demo_classes demo_small demo_small 1 demo_state) = Inr ()
   \<and> zoo_calls
       (snd (snd (combinados_cells demo_torch demo_classes demo_small demo_small 1 demo_state)))
       = [(''resnet18'', True), (''resnet34'', True), (''vgg19'', True)]
   \<and> (\<exists>(m18 :: (int list, unit) module) (m34 :: (int list, unit) module)
         (mv :: (int list, unit) module) n18 n34 nv.
          layer_shape m18 [''fc''] = Some (n18, 2) \<and> layer_shape m34 [''fc''] = Some (n34, 2)
        \<and> layer_shape mv [''classifier'', ''6''] = Some (nv, 2))
   \<and> fst (vgg19_cells demo_torch demo_classes demo_small demo_small 1 demo_state) = Inr ()
   \<and> zoo_calls
       (snd (snd (vgg19_cells demo_torch demo_classes demo_small demo_small 1 demo_state)))
       = [(''vgg19'', True)]
   \<and> (\<exists>(m0 :: (int list, unit) module) nv.
          layer_shape m0 [''classifier'', ''6''] = Some (nv, 2))"
proof -
  let ?c = "combinados_cells demo_torch demo_classes demo_small demo_small 1 demo_state"
  let ?v = "vgg19_cells demo_torch demo_classes demo_small demo_small 1 demo_state"
  have rc: "?c = (Inr (), fst (snd ?c), snd (snd ?c))"
    using demo_combinados_fst by (simp add: prod_eq_iff)
  have rv: "?v = (Inr (), fst (snd ?v), snd (snd ?v))"
    using demo_vgg19_cells_fst by (simp add: prod_eq_iff)
  have n: "int (length demo_classes) = 2" by (simp add: demo_classes_def)
  note t = C3_pretrained_models_fine_tuned[where T = demo_torch and cn = demo_classes
      and trn = demo_small and vld = demo_small and epochs = 1 and st = demo_state and u = "()",
      unfolded n]
  note tc = t[where st' = "fst (snd ?c)" and evs = "snd (snd ?c)", THEN conjunct1, rule_format,
      OF rc]
  note tv = t[where st' = "fst (snd ?v)" and evs = "snd (snd ?v)", THEN conjunct2,
      THEN conjunct1, rule_format, OF rv]
  from tc obtain sa sc se :: "(int list, unit, demo_rest) pystate" and n18 n34 nv where
    "layer_shape (models sa Resnet18) [''fc''] = Some (n18, 2)"
    "layer_shape (models sc Resnet34) [''fc''] = Some (n34, 2)"
    "layer_shape (models se Vgg19) [''classifier'', ''6''] = Some (nv, 2)"
    by (elim exE conjE)
  then have 1: "\<exists>(m18 :: (int list, unit) module) (m34 :: (int list, unit) module)
         (mv :: (int list, unit) module) n18 n34 nv.
          layer_shape m18 [''fc''] = Some (n18, 2) \<and> layer_shape m34 [''fc''] = Some (n34, 2)
        \<and> layer_shape mv [''classifier'', ''6''] = Some (nv, 2)"
    by (intro exI conjI)
  from tv obtain m0 :: "(int list, unit) module" and nv where
    "layer_shape m0 [''classifier'', ''6''] = Some (nv, 2)"
    by (elim exE conjE)
  then have 2: "\<exists>(m0 :: (int list, unit) module) nv.
          layer_shape m0 [''classifier'', ''6''] = Some (nv, 2)"
    by (intro exI)
  show ?thesis
    using tc[THEN conjunct1] tv[THEN conjunct1] 1 2 demo_combinados_fst demo_vgg19_cells_fst
    by (intro conjI)
qed

theorem C3_counterexample:
  "zoo_calls
     (snd (snd (fruitscan_vgg19 demo_torch demo_classes demo_small demo_small demo_state)))
     = [(''vgg19'', True)]"
  unfolding fruitscan_vgg19_def vgg19_cells_zoo
  by (simp add: demo_torch_def)

text \<open>
  C4. When the epoch loop returns, the i-th entry of the list of training losses is
  the float sum (from 0.0, in batch order) of the values that \<open>loss.item()\<close> returned in
  the training loop of epoch i, divided by \<open>len(train_loader)\<close>; the i-th entry of the
  list of validation losses is the same for the validation loop and \<open>len(val_loader)\<close>;
  both lists have exactly \<open>epochs\<close> entries. This holds for the loop of
  \<open>entrenar_modelo\<close> and for Paso 5 of the VGG19 notebook.
\<close>

theorem C4_epoch_losses_are_means:
  "(entrenar_epochs fw trn vld epochs s = (Inr l, s', evs) \<longrightarrow>
      length (train_losses l) = nat epochs \<and> length (val_losses l) = nat epochs \<and>
      (\<forall>i<nat epochs.
         train_losses l ! i = fdiv fw (foldl (fadd fw) (fzero fw)
            (item_values (TrainLoop i) evs)) (int (loader_len trn)) \<and>
         val_losses l ! i = fdiv fw (foldl (fadd fw) (fzero fw)
            (item_values (ValLoop i) evs)) (int (loader_len vld))))
   \<and> (paso5 fw trn vld epochs s = (Inr p, s2, evs2) \<longrightarrow>
      length (fst p) = nat epochs \<and> length (snd p) = nat epochs \<and>
      (\<forall>i<nat epochs.
         fst p ! i = fdiv fw (foldl (fadd fw) (fzero fw)
            (item_values (TrainLoop i) evs2)) (int (loader_len trn)) \<and>
         snd p ! i = fdiv fw (foldl (fadd fw) (fzero fw)
            (item_values (ValLoop i) evs2)) (int (loader_len vld))))"
proof (intro conjI impI)
  assume run: "entrenar_epochs fw trn vld epochs s = (Inr l, s', evs)"
  note lists = entrenar_epochs_lists[OF run]
  show "length (train_losses l) = nat epochs" "length (val_losses l) = nat epochs"
    by (simp_all add: lists)
  show "\<forall>i<nat epochs.
         train_losses l ! i = fdiv fw (foldl (fadd fw) (fzero fw)
            (item_values (TrainLoop i) evs)) (int (loader_len trn)) \<and>
         val_losses l ! i = fdiv fw (foldl (fadd fw) (fzero fw)
            (item_values (ValLoop i) evs)) (int (loader_len vld))"
    by (simp add: lists)
next
  assume run: "paso5 fw trn vld epochs s = (Inr p, s2, evs2)"
  note lists = paso5_lists[OF run]
  show "length (fst p) = nat epochs" "length (snd p) = nat epochs"
    by (simp_all add: lists)
  show "\<forall>i<nat epochs.
         fst p ! i = fdiv fw (foldl (fadd fw) (fzero fw)
            (item_values (TrainLoop i) evs2)) (int (loader_len trn)) \<and>
         snd p ! i = fdiv fw (foldl (fadd fw) (fzero fw)
            (item_values (ValLoop i) evs2)) (int (loader_len vld))"
    by (simp add: lists)
qed

theorem C4_witness:
  "entrenar_epochs demo_fw demo_train demo_val 1 0 =
     (Inr \<lparr>train_losses = [3 / 2], val_losses = [2], val_accuracies = [1 / 2],
           y_true = Some [4, 7], y_pred = Some [4, 9]\<rparr>, 2, demo_log)
   \<and> paso5 demo_fw demo_train demo_val 1 0 = (Inr ([3 / 2], [2]), 2, demo_vgg_log)
   \<and> item_values (TrainLoop 0) demo_log = [1, 2]
   \<and> item_values (ValLoop 0) demo_log = [2]
   \<and> [3 / 2 :: real] ! 0 = fdiv demo_fw (foldl (fadd demo_fw) (fzero demo_fw)
        (item_values (TrainLoop 0) demo_log)) (int (loader_len demo_train))
   \<and> [2 :: real] ! 0 = fdiv demo_fw (foldl (fadd demo_fw) (fzero demo_fw)
        (item_values (ValLoop 0) demo_vgg_log)) (int (loader_len demo_val))"
  using C4_epoch_losses_are_means[of demo_fw demo_train demo_val 1 0
      "\<lparr>train_losses = [3 / 2], val_losses = [2], val_accuracies = [1 / 2],
           y_true = Some [4, 7], y_pred = Some [4, 9]\<rparr>" 2 demo_log "([3 / 2], [2])" 2 demo_vgg_log]
    demo_entrenar_epochs demo_paso5
  by (simp add: item_values_def demo_log_def)

text \<open>
  C5. When the cells of the comparison notebook have all returned, then after the three
  training runs, Paso 6 and Paso 7, \<open>torch.save\<close> has been called three times, each
  call on the state that the call before it left, and each call returned: on the state
  dict of \<open>resnet18\<close> and \<open>model_resnet18.pth\<close>, on that of \<open>resnet34\<close> and
  \<open>model_resnet34.pth\<close>, and on that of \<open>vgg19\<close> and \<open>model_vgg19.pth\<close>; the notebook
  ends in the state that the last call left. Each state dict is that of the module as it
  was when \<open>entrenar_modelo\<close> returned for that model, which is the module the variable
  still holds at the end, and these three calls are the only calls of \<open>torch.save\<close> in
  the log. When the cells of the VGG19 notebook have all returned, \<open>torch.save\<close> has
  been called once, on the state dict of the model as it was when the Paso 5 loop ended
  and \<open>fruitscan_model.pth\<close>, from the state that the loop left, and the notebook ends
  in the state this call left.
\<close>

theorem C5_saved_state_dicts:
  "(combinados_cells T cn trn vld epochs st = (Inr u, st', evs) \<longrightarrow>
      (\<exists>ps18 sa eva r18 sb evb ps34 sc evc r34 sd evd psv se eve rv sf evf sg evg sh evh qa qb.
          setup_resnet T Resnet18 ''resnet18'' cn st = (Inr ps18, sa, eva)
        \<and> entrenar_modelo (bound T Resnet18 ps18) trn vld epochs ''ResNet18'' sa
            = (Inr r18, sb, evb)
        \<and> setup_resnet T Resnet34 ''resnet34'' cn sb = (Inr ps34, sc, evc)
        \<and> entrenar_modelo (bound T Resnet34 ps34) trn vld epochs ''ResNet34'' sc
            = (Inr r34, sd, evd)
        \<and> setup_vgg T Vgg19 cn sd = (Inr psv, se, eve)
        \<and> entrenar_modelo (bound T Vgg19 psv) trn vld epochs ''VGG19'' se = (Inr rv, sf, evf)
        \<and> paso6 T r18 r34 rv sf = (Inr (), sg, evg)
        \<and> paso7 T cn r18 r34 rv sg = (Inr (), sh, evh)
        \<and> t_save T (t_state_dict T (models sb Resnet18)) ''model_resnet18.pth'' (rest sh)
            = (Inr (), qa)
        \<and> t_save T (t_state_dict T (models sd Resnet34)) ''model_resnet34.pth'' qa
            = (Inr (), qb)
        \<and> t_save T (t_state_dict T (models sf Vgg19)) ''model_vgg19.pth'' qb
            = (Inr (), rest st')
        \<and> models st' Resnet18 = models sb Resnet18
        \<and> models st' Resnet34 = models sd Resnet34
        \<and> models st' Vgg19 = models sf Vgg19
        \<and> saved evs = [(t_state_dict T (models sb Resnet18), ''model_resnet18.pth''),
                       (t_state_dict T (models sd Resnet34), ''model_resnet34.pth''),
                       (t_state_dict T (models sf Vgg19), ''model_vgg19.pth'')]))
   \<and> (vgg19_cells T cn trn vld epochs st = (Inr u, st', evs) \<longrightarrow>
      (\<exists>ps sa eva losses sb evb.
          vgg19_setup T cn st = (Inr ps, sa, eva)
        \<and> paso5 (bound T Model ps) trn vld epochs sa = (Inr losses, sb, evb)
        \<and> t_save T (t_state_dict T (models sb Model)) ''fruitscan_model.pth'' (rest sb)
            = (Inr (), rest st')
        \<and> models st' = models sb
        \<and> saved evs = [(t_state_dict T (models sb Model), ''fruitscan_model.pth'')]))"
proof (intro conjI impI)
  assume "combinados_cells T cn trn vld epochs st = (Inr u, st', evs)"
  from combinados_cells_Inr[OF this] obtain ps18 sa eva r18 sb evb ps34 sc evc r34 sd evd psv se
      eve rv sf evf sg evg sh evh evi where
    a: "setup_resnet T Resnet18 ''resnet18'' cn st = (Inr ps18, sa, eva)" and
    b: "entrenar_modelo (bound T Resnet18 ps18) trn vld epochs ''ResNet18'' sa
          = (Inr r18, sb, evb)" and
    c: "setup_resnet T Resnet34 ''resnet34'' cn sb = (Inr ps34, sc, evc)" and
    d: "entrenar_modelo (bound T Resnet34 ps34) trn vld epochs ''ResNet34'' sc
          = (Inr r34, sd, evd)" and
    e: "setup_vgg T Vgg19 cn sd = (Inr psv, se, eve)" and
    f: "entrenar_modelo (bound T Vgg19 psv) trn vld epochs ''VGG19'' se = (Inr rv, sf, evf)" and
    p6: "paso6 T r18 r34 rv sf = (Inr (), sg, evg)" and
    p7: "paso7 T cn r18 r34 rv sg = (Inr (), sh, evh)" and
    p8: "paso8 T sh = (Inr u, st', evi)" and
    m: "models sh Resnet18 = models sb Resnet18" "models sh Resnet34 = models sd Resnet34"
       "models sh Vgg19 = models sf Vgg19" and
    S: "saved evs = saved evi"
    by (elim exE conjE)
  from paso8_Inr[OF p8] obtain qa qb where
    t: "t_save T (t_state_dict T (models sb Resnet18)) ''model_resnet18.pth'' (rest sh)
          = (Inr (), qa)"
       "t_save T (t_state_dict T (models sd Resnet34)) ''model_resnet34.pth'' qa = (Inr (), qb)"
       "t_save T (t_state_dict T (models sf Vgg19)) ''model_vgg19.pth'' qb = (Inr (), rest st')"
    and ms: "models st' = models sh"
    and S8: "saved evi = [(t_state_dict T (models sb Resnet18), ''model_resnet18.pth''),
                       (t_state_dict T (models sd Resnet34), ''model_resnet34.pth''),
                       (t_state_dict T (models sf Vgg19), ''model_vgg19.pth'')]"
    unfolding m by (elim exE conjE)
  have m': "models st' Resnet18 = models sb Resnet18" "models st' Resnet34 = models sd Resnet34"
       "models st' Vgg19 = models sf Vgg19" using ms m by simp_all
  have S': "saved evs = [(t_state_dict T (models sb Resnet18), ''model_resnet18.pth''),
                       (t_state_dict T (models sd Resnet34), ''model_resnet34.pth''),
                       (t_state_dict T (models sf Vgg19), ''model_vgg19.pth'')]"
    using S S8 by simp
  show "\<exists>ps18 sa eva r18 sb evb ps34 sc evc r34 sd evd psv se eve rv sf evf sg evg sh evh qa qb.
          setup_resnet T Resnet18 ''resnet18'' cn st = (Inr ps18, sa, eva)
        \<and> entrenar_modelo (bound T Resnet18 ps18) trn vld epochs ''ResNet18'' sa
            = (Inr r18, sb, evb)
        \<and> setup_resnet T Resnet34 ''resnet34'' cn sb = (Inr ps34, sc, evc)
        \<and> entrenar_modelo (bound T Resnet34 ps34) trn vld epochs ''ResNet34'' sc
            = (Inr r34, sd, evd)
        \<and> setup_vgg T Vgg19 cn sd = (Inr psv, se, eve)
        \<and> entrenar_modelo (bound T Vgg19 psv) trn vld epochs ''VGG19'' se = (Inr rv, sf, evf)
        \<and> paso6 T r18 r34 rv sf = (Inr (), sg, evg)
        \<and> paso7 T cn r18 r34 rv sg = (Inr (), sh, evh)
        \<and> t_save T (t_state_dict T (models sb Resnet18)) ''model_resnet18.pth'' (rest sh)
            = (Inr (), qa)
        \<and> t_save T (t_state_dict T (models sd Resnet34)) ''model_resnet34.pth'' qa
            = (Inr (), qb)
        \<and> t_save T (t_state_dict T (models sf Vgg19)) ''model_vgg19.pth'' qb
            = (Inr (), rest st')
        \<and> models st' Resnet18 = models sb Resnet18
        \<and> models st' Resnet34 = models sd Resnet34
        \<and> models st' Vgg19 = models sf Vgg19
        \<and> saved evs = [(t_state_dict T (models sb Resnet18), ''model_resnet18.pth''),
                       (t_state_dict T (models sd Resnet34), ''model_resnet34.pth''),
                       (t_state_dict T (models sf Vgg19), ''model_vgg19.pth'')]"
    by (intro exI conjI) (rule a b c d e f p6 p7 t m' S')+
next
  assume "vgg19_cells T cn trn vld epochs st = (Inr u, st', evs)"
  from vgg19_cells_Inr[OF this] obtain ps sa eva losses sb evb where
    a: "vgg19_setup T cn st = (Inr ps, sa, eva)" and
    b: "paso5 (bound T Model ps) trn vld epochs sa = (Inr losses, sb, evb)" and
    t: "t_save T (t_state_dict T (models sb Model)) ''fruitscan_model.pth'' (rest sb)
          = (Inr (), rest st')" and
    m: "models st' = models sb" and
    S: "saved evs = [(t_state_dict T (models sb Model), ''fruitscan_model.pth'')]"
    by (elim exE conjE)
  show "\<exists>ps sa eva losses sb evb.
          vgg19_setup T cn st = (Inr ps, sa, eva)
        \<and> paso5 (bound T Model ps) trn vld epochs sa = (Inr losses, sb, evb)
        \<and> t_save T (t_state_dict T (models sb Model)) ''fruitscan_model.pth'' (rest sb)
            = (Inr (), rest st')
        \<and> models st' = models sb
        \<and> saved evs = [(t_state_dict T (models sb Model), ''fruitscan_model.pth'')]"
    by (intro exI conjI) (rule a b t m S)+
qed

theorem C5_witness:
  "fst (combinados_cells demo_torch demo_classes demo_small demo_small 1 demo_state) = Inr ()
   \<and> (\<exists>m18 m34 mv qh qa qb.
        t_save demo_torch (t_state_dict demo_torch m18) ''model_resnet18.pth'' qh = (Inr (), qa)
      \<and> t_save demo_torch (t_state_dict demo_torch m34) ''model_resnet34.pth'' qa = (Inr (), qb)
      \<and> t_save demo_torch (t_state_dict demo_torch mv) ''model_vgg19.pth'' qb
          = (Inr (), rest (fst (snd (combinados_cells demo_torch demo_classes demo_small
                                       demo_small 1 demo_state))))
      \<and> saved (snd (snd (combinados_cells demo_torch demo_classes demo_small demo_small 1
                           demo_state)))
          = [(t_state_dict demo_torch m18, ''model_resnet18.pth''),
             (t_state_dict demo_torch m34, ''model_resnet34.pth''),
             (t_state_dict demo_torch mv, ''model_vgg19.pth'')])
   \<and> saved (snd (snd (combinados_cells demo_torch demo_classes demo_small demo_small 1
                         demo_state)))
       = [([(''conv1weight'', [1]), (''fcweight'', [5]), (''fcbias'', [3])], ''model_resnet18.pth''),
          ([(''conv1weight'', [1]), (''fcweight'', [5]), (''fcbias'', [3])], ''model_resnet34.pth''),
          ([(''features0weight'', [1]), (''classifier0weight'', [3]), (''classifier6weight'', [9]),
            (''classifier6bias'', [3])], ''model_vgg19.pth'')]
   \<and> snd (rest (fst (snd (combinados_cells demo_torch demo_classes demo_small demo_small 1
                             demo_state))))
       = [(''model_resnet18.pth'', [(''conv1weight'', [1]), (''fcweight'', [5]), (''fcbias'', [3])]),
          (''model_resnet34.pth'', [(''conv1weight'', [1]), (''fcweight'', [5]), (''fcbias'', [3])]),
          (''model_vgg19.pth'', [(''features0weight'', [1]), (''classifier0weight'', [3]),
              (''classifier6weight'', [9]), (''classifier6bias'', [3])])]
   \<and> fst (vgg19_cells demo_torch demo_classes demo_small demo_small 1 demo_state) = Inr ()
   \<and> (\<exists>m qh.
        t_save demo_torch (t_state_dict demo_torch m) ''fruitscan_model.pth'' qh
          = (Inr (), rest (fst (snd (vgg19_cells demo_torch demo_classes demo_small demo_small 1
                                       demo_state))))
      \<and> saved (snd (snd (vgg19_cells demo_torch demo_classes demo_small demo_small 1
                           demo_state)))
          = [(t_state_dict demo_torch m, ''fruitscan_model.pth'')])
   \<and> saved (snd (snd (vgg19_cells demo_torch demo_classes demo_small demo_small 1 demo_state)))
       = [([(''features0weight'', [1]), (''classifier0weight'', [3]), (''classifier6weight'', [9]),
            (''classifier6bias'', [3])], ''fruitscan_model.pth'')]
   \<and> snd (rest (fst (snd (vgg19_cells demo_torch demo_classes demo_small demo_small 1
                             demo_state))))
       = [(''fruitscan_model.pth'', [(''features0weight'', [1]), (''classifier0weight'', [3]),
              (''classifier6weight'', [9]), (''classifier6bias'', [3])])]"
proof -
  let ?c = "combinados_cells demo_torch demo_classes demo_small demo_small 1 demo_state"
  let ?v = "vgg19_cells demo_torch demo_classes demo_small demo_small 1 demo_state"
  have rc: "?c = (Inr (), fst (snd ?c), snd (snd ?c))"
    using demo_combinados_fst by (simp add: prod_eq_iff)
  have rv: "?v = (Inr (), fst (snd ?v), snd (snd ?v))"
    using demo_vgg19_cells_fst by (simp add: prod_eq_iff)
  from C5_saved_state_dicts[where T = demo_torch and cn = demo_classes and trn = demo_small
      and vld = demo_small and epochs = 1 and st = demo_state and u = "()"
      and st' = "fst (snd ?c)" and evs = "snd (snd ?c)", THEN conjunct1, rule_format, OF rc]
  obtain sb sd sf sh :: "(int list, unit, demo_rest) pystate" and qa qb where
    t: "t_save demo_torch (t_state_dict demo_torch (models sb Resnet18)) ''model_resnet18.pth''
          (rest sh) = (Inr (), qa)"
       "t_save demo_torch (t_state_dict demo_torch (models sd Resnet34)) ''model_resnet34.pth''
          qa = (Inr (), qb)"
       "t_save demo_torch (t_state_dict demo_torch (models sf Vgg19)) ''model_vgg19.pth'' qb
          = (Inr (), rest (fst (snd ?c)))"
       "saved (snd (snd ?c))
          = [(t_state_dict demo_torch (models sb Resnet18), ''model_resnet18.pth''),
             (t_state_dict demo_torch (models sd Resnet34), ''model_resnet34.pth''),
             (t_state_dict demo_torch (models sf Vgg19), ''model_vgg19.pth'')]"
    by (elim exE conjE)
  have 1: "\<exists>m18 m34 mv qh qa qb.
        t_save demo_torch (t_state_dict demo_torch m18) ''model_resnet18.pth'' qh = (Inr (), qa)
      \<and> t_save demo_torch (t_state_dict demo_torch m34) ''model_resnet34.pth'' qa = (Inr (), qb)
      \<and> t_save demo_torch (t_state_dict demo_torch mv) ''model_vgg19.pth'' qb
          = (Inr (), rest (fst (snd ?c)))
      \<and> saved (snd (snd ?c))
          = [(t_state_dict demo_torch m18, ''model_resnet18.pth''),
             (t_state_dict demo_torch m34, ''model_resnet34.pth''),
             (t_state_dict demo_torch mv, ''model_vgg19.pth'')]"
    by (intro exI conjI) (rule t)+
  from C5_saved_state_dicts[where T = demo_torch and cn = demo_classes and trn = demo_small
      and vld = demo_small and epochs = 1 and st = demo_state and u = "()"
      and st' = "fst (snd ?v)" and evs = "snd (snd ?v)", THEN conjunct2, rule_format, OF rv]
  obtain sb :: "(int list, unit, demo_rest) pystate" where
    w: "t_save demo_torch (t_state_dict demo_torch (models sb Model)) ''fruitscan_model.pth''
          (rest sb) = (Inr (), rest (fst (snd ?v)))"
       "saved (snd (snd ?v))
          = [(t_state_dict demo_torch (models sb Model), ''fruitscan_model.pth'')]"
    by (elim exE conjE)
  have 2: "\<exists>m qh.
        t_save demo_torch (t_state_dict demo_torch m) ''fruitscan_model.pth'' qh
          = (Inr (), rest (fst (snd ?v)))
      \<and> saved (snd (snd ?v)) = [(t_state_dict demo_torch m, ''fruitscan_model.pth'')]"
    by (intro exI conjI) (rule w)+
  show ?thesis
    using 1 2 demo_combinados_fst demo_vgg19_cells_fst demo_combinados_saved
      demo_vgg19_cells_saved demo_combinados_files demo_vgg19_cells_files
    by (intro conjI)
qed

text \<open>
  C6. \<open>entrenar_modelo\<close> catches nothing. Whenever a framework call raises, the
  function ends with that very exception; no call before it had raised, and after it
  nothing is called but the exit of the \<open>no_grad\<close> context manager, so the rest of
  the batch, the remaining batches and the remaining epochs are not run. An exception
  of a framework call that the function ends with is one that the log shows. In no
  run does the function save anything.
\<close>

theorem C6_exceptions_propagate:
  assumes "entrenar_modelo fw trn vld epochs nombre s = (r, s', evs)"
  shows "(\<forall>c e. (c, ERaise e) \<in> set evs \<longrightarrow>
            r = Inl (Raised e)
          \<and> (\<exists>pre post. evs = pre @ (c, ERaise e) # post \<and> no_raise pre
                \<and> list_all (\<lambda>x. is_exit (snd x)) post))
       \<and> (\<forall>e. r = Inl (Raised e) \<longrightarrow> (\<exists>c. (c, ERaise e) \<in> set evs))
       \<and> list_all (\<lambda>x. \<not> is_save (snd x)) evs"
proof (intro conjI allI impI)
  note ok = uncaughtD[OF uncaught_entrenar_modelo assms]
  fix c e assume m: "(c, ERaise e) \<in> set evs"
  show "r = Inl (Raised e)" using outcome_ok_raise_event(1)[OF ok m] .
  show "\<exists>pre post. evs = pre @ (c, ERaise e) # post \<and> no_raise pre
          \<and> list_all (\<lambda>x. is_exit (snd x)) post"
    using outcome_ok_raise_event(2)[OF ok m] .
next
  fix e assume "r = Inl (Raised e)"
  then show "\<exists>c. (c, ERaise e) \<in> set evs"
    using outcome_ok_Raised_logged'[OF uncaughtD[OF uncaught_entrenar_modelo assms]] by blast
next
  have "\<forall>x \<in> set evs. \<not> is_save (snd x)"
    using emitsD[OF emits_entrenar_modelo_not_save assms] by blast
  then show "list_all (\<lambda>x. \<not> is_save (snd x)) evs" by (simp add: list_all_iff)
qed

theorem C6_witness:
  "entrenar_modelo demo_bad demo_train demo_val 1 ''demo'' 0 =
     (Inl (Raised ''max failed''), 2, (Top, EModelTo) # demo_bad_log)
   \<and> (ValLoop 0, ERaise ''max failed'') \<in> set ((Top, EModelTo) # demo_bad_log)
   \<and> (\<exists>pre post. (Top, EModelTo) # demo_bad_log = pre @ (ValLoop 0, ERaise ''max failed'') # post
         \<and> no_raise pre \<and> list_all (\<lambda>x. is_exit (snd x)) post)
   \<and> list_all (\<lambda>x. \<not> is_save (snd x)) ((Top, EModelTo) # demo_bad_log)"
proof -
  have m: "(ValLoop 0, ERaise ''max failed'') \<in> set ((Top, EModelTo) # demo_bad_log)"
    by (simp add: demo_bad_log_def)
  from C6_exceptions_propagate[OF demo_bad_run] m demo_bad_run show ?thesis by blast
qed

text \<open>
  C7. When the cells of the comparison notebook have all returned, then after the three
  set-ups and training runs and Paso 6, \<open>mostrar_confusion\<close> has made, for ResNet18,
  ResNet34 and VGG19 in this order and each call on the state that the call before it
  left: the call \<open>confusion_matrix(y_true, y_pred, normalize='true')\<close> on the two lists
  that \<open>entrenar_modelo\<close> returned for that model, which returned a matrix, and the
  plot of a \<open>ConfusionMatrixDisplay\<close> of this matrix with the class names of the
  dataset as labels, which returned; the title is
  \<open>Normalized Confusion Matrix - <model>\<close>, and these are all the confusion plots in
  the log. The two lists are the labels and the predictions that the validation loop of
  the last epoch of that model's run collected.
\<close>

theorem C7_confusion_matrices:
  "combinados_cells T cn trn vld epochs st = (Inr u, st', evs) \<longrightarrow>
     (\<exists>ps18 sa eva tl18 vl18 ac18 yt18 yp18 sb evb
       ps34 sc evc tl34 vl34 ac34 yt34 yp34 sd evd
       psv se eve tlv vlv acv ytv ypv sf evf sg evg
       cm18 cm34 cmv qa qb qc qd qe qf.
         setup_resnet T Resnet18 ''resnet18'' cn st = (Inr ps18, sa, eva)
       \<and> entrenar_modelo (bound T Resnet18 ps18) trn vld epochs ''ResNet18'' sa
           = (Inr (tl18, vl18, ac18, yt18, yp18), sb, evb)
       \<and> last_epoch_labels vld epochs evb yt18 yp18
       \<and> setup_resnet T Resnet34 ''resnet34'' cn sb = (Inr ps34, sc, evc)
       \<and> entrenar_modelo (bound T Resnet34 ps34) trn vld epochs ''ResNet34'' sc
           = (Inr (tl34, vl34, ac34, yt34, yp34), sd, evd)
       \<and> last_epoch_labels vld epochs evd yt34 yp34
       \<and> setup_vgg T Vgg19 cn sd = (Inr psv, se, eve)
       \<and> entrenar_modelo (bound T Vgg19 psv) trn vld epochs ''VGG19'' se
           = (Inr (tlv, vlv, acv, ytv, ypv), sf, evf)
       \<and> last_epoch_labels vld epochs evf ytv ypv
       \<and> paso6 T (tl18, vl18, ac18, yt18, yp18) (tl34, vl34, ac34, yt34, yp34)
           (tlv, vlv, acv, ytv, ypv) sf = (Inr (), sg, evg)
       \<and> sk_confusion_matrix T yt18 yp18 ''true'' (rest sg) = (Inr cm18, qa)
       \<and> sk_display_plot T cm18 cn qa = (Inr (), qb)
       \<and> sk_confusion_matrix T yt34 yp34 ''true'' qb = (Inr cm34, qc)
       \<and> sk_display_plot T cm34 cn qc = (Inr (), qd)
       \<and> sk_confusion_matrix T ytv ypv ''true'' qd = (Inr cmv, qe)
       \<and> sk_display_plot T cmv cn qe = (Inr (), qf)
       \<and> confusion_plots evs =
           [EConfusionMatrix yt18 yp18 ''true'' cm18, EConfusionDisplay cm18 cn,
            EDisplayPlot cm18 cn, ETitle ''Normalized Confusion Matrix - ResNet18'',
            EConfusionMatrix yt34 yp34 ''true'' cm34, EConfusionDisplay cm34 cn,
            EDisplayPlot cm34 cn, ETitle ''Normalized Confusion Matrix - ResNet34'',
            EConfusionMatrix ytv ypv ''true'' cmv, EConfusionDisplay cmv cn,
            EDisplayPlot cmv cn, ETitle ''Normalized Confusion Matrix - VGG19''])"
proof
  assume "combinados_cells T cn trn vld epochs st = (Inr u, st', evs)"
  from combinados_cells_Inr[OF this] obtain ps18 sa eva r18 sb evb ps34 sc evc r34 sd evd psv se
      eve rv sf evf sg evg sh evh where
    a: "setup_resnet T Resnet18 ''resnet18'' cn st = (Inr ps18, sa, eva)" and
    b: "entrenar_modelo (bound T Resnet18 ps18) trn vld epochs ''ResNet18'' sa
          = (Inr r18, sb, evb)" and
    c: "setup_resnet T Resnet34 ''resnet34'' cn sb = (Inr ps34, sc, evc)" and
    d: "entrenar_modelo (bound T Resnet34 ps34) trn vld epochs ''ResNet34'' sc
          = (Inr r34, sd, evd)" and
    e: "setup_vgg T Vgg19 cn sd = (Inr psv, se, eve)" and
    f: "entrenar_modelo (bound T Vgg19 psv) trn vld epochs ''VGG19'' se = (Inr rv, sf, evf)" and
    p6: "paso6 T r18 r34 rv sf = (Inr (), sg, evg)" and
    p7: "paso7 T cn r18 r34 rv sg = (Inr (), sh, evh)" and
    C: "confusion_plots evs = confusion_plots evh"
    by (elim exE conjE)
  obtain tl18 vl18 ac18 yt18 yp18 where r18: "r18 = (tl18, vl18, ac18, yt18, yp18)"
    by (cases r18) auto
  obtain tl34 vl34 ac34 yt34 yp34 where r34: "r34 = (tl34, vl34, ac34, yt34, yp34)"
    by (cases r34) auto
  obtain tlv vlv acv ytv ypv where rv: "rv = (tlv, vlv, acv, ytv, ypv)"
    by (cases rv) auto
  note b' = b[unfolded r18] and d' = d[unfolded r34] and f' = f[unfolded rv]
    and p6' = p6[unfolded r18 r34 rv]
  note lb = entrenar_modelo_last[OF b'] and ld = entrenar_modelo_last[OF d']
    and lf = entrenar_modelo_last[OF f']
  from paso7_Inr[OF p7[unfolded r18 r34 rv]] obtain cm18 cm34 cmv qa qb qc qd qe qf where
    k: "sk_confusion_matrix T yt18 yp18 ''true'' (rest sg) = (Inr cm18, qa)"
       "sk_display_plot T cm18 cn qa = (Inr (), qb)"
       "sk_confusion_matrix T yt34 yp34 ''true'' qb = (Inr cm34, qc)"
       "sk_display_plot T cm34 cn qc = (Inr (), qd)"
       "sk_confusion_matrix T ytv ypv ''true'' qd = (Inr cmv, qe)"
       "sk_display_plot T cmv cn qe = (Inr (), qf)" and
    P: "confusion_plots evh =
           [EConfusionMatrix yt18 yp18 ''true'' cm18, EConfusionDisplay cm18 cn,
            EDisplayPlot cm18 cn, ETitle ''Normalized Confusion Matrix - ResNet18'',
            EConfusionMatrix yt34 yp34 ''true'' cm34, EConfusionDisplay cm34 cn,
            EDisplayPlot cm34 cn, ETitle ''Normalized Confusion Matrix - ResNet34'',
            EConfusionMatrix ytv ypv ''true'' cmv, EConfusionDisplay cmv cn,
            EDisplayPlot cmv cn, ETitle ''Normalized Confusion Matrix - VGG19'']"
    by (simp only: fst_conv snd_conv) (elim exE conjE)
  note C' = C[unfolded P]
  show "\<exists>ps18 sa eva tl18 vl18 ac18 yt18 yp18 sb evb
       ps34 sc evc tl34 vl34 ac34 yt34 yp34 sd evd
       psv se eve tlv vlv acv ytv ypv sf evf sg evg
       cm18 cm34 cmv qa qb qc qd qe qf.
         setup_resnet T Resnet18 ''resnet18'' cn st = (Inr ps18, sa, eva)
       \<and> entrenar_modelo (bound T Resnet18 ps18) trn vld epochs ''ResNet18'' sa
           = (Inr (tl18, vl18, ac18, yt18, yp18), sb, evb)
       \<and> last_epoch_labels vld epochs evb yt18 yp18
       \<and> setup_resnet T Resnet34 ''resnet34'' cn sb = (Inr ps34, sc, evc)
       \<and> entrenar_modelo (bound T Resnet34 ps34) trn vld epochs ''ResNet34'' sc
           = (Inr (tl34, vl34, ac34, yt34, yp34), sd, evd)
       \<and> last_epoch_labels vld epochs evd yt34 yp34
       \<and> setup_vgg T Vgg19 cn sd = (Inr psv, se, eve)
       \<and> entrenar_modelo (bound T Vgg19 psv) trn vld epochs ''VGG19'' se
           = (Inr (tlv, vlv, acv, ytv, ypv), sf, evf)
       \<and> last_epoch_labels vld epochs evf ytv ypv
       \<and> paso6 T (tl18, vl18, ac18, yt18, yp18) (tl34, vl34, ac34, yt34, yp34)
           (tlv, vlv, acv, ytv, ypv) sf = (Inr (), sg, evg)
       \<and> sk_confusion_matrix T yt18 yp18 ''true'' (rest sg) = (Inr cm18, qa)
       \<and> sk_display_plot T cm18 cn qa = (Inr (), qb)
       \<and> sk_confusion_matrix T yt34 yp34 ''true'' qb = (Inr cm34, qc)
       \<and> sk_display_plot T cm34 cn qc = (Inr (), qd)
       \<and> sk_confusion_matrix T ytv ypv ''true'' qd = (Inr cmv, qe)
       \<and> sk_display_plot T cmv cn qe = (Inr (), qf)
       \<and> confusion_plots evs =
           [EConfusionMatrix yt18 yp18 ''true'' cm18, EConfusionDisplay cm18 cn,
            EDisplayPlot cm18 cn, ETitle ''Normalized Confusion Matrix - ResNet18'',
            EConfusionMatrix yt34 yp34 ''true'' cm34, EConfusionDisplay cm34 cn,
            EDisplayPlot cm34 cn, ETitle ''Normalized Confusion Matrix - ResNet34'',
            EConfusionMatrix ytv ypv ''true'' cmv, EConfusionDisplay cmv cn,
            EDisplayPlot cmv cn, ETitle ''Normalized Confusion Matrix - VGG19'']"
    by (intro exI conjI) (rule a b' lb c d' ld e f' lf p6' k C')+
qed

theorem C7_witness:
  "fst (combinados_cells demo_torch demo_classes demo_small demo_small 1 demo_state) = Inr ()
   \<and> confusion_plots
       (snd (snd (combinados_cells demo_torch demo_classes demo_small demo_small 1 demo_state)))
       = [EConfusionMatrix [4, 7] [11, 16] ''true'' [[11, 0], [0, 27]],
          EConfusionDisplay [[11, 0], [0, 27]] [''freshapples'', ''rottenapples''],
          EDisplayPlot [[11, 0], [0, 27]] [''freshapples'', ''rottenapples''],
          ETitle ''Normalized Confusion Matrix - ResNet18'',
          EConfusionMatrix [4, 7] [11, 16] ''true'' [[11, 0], [0, 27]],
          EConfusionDisplay [[11, 0], [0, 27]] [''freshapples'', ''rottenapples''],
          EDisplayPlot [[11, 0], [0, 27]] [''freshapples'', ''rottenapples''],
          ETitle ''Normalized Confusion Matrix - ResNet34'',
          EConfusionMatrix [4, 7] [18, 23] ''true'' [[11, 0], [0, 41]],
          EConfusionDisplay [[11, 0], [0, 41]] [''freshapples'', ''rottenapples''],
          EDisplayPlot [[11, 0], [0, 41]] [''freshapples'', ''rottenapples''],
          ETitle ''Normalized Confusion Matrix - VGG19'']
   \<and> last_epoch_labels demo_small 1 (snd (snd demo_run18)) [4, 7] [11, 16]
   \<and> last_epoch_labels demo_small 1 (snd (snd demo_run34)) [4, 7] [11, 16]
   \<and> last_epoch_labels demo_small 1 (snd (snd demo_run19)) [4, 7] [18, 23]
   \<and> events_at (ValLoop 0) (snd (snd demo_run18))
       = [ETensorTo [2, 7] [2, 7], ETensorTo [4, 7] [4, 7], EForward [2, 7] [11, 16],
          ECriterion [11, 16] [4, 7] [16], EItem [16] 16, EMax [11, 16] [11, 16],
          ENumpy [4, 7] [4, 7], ENumpy [11, 16] [11, 16]]
   \<and> (\<exists>q q'. sk_confusion_matrix demo_torch [4, 7] [11, 16] ''true'' q
                 = (Inr [[11, 0], [0, 27]], q')
             \<and> sk_display_plot demo_torch [[11, 0], [0, 27]] demo_classes q' = (Inr (), q'))"
proof -
  let ?c = "combinados_cells demo_torch demo_classes demo_small demo_small 1 demo_state"
  let ?fc = "[[''fc'', ''weight''], [''fc'', ''bias'']]"
  let ?cl = "[[''classifier'', ''0'', ''weight''], [''classifier'', ''6'', ''weight''],
              [''classifier'', ''6'', ''bias'']]"
  have rc: "?c = (Inr (), fst (snd ?c), snd (snd ?c))"
    using demo_combinados_fst by (simp add: prod_eq_iff)
  from C7_confusion_matrices[where T = demo_torch and cn = demo_classes and trn = demo_small
      and vld = demo_small and epochs = 1 and st = demo_state and u = "()"
      and st' = "fst (snd ?c)" and evs = "snd (snd ?c)", rule_format, OF rc]
  obtain ps18 ps34 psv and sa sb sc sd se sf sg :: "(int list, unit, demo_rest) pystate"
    and eva evb evc evd eve evf :: "(site \<times> (int list, real, string) event) list"
    and tl18 vl18 ac18 tl34 vl34 ac34 tlv vlv acv :: "real list"
    and yt18 yp18 yt34 yp34 ytv ypv cm18 cm34 cmv and qa qb :: demo_rest where
    a: "setup_resnet demo_torch Resnet18 ''resnet18'' demo_classes demo_state
          = (Inr ps18, sa, eva)" and
    b: "entrenar_modelo (bound demo_torch Resnet18 ps18) demo_small demo_small 1 ''ResNet18'' sa
          = (Inr (tl18, vl18, ac18, yt18, yp18), sb, evb)" and
    lb: "last_epoch_labels demo_small 1 evb yt18 yp18" and
    c: "setup_resnet demo_torch Resnet34 ''resnet34'' demo_classes sb = (Inr ps34, sc, evc)" and
    d: "entrenar_modelo (bound demo_torch Resnet34 ps34) demo_small demo_small 1 ''ResNet34'' sc
          = (Inr (tl34, vl34, ac34, yt34, yp34), sd, evd)" and
    ld: "last_epoch_labels demo_small 1 evd yt34 yp34" and
    e: "setup_vgg demo_torch Vgg19 demo_classes sd = (Inr psv, se, eve)" and
    f: "entrenar_modelo (bound demo_torch Vgg19 psv) demo_small demo_small 1 ''VGG19'' se
          = (Inr (tlv, vlv, acv, ytv, ypv), sf, evf)" and
    lf: "last_epoch_labels demo_small 1 evf ytv ypv" and
    k: "sk_confusion_matrix demo_torch yt18 yp18 ''true'' (rest sg) = (Inr cm18, qa)"
       "sk_display_plot demo_torch cm18 demo_classes qa = (Inr (), qb)" and
    C: "confusion_plots (snd (snd ?c)) =
           [EConfusionMatrix yt18 yp18 ''true'' cm18, EConfusionDisplay cm18 demo_classes,
            EDisplayPlot cm18 demo_classes, ETitle ''Normalized Confusion Matrix - ResNet18'',
            EConfusionMatrix yt34 yp34 ''true'' cm34, EConfusionDisplay cm34 demo_classes,
            EDisplayPlot cm34 demo_classes, ETitle ''Normalized Confusion Matrix - ResNet34'',
            EConfusionMatrix ytv ypv ''true'' cmv, EConfusionDisplay cmv demo_classes,
            EDisplayPlot cmv demo_classes, ETitle ''Normalized Confusion Matrix - VGG19'']"
    by (elim exE conjE)
  from C[unfolded demo_combinados_plots] have y:
    "yt18 = [4, 7]" "yp18 = [11, 16]" "yt34 = [4, 7]" "yp34 = [11, 16]"
    "ytv = [4, 7]" "ypv = [18, 23]" "cm18 = [[11, 0], [0, 27]]"
    by auto
  have pa: "ps18 = ?fc" "sa = demo_resnet_ready"
    using a demo_setup_resnet_fst by (auto simp: demo_resnet_ready_def)
  have rb: "sb = fst (snd demo_run18)" "evb = snd (snd demo_run18)"
    using b unfolding pa demo_run18_def by simp_all
  have pc: "ps34 = ?fc" "sc = demo_ready34"
    using c demo_setup34_fst unfolding rb by (auto simp: demo_ready34_def)
  have rd: "sd = fst (snd demo_run34)" "evd = snd (snd demo_run34)"
    using d unfolding pc demo_run34_def by simp_all
  have pe: "psv = ?cl" "se = demo_ready19"
    using e demo_setup19_fst unfolding rd by (auto simp: demo_ready19_def)
  have rf: "evf = snd (snd demo_run19)"
    using f unfolding pe demo_run19_def by simp
  have q: "qb = qa" using k(2) by (auto simp: demo_torch_def split: if_splits)
  have 1: "\<exists>q q'. sk_confusion_matrix demo_torch [4, 7] [11, 16] ''true'' q
                 = (Inr [[11, 0], [0, 27]], q')
             \<and> sk_display_plot demo_torch [[11, 0], [0, 27]] demo_classes q' = (Inr (), q')"
    using k unfolding y q by blast
  show ?thesis
    using demo_combinados_fst demo_combinados_plots lb[unfolded y rb] ld[unfolded y rd]
      lf[unfolded y rf] demo_run18_val 1
    by (intro conjI)
qed

text \<open>
  C8 (amended). \<open>entrenar_modelo\<close> is a total function: from every framework state,
  for every \<open>epochs\<close> and all loaders (whose traversals are finite lists of batches),
  it ends, with a return or with an exception. The traversals it has started are
  always an initial part of: train loader, validation loader, \<open>epochs\<close> times over.
  When it returns they are exactly that, and in every epoch the training loop has
  handled every batch of the train loader once and the validation loop every batch of
  the validation loader once.
\<close>

theorem C8_loader_traversals:
  "(\<exists>r s' evs. entrenar_modelo fw trn vld epochs nombre s = (r, s', evs))
   \<and> (\<forall>r s' evs. entrenar_modelo fw trn vld epochs nombre s = (r, s', evs) \<longrightarrow>
        prefix (loader_passes evs) (concat (replicate (nat epochs) [TrainLoader, ValLoader]))
      \<and> (\<forall>res. r = Inr res \<longrightarrow>
            loader_passes evs = concat (replicate (nat epochs) [TrainLoader, ValLoader])
          \<and> (\<forall>j<nat epochs.
                train_trace (loader_batches trn j) (events_at (TrainLoop j) evs)
              \<and> (\<exists>lys lps. val_trace (loader_batches vld j) (events_at (ValLoop j) evs) lys lps))))"
proof (intro conjI allI impI)
  show "\<exists>r s' evs. entrenar_modelo fw trn vld epochs nombre s = (r, s', evs)"
    by (cases "entrenar_modelo fw trn vld epochs nombre s") auto
next
  fix r s' evs assume "entrenar_modelo fw trn vld epochs nombre s = (r, s', evs)"
  then show "prefix (loader_passes evs) (concat (replicate (nat epochs) [TrainLoader, ValLoader]))"
    by (rule entrenar_modelo_passes)
next
  fix r s' evs res
  assume run: "entrenar_modelo fw trn vld epochs nombre s = (r, s', evs)" and r: "r = Inr res"
  obtain tls vls accs yt yp where res: "res = (tls, vls, accs, yt, yp)" by (cases res) auto
  from entrenar_modelo_Inr[OF run[unfolded r res]] obtain s3 l evl where
    loop: "entrenar_epochs fw trn vld epochs s3 = (Inr l, s', evl)" and
    ev: "evs = (Top, EModelTo) # evl"
    by (elim exE conjE)
  from epochs_loop_Inr[OF loop[unfolded entrenar_epochs_def]]
  have "loader_passes evl = concat (replicate (nat epochs) [TrainLoader, ValLoader])"
    by (elim exE conjE)
  then show "loader_passes evs = concat (replicate (nat epochs) [TrainLoader, ValLoader])"
    using ev by simp
  fix j assume j: "j < nat epochs"
  show "train_trace (loader_batches trn j) (events_at (TrainLoop j) evs)"
    using entrenar_epochs_traces(1)[OF loop j] ev by simp
  show "\<exists>lys lps. val_trace (loader_batches vld j) (events_at (ValLoop j) evs) lys lps"
    using entrenar_epochs_traces(2)[OF loop j] ev by simp
qed

theorem C8_witness:
  "entrenar_modelo demo_fw demo_train demo_val 1 ''demo'' 0 =
     (Inr ([3 / 2], [2], [1 / 2], [4, 7], [4, 9]), 2, (Top, EModelTo) # demo_log)
   \<and> loader_passes ((Top, EModelTo) # demo_log) = [TrainLoader, ValLoader]
   \<and> train_trace (loader_batches demo_train 0)
        (events_at (TrainLoop 0) ((Top, EModelTo) # demo_log))
   \<and> (\<exists>lys lps. val_trace (loader_batches demo_val 0)
        (events_at (ValLoop 0) ((Top, EModelTo) # demo_log)) lys lps)"
  using C8_loader_traversals[where fw = demo_fw and trn = demo_train and vld = demo_val
      and epochs = 1 and nombre = "''demo''" and s = 0]
    demo_entrenar_modelo
  by simp

theorem C8_counterexample:
  "fst (entrenar_modelo demo_fw demo_train demo_empty 2 ''demo'' 0) = Inl ZeroDivisionError
   \<and> count_list (loader_passes (snd (snd (entrenar_modelo demo_fw demo_train demo_empty 2 ''demo'' 0))))
        TrainLoader = 1
   \<and> count_list (loader_passes (snd (snd (entrenar_modelo demo_fw demo_train demo_empty 2 ''demo'' 0))))
        ValLoader = 1"
  by (simp add: demo_empty_val_run demo_empty_val_log_def)

text \<open>
  C9 (amended). With \<open>len(train_loader)\<close> and \<open>len(val_loader)\<close> different from
  zero, \<open>entrenar_modelo\<close> never ends with \<open>ZeroDivisionError\<close>; neither does a run
  of Paso 5 of the VGG19 notebook in which, in addition, the validation loader yields a
  batch in every epoch and every \<open>labels.size(0)\<close> that the run logged is positive, so
  that \<open>total\<close> is not zero. With \<open>epochs\<close> at least 1 and \<open>len(train_loader)\<close> or
  \<open>len(val_loader)\<close> equal to zero, a run in which no framework call raises ends
  with \<open>ZeroDivisionError\<close> and does not return, in both notebooks. With \<open>epochs\<close> at
  most 0 the body of the epoch loop never runs: the loop returns at once, in the state
  it started in and with an empty log, the lists being empty, and no division is
  executed.
\<close>

theorem C9_divisions:
  "(loader_len trn \<noteq> 0 \<and> loader_len vld \<noteq> 0 \<longrightarrow>
      fst (entrenar_modelo fw trn vld epochs nombre s) \<noteq> Inl ZeroDivisionError)
   \<and> (loader_len trn \<noteq> 0 \<and> loader_len vld \<noteq> 0
        \<and> (\<forall>j<nat epochs. loader_batches vld j \<noteq> [])
        \<and> paso5 fw trn vld epochs s = (ra, sa, eva)
        \<and> (\<forall>c t n. (c, ESize t n) \<in> set eva \<longrightarrow> 0 < n) \<longrightarrow>
      ra \<noteq> Inl ZeroDivisionError)
   \<and> (1 \<le> epochs \<and> (loader_len trn = 0 \<or> loader_len vld = 0)
        \<and> entrenar_modelo fw trn vld epochs nombre s = (rb, sb, evb) \<and> no_raise evb \<longrightarrow>
      rb = Inl ZeroDivisionError)
   \<and> (1 \<le> epochs \<and> (loader_len trn = 0 \<or> loader_len vld = 0)
        \<and> paso5 fw trn vld epochs s = (rc, sc, evc) \<and> no_raise evc \<longrightarrow>
      rc = Inl ZeroDivisionError)
   \<and> (epochs \<le> 0 \<longrightarrow>
        paso5 fw trn vld epochs s = (Inr ([], []), s, [])
      \<and> entrenar_epochs fw trn vld epochs s
          = (Inr \<lparr>train_losses = [], val_losses = [], val_accuracies = [],
                   y_true = None, y_pred = None\<rparr>, s, [])
      \<and> fst (entrenar_modelo fw trn vld epochs nombre s) \<noteq> Inl ZeroDivisionError)"
proof (intro conjI impI)
  assume "loader_len trn \<noteq> 0 \<and> loader_len vld \<noteq> 0"
  then have "raises (\<lambda>x. x \<noteq> ZeroDivisionError) (entrenar_modelo fw trn vld epochs nombre)"
    by (intro raises_entrenar_modelo) simp_all
  then show "fst (entrenar_modelo fw trn vld epochs nombre s) \<noteq> Inl ZeroDivisionError"
    by (auto simp: raises_def)
next
  assume h: "loader_len trn \<noteq> 0 \<and> loader_len vld \<noteq> 0
        \<and> (\<forall>j<nat epochs. loader_batches vld j \<noteq> [])
        \<and> paso5 fw trn vld epochs s = (ra, sa, eva)
        \<and> (\<forall>c t n. (c, ESize t n) \<in> set eva \<longrightarrow> 0 < n)"
  then have run: "paso5 fw trn vld epochs s = (ra, sa, eva)"
    and len: "loader_len trn \<noteq> 0" "loader_len vld \<noteq> 0"
    and ne: "\<forall>j<nat epochs. loader_batches vld j \<noteq> []"
    and pos: "\<forall>c t n. (c, ESize t n) \<in> set eva \<longrightarrow> 0 < n"
    by simp_all
  show "ra \<noteq> Inl ZeroDivisionError" by (rule paso5_no_ZeroDivision[OF run len ne pos])
next
  assume "1 \<le> epochs \<and> (loader_len trn = 0 \<or> loader_len vld = 0)
        \<and> entrenar_modelo fw trn vld epochs nombre s = (rb, sb, evb) \<and> no_raise evb"
  then show "rb = Inl ZeroDivisionError"
    using entrenar_modelo_zero_len[of fw trn vld epochs nombre s rb sb evb] by blast
next
  assume "1 \<le> epochs \<and> (loader_len trn = 0 \<or> loader_len vld = 0)
        \<and> paso5 fw trn vld epochs s = (rc, sc, evc) \<and> no_raise evc"
  then show "rc = Inl ZeroDivisionError"
    using paso5_zero_len[of fw trn vld epochs s rc sc evc] by blast
next
  assume e: "epochs \<le> 0"
  show "paso5 fw trn vld epochs s = (Inr ([], []), s, [])" by (rule zero_epochs(1)[OF e])
  show "entrenar_epochs fw trn vld epochs s
          = (Inr \<lparr>train_losses = [], val_losses = [], val_accuracies = [],
                   y_true = None, y_pred = None\<rparr>, s, [])" by (rule zero_epochs(2)[OF e])
  show "fst (entrenar_modelo fw trn vld epochs nombre s) \<noteq> Inl ZeroDivisionError"
    by (rule zero_epochs(3)[OF e])
qed

theorem C9_witness:
  "loader_len demo_train \<noteq> 0 \<and> loader_len demo_val \<noteq> 0
   \<and> fst (entrenar_modelo demo_fw demo_train demo_val 1 ''demo'' 0) \<noteq> Inl ZeroDivisionError
   \<and> size0 demo_fw [] 0 = (Inr 0, 0)
   \<and> events_at (ValLoop 0) demo_vgg_log
       = [ETensorTo [2, 7] [2, 7], ETensorTo [4, 7] [4, 7], EForward [2, 7] [4, 9],
          ECriterion [4, 9] [4, 7] [2], EItem [2] 2, EMax [4, 9] [4, 9], ESize [4, 7] 2,
          ECountEqual [4, 9] [4, 7] 1]
   \<and> paso5 demo_fw demo_train demo_val 1 0 = (Inr ([3 / 2], [2]), 2, demo_vgg_log)
   \<and> (Inr ([3 / 2], [2]) :: string pyexn + real list \<times> real list) \<noteq> Inl ZeroDivisionError
   \<and> loader_len demo_empty = 0
   \<and> no_raise ([(Top, EModelTo), (Epoch 0, ETrainMode), (Epoch 0, EIter TrainLoader)]
        :: (site \<times> (int list, real, string) event) list)
   \<and> fst (entrenar_modelo demo_fw demo_empty demo_val 1 ''demo'' 0) = Inl ZeroDivisionError
   \<and> no_raise demo_empty_val_log
   \<and> fst (paso5 demo_fw demo_train demo_empty 1 0) = Inl ZeroDivisionError
   \<and> paso5 demo_fw demo_empty demo_empty 0 0 = (Inr ([], []), 0, [])
   \<and> entrenar_epochs demo_fw demo_empty demo_empty 0 0
       = (Inr \<lparr>train_losses = [], val_losses = [], val_accuracies = [],
                y_true = None, y_pred = None\<rparr>, 0, [])"
proof -
  have a: "loader_len demo_train \<noteq> 0 \<and> loader_len demo_val \<noteq> 0"
    by (simp add: demo_train_def demo_val_def)
  have b: "\<forall>j<nat 1. loader_batches demo_val j \<noteq> []" by (simp add: demo_val_def)
  have c: "\<forall>c t n. (c, ESize t n) \<in> set demo_vgg_log \<longrightarrow> 0 < n"
    by (auto simp: demo_vgg_log_def)
  have d: "loader_len demo_empty = 0" by (simp add: demo_empty_def)
  have e: "no_raise ([(Top, EModelTo), (Epoch 0, ETrainMode), (Epoch 0, EIter TrainLoader)]
        :: (site \<times> (int list, real, string) event) list)" by simp
  have f: "no_raise demo_empty_val_log" by (simp add: demo_empty_val_log_def)
  have g: "size0 demo_fw [] 0 = (Inr 0, 0)" by (simp add: demo_fw_def)
  have h: "events_at (ValLoop 0) demo_vgg_log
       = [ETensorTo [2, 7] [2, 7], ETensorTo [4, 7] [4, 7], EForward [2, 7] [4, 9],
          ECriterion [4, 9] [4, 7] [2], EItem [2] 2, EMax [4, 9] [4, 9], ESize [4, 7] 2,
          ECountEqual [4, 9] [4, 7] 1]"
    by (simp add: demo_vgg_log_def events_at_def)
  note thm1 = C9_divisions[where fw = demo_fw and trn = demo_train and vld = demo_val
      and epochs = 1 and nombre = "''demo''" and s = 0 and ra = "Inr ([3 / 2], [2])"
      and sa = 2 and eva = demo_vgg_log]
  note thm2 = C9_divisions[where fw = demo_fw and trn = demo_empty and vld = demo_val
      and epochs = 1 and nombre = "''demo''" and s = 0 and rb = "Inl ZeroDivisionError"
      and sb = 0
      and evb = "[(Top, EModelTo), (Epoch 0, ETrainMode), (Epoch 0, EIter TrainLoader)]"]
  note thm3 = C9_divisions[where fw = demo_fw and trn = demo_train and vld = demo_empty
      and epochs = 1 and s = 0 and rc = "Inl ZeroDivisionError"
      and sc = 2 and evc = demo_empty_val_log]
  note thm4 = C9_divisions[where fw = demo_fw and trn = demo_empty and vld = demo_empty
      and epochs = 0 and s = 0 and nombre = "''demo''"]
  have 1: "fst (entrenar_modelo demo_fw demo_train demo_val 1 ''demo'' 0) \<noteq> Inl ZeroDivisionError"
    using thm1 a by blast
  have 2: "(Inr ([3 / 2], [2]) :: string pyexn + real list \<times> real list) \<noteq> Inl ZeroDivisionError"
    using thm1 a b c demo_paso5 by blast
  have 3: "fst (entrenar_modelo demo_fw demo_empty demo_val 1 ''demo'' 0) = Inl ZeroDivisionError"
    using thm2 d e demo_empty_train_run by simp
  have 4: "fst (paso5 demo_fw demo_train demo_empty 1 0) = Inl ZeroDivisionError"
    using thm3 d f demo_empty_val_paso5 by simp
  have 5: "paso5 demo_fw demo_empty demo_empty 0 0 = (Inr ([], []), 0, [])"
    "entrenar_epochs demo_fw demo_empty demo_empty 0 0
       = (Inr \<lparr>train_losses = [], val_losses = [], val_accuracies = [],
                y_true = None, y_pred = None\<rparr>, 0, [])"
    using thm4 by simp_all
  show ?thesis using a d e f g h 1 2 3 4 5 demo_paso5 by (intro conjI) simp_all
qed

theorem C9_counterexample:
  "loader_len demo_empty = 0
   \<and> paso5 demo_fw demo_empty demo_empty 0 0 = (Inr ([], []), 0, [])
   \<and> entrenar_modelo demo_fw demo_empty demo_empty 0 ''demo'' 0 =
        (Inl UnboundLocalError, 0, [(Top, EModelTo)])"
  using demo_zero_epochs_paso5 demo_zero_epochs_run by (simp add: demo_empty_def)



end
